theory Spec2Isabelle
  imports Main "HOL-Library.Word" "HOL-Library.Signed_Division"
begin

section \<open>Semantic types (semantic/type_system.cpp)\<close>

datatype PrimitiveKind = PK_Int | PK_Float | PK_String | PK_Bool

text \<open>
  The class hierarchy under \<open>SemanticType\<close> is one datatype; the constructor is the
  \<open>kind\<close> tag of the C++ object.
\<close>

datatype SemanticType =
    PrimitiveType PrimitiveKind
  | ListType SemanticType
  | TupleType "SemanticType list"
  | FunctionType "SemanticType list" SemanticType
  | TypeVariable string
  | UnknownType

text \<open>
  \<open>equals this other\<close> is the virtual call \<open>this->equals(other)\<close>: one equation per
  overriding class. \<open>equals_elems\<close> is the index loop of \<open>TupleType::equals\<close> and
  \<open>FunctionType::equals\<close>, which runs after the two sizes were found equal.
\<close>

fun equals :: "SemanticType \<Rightarrow> SemanticType \<Rightarrow> bool"
  and equals_elems :: "SemanticType list \<Rightarrow> SemanticType list \<Rightarrow> bool" where
  "equals (PrimitiveType pk) other =
     (case other of PrimitiveType pk' \<Rightarrow> pk = pk' | _ \<Rightarrow> False)"
| "equals (ListType elem) other =
     (case other of ListType elem' \<Rightarrow> equals elem elem' | _ \<Rightarrow> False)"
| "equals (TupleType elems) other =
     (case other of
        TupleType elems' \<Rightarrow>
          if length elems \<noteq> length elems' then False else equals_elems elems elems'
      | _ \<Rightarrow> False)"
| "equals (FunctionType params ret) other =
     (case other of
        FunctionType params' ret' \<Rightarrow>
          if length params \<noteq> length params' then False
          else if \<not> equals_elems params params' then False
          else equals ret ret'
      | _ \<Rightarrow> False)"
| "equals (TypeVariable name) other =
     (case other of TypeVariable name' \<Rightarrow> name = name' | _ \<Rightarrow> False)"
| "equals UnknownType other = False"
| "equals_elems (x # xs) (y # ys) = (if \<not> equals x y then False else equals_elems xs ys)"
| "equals_elems _ _ = True"

section \<open>Runtime values (backend/value.cpp)\<close>

text \<open>
  A C++ exception \<open>std::runtime_error(msg)\<close> is the value \<open>RuntimeError msg\<close>. Where the
  source reads a vector out of range or divides \<open>INT64_MIN\<close> by \<open>-1\<close>, C++ leaves the
  behaviour undefined; the model stops with \<open>UndefinedBehaviour\<close> there.
\<close>

datatype error = RuntimeError string | UndefinedBehaviour

text \<open>The sequencing of two fallible computations: the first exception thrown wins.\<close>

definition bind_err :: "error + 'a \<Rightarrow> ('a \<Rightarrow> error + 'b) \<Rightarrow> error + 'b" where
  "bind_err m f = (case m of Inl e \<Rightarrow> Inl e | Inr x \<Rightarrow> f x)"

text \<open>
  IEEE double arithmetic is a primitive of the host language. The model takes the type of
  doubles \<open>'f\<close> and the operations the source applies to them as a parameter:
  \<open>f_eq\<close> and \<open>f_lt\<close> are \<open>==\<close> and \<open><\<close> on doubles, \<open>f_zero\<close> is the literal
  \<open>0.0\<close>, \<open>f_of_int\<close> is \<open>static_cast<double>\<close> of an \<open>int64_t\<close>, \<open>f_to_int\<close> is
  \<open>static_cast<int64_t>\<close> of a double, \<open>f_format\<close> is \<open>fmt::format("{}", d)\<close> and
  \<open>f_from_chars\<close> is \<open>std::from_chars\<close>.
\<close>

record 'f float_ops =
  f_add :: "'f \<Rightarrow> 'f \<Rightarrow> 'f"
  f_sub :: "'f \<Rightarrow> 'f \<Rightarrow> 'f"
  f_mul :: "'f \<Rightarrow> 'f \<Rightarrow> 'f"
  f_div :: "'f \<Rightarrow> 'f \<Rightarrow> 'f"
  f_pow :: "'f \<Rightarrow> 'f \<Rightarrow> 'f"
  f_neg :: "'f \<Rightarrow> 'f"
  f_abs :: "'f \<Rightarrow> 'f"
  f_floor :: "'f \<Rightarrow> 'f"
  f_ceil :: "'f \<Rightarrow> 'f"
  f_round :: "'f \<Rightarrow> 'f"
  f_eq :: "'f \<Rightarrow> 'f \<Rightarrow> bool"
  f_lt :: "'f \<Rightarrow> 'f \<Rightarrow> bool"
  f_zero :: "'f"
  f_of_int :: "64 word \<Rightarrow> 'f"
  f_to_int :: "'f \<Rightarrow> 64 word"
  f_format :: "'f \<Rightarrow> string"
  f_from_chars :: "string \<Rightarrow> 'f option"

text \<open>The tagged union \<open>Value\<close>; the constructor is the \<open>type_\<close> tag.\<close>

datatype 'f Value =
    IntV "64 word"
  | FloatV 'f
  | BoolV bool
  | StringV string
  | ListV "'f Value list"
  | TupleV "'f Value list"
  | FunctionV nat string

fun is_int :: "'f Value \<Rightarrow> bool" where
  "is_int (IntV _) = True"
| "is_int _ = False"

fun is_float :: "'f Value \<Rightarrow> bool" where
  "is_float (FloatV _) = True"
| "is_float _ = False"

fun is_string :: "'f Value \<Rightarrow> bool" where
  "is_string (StringV _) = True"
| "is_string _ = False"

fun is_list :: "'f Value \<Rightarrow> bool" where
  "is_list (ListV _) = True"
| "is_list _ = False"

fun is_tuple :: "'f Value \<Rightarrow> bool" where
  "is_tuple (TupleV _) = True"
| "is_tuple _ = False"

datatype ValueType = VT_Int | VT_Float | VT_Bool | VT_String | VT_List | VT_Tuple | VT_Function

fun vtype :: "'f Value \<Rightarrow> ValueType" where
  "vtype (IntV _) = VT_Int"
| "vtype (FloatV _) = VT_Float"
| "vtype (BoolV _) = VT_Bool"
| "vtype (StringV _) = VT_String"
| "vtype (ListV _) = VT_List"
| "vtype (TupleV _) = VT_Tuple"
| "vtype (FunctionV _ _) = VT_Function"

fun type_name :: "'f Value \<Rightarrow> string" where
  "type_name (IntV _) = ''Int''"
| "type_name (FloatV _) = ''Float''"
| "type_name (BoolV _) = ''Bool''"
| "type_name (StringV _) = ''String''"
| "type_name (ListV _) = ''List''"
| "type_name (TupleV _) = ''Tuple''"
| "type_name (FunctionV _ _) = ''Function''"

text \<open>\<open>Value::operator==\<close>; on two vectors it compares the sizes, then the elements in order.\<close>

fun value_eq :: "'f float_ops \<Rightarrow> 'f Value \<Rightarrow> 'f Value \<Rightarrow> bool"
  and values_eq :: "'f float_ops \<Rightarrow> 'f Value list \<Rightarrow> 'f Value list \<Rightarrow> bool" where
  "value_eq fo (IntV a) other = (case other of IntV b \<Rightarrow> a = b | _ \<Rightarrow> False)"
| "value_eq fo (FloatV a) other = (case other of FloatV b \<Rightarrow> f_eq fo a b | _ \<Rightarrow> False)"
| "value_eq fo (BoolV a) other = (case other of BoolV b \<Rightarrow> a = b | _ \<Rightarrow> False)"
| "value_eq fo (StringV a) other = (case other of StringV b \<Rightarrow> a = b | _ \<Rightarrow> False)"
| "value_eq fo (ListV a) other = (case other of ListV b \<Rightarrow> values_eq fo a b | _ \<Rightarrow> False)"
| "value_eq fo (TupleV a) other = (case other of TupleV b \<Rightarrow> values_eq fo a b | _ \<Rightarrow> False)"
| "value_eq fo (FunctionV i n) other = (case other of FunctionV j m \<Rightarrow> i = j | _ \<Rightarrow> False)"
| "values_eq fo [] [] = True"
| "values_eq fo (x # xs) (y # ys) = (value_eq fo x y \<and> values_eq fo xs ys)"
| "values_eq fo _ _ = False"

text \<open>\<open>std::string::operator<\<close>: lexicographic on the bytes.\<close>

fun string_lt :: "string \<Rightarrow> string \<Rightarrow> bool" where
  "string_lt [] [] = False"
| "string_lt [] (d # ds) = True"
| "string_lt (c # cs) [] = False"
| "string_lt (c # cs) (d # ds) =
     (if (of_char c :: nat) < of_char d then True
      else if (of_char d :: nat) < of_char c then False
      else string_lt cs ds)"

text \<open>\<open>Value::operator<\<close>, which throws on two kinds and on a kind with no ordering.\<close>

definition value_lt :: "'f float_ops \<Rightarrow> 'f Value \<Rightarrow> 'f Value \<Rightarrow> error + bool" where
  "value_lt fo a b =
     (if vtype a \<noteq> vtype b
      then Inl (RuntimeError (''Cannot compare '' @ type_name a @ '' and '' @ type_name b))
      else case (a, b) of
          (IntV x, IntV y) \<Rightarrow> Inr (sint x < sint y)
        | (FloatV x, FloatV y) \<Rightarrow> Inr (f_lt fo x y)
        | (StringV x, StringV y) \<Rightarrow> Inr (string_lt x y)
        | _ \<Rightarrow> Inl (RuntimeError
                 (''Type '' @ type_name a @ '' does not support ordering comparison'')))"

text \<open>\<open>Value::is_truthy\<close>.\<close>

fun is_truthy :: "'f float_ops \<Rightarrow> 'f Value \<Rightarrow> bool" where
  "is_truthy fo (BoolV b) = b"
| "is_truthy fo (IntV i) = (i \<noteq> 0)"
| "is_truthy fo (FloatV d) = (\<not> f_eq fo d (f_zero fo))"
| "is_truthy fo (StringV s) = (s \<noteq> [])"
| "is_truthy fo (ListV xs) = (xs \<noteq> [])"
| "is_truthy fo (TupleV xs) = (xs \<noteq> [])"
| "is_truthy fo (FunctionV i n) = True"

text \<open>Decimal rendering of integers, as \<open>fmt::format("{}", n)\<close> and \<open>std::to_string\<close> give it.\<close>

fun digit_char :: "nat \<Rightarrow> char" where
  "digit_char n = char_of (48 + n)"

function format_nat :: "nat \<Rightarrow> string" where
  "format_nat n = (if n < 10 then [digit_char n] else format_nat (n div 10) @ [digit_char (n mod 10)])"
  by pat_completeness auto
termination
  by (relation "measure id") auto

definition format_int :: "int \<Rightarrow> string" where
  "format_int i = (if i < 0 then CHR ''-'' # format_nat (nat (- i)) else format_nat (nat i))"

text \<open>\<open>Value::to_string\<close>; \<open>join_strings\<close> is its loop that puts ", " between elements.\<close>

fun join_strings :: "string list \<Rightarrow> string" where
  "join_strings [] = []"
| "join_strings [s] = s"
| "join_strings (s # t # ss) = s @ '', '' @ join_strings (t # ss)"

fun to_string :: "'f float_ops \<Rightarrow> 'f Value \<Rightarrow> string" where
  "to_string fo (IntV i) = format_int (sint i)"
| "to_string fo (FloatV d) = f_format fo d"
| "to_string fo (BoolV b) = (if b then ''true'' else ''false'')"
| "to_string fo (StringV s) = [CHR 0x22] @ s @ [CHR 0x22]"
| "to_string fo (ListV xs) = ''['' @ join_strings (map (to_string fo) xs) @ '']''"
| "to_string fo (TupleV xs) = ''('' @ join_strings (map (to_string fo) xs) @ '')''"
| "to_string fo (FunctionV i n) = ''<function '' @ n @ ''>''"

section \<open>Bytecode (backend/bytecode.cpp)\<close>

text \<open>The enumerators of \<open>OpCode\<close>, in the order of the enum: \<open>CONSTANT\<close> is byte 0.\<close>

datatype OpCode =
    OP_CONSTANT | OP_TRUE | OP_FALSE
  | OP_LOAD_LOCAL | OP_STORE_LOCAL | OP_LOAD_GLOBAL
  | OP_ADD | OP_SUB | OP_MUL | OP_DIV | OP_MOD | OP_POW
  | OP_EQ | OP_NE | OP_LT | OP_GT | OP_LE | OP_GE
  | OP_AND | OP_OR | OP_NOT
  | OP_NEGATE | OP_POSITIVE
  | OP_BUILD_LIST | OP_BUILD_TUPLE | OP_INDEX
  | OP_CALL_METHOD | OP_CALL_BUILTIN
  | OP_JUMP | OP_JUMP_IF_FALSE | OP_JUMP_IF_TRUE
  | OP_CALL | OP_RETURN
  | OP_POP | OP_DUP
  | OP_HALT

definition all_opcodes :: "OpCode list" where
  "all_opcodes =
     [OP_CONSTANT, OP_TRUE, OP_FALSE, OP_LOAD_LOCAL, OP_STORE_LOCAL, OP_LOAD_GLOBAL,
      OP_ADD, OP_SUB, OP_MUL, OP_DIV, OP_MOD, OP_POW,
      OP_EQ, OP_NE, OP_LT, OP_GT, OP_LE, OP_GE,
      OP_AND, OP_OR, OP_NOT, OP_NEGATE, OP_POSITIVE,
      OP_BUILD_LIST, OP_BUILD_TUPLE, OP_INDEX, OP_CALL_METHOD, OP_CALL_BUILTIN,
      OP_JUMP, OP_JUMP_IF_FALSE, OP_JUMP_IF_TRUE, OP_CALL, OP_RETURN,
      OP_POP, OP_DUP, OP_HALT]"

text \<open>\<open>static_cast<uint8_t>(opcode)\<close> and \<open>static_cast<OpCode>(byte)\<close>.\<close>

primrec opcode_byte :: "OpCode \<Rightarrow> 8 word" where
  "opcode_byte OP_CONSTANT = 0"
| "opcode_byte OP_TRUE = 1"
| "opcode_byte OP_FALSE = 2"
| "opcode_byte OP_LOAD_LOCAL = 3"
| "opcode_byte OP_STORE_LOCAL = 4"
| "opcode_byte OP_LOAD_GLOBAL = 5"
| "opcode_byte OP_ADD = 6"
| "opcode_byte OP_SUB = 7"
| "opcode_byte OP_MUL = 8"
| "opcode_byte OP_DIV = 9"
| "opcode_byte OP_MOD = 10"
| "opcode_byte OP_POW = 11"
| "opcode_byte OP_EQ = 12"
| "opcode_byte OP_NE = 13"
| "opcode_byte OP_LT = 14"
| "opcode_byte OP_GT = 15"
| "opcode_byte OP_LE = 16"
| "opcode_byte OP_GE = 17"
| "opcode_byte OP_AND = 18"
| "opcode_byte OP_OR = 19"
| "opcode_byte OP_NOT = 20"
| "opcode_byte OP_NEGATE = 21"
| "opcode_byte OP_POSITIVE = 22"
| "opcode_byte OP_BUILD_LIST = 23"
| "opcode_byte OP_BUILD_TUPLE = 24"
| "opcode_byte OP_INDEX = 25"
| "opcode_byte OP_CALL_METHOD = 26"
| "opcode_byte OP_CALL_BUILTIN = 27"
| "opcode_byte OP_JUMP = 28"
| "opcode_byte OP_JUMP_IF_FALSE = 29"
| "opcode_byte OP_JUMP_IF_TRUE = 30"
| "opcode_byte OP_CALL = 31"
| "opcode_byte OP_RETURN = 32"
| "opcode_byte OP_POP = 33"
| "opcode_byte OP_DUP = 34"
| "opcode_byte OP_HALT = 35"

definition opcode_of_byte :: "8 word \<Rightarrow> OpCode option" where
  "opcode_of_byte b = (if unat b < length all_opcodes then Some (all_opcodes ! unat b) else None)"

text \<open>The enumerators of \<open>BuiltinId\<close>.\<close>

definition BUILTIN_PRINT :: nat where "BUILTIN_PRINT = 0"
definition BUILTIN_PRINTLN :: nat where "BUILTIN_PRINTLN = 1"
definition BUILTIN_TO_STRING :: nat where "BUILTIN_TO_STRING = 2"
definition BUILTIN_READ_FILE :: nat where "BUILTIN_READ_FILE = 3"
definition BUILTIN_WRITE_FILE :: nat where "BUILTIN_WRITE_FILE = 4"
definition BUILTIN_APPEND_FILE :: nat where "BUILTIN_APPEND_FILE = 5"
definition BUILTIN_FILE_EXISTS :: nat where "BUILTIN_FILE_EXISTS = 6"

record FunctionInfo =
  fn_name :: string
  fn_offset :: nat
  fn_param_count :: nat
  fn_local_count :: nat

text \<open>
  The class \<open>Bytecode\<close>. Its \<open>debug_locations\<close>, which neither the compiler nor the VM
  reads or writes, is left out; the field \<open>functions\<close> is named \<open>function_table\<close> here.
\<close>

record 'f Bytecode =
  instructions :: "8 word list"
  constants :: "'f Value list"
  function_table :: "FunctionInfo list"

definition empty_bytecode :: "'f Bytecode" where
  "empty_bytecode = \<lparr>instructions = [], constants = [], function_table = []\<rparr>"

definition current_offset :: "'f Bytecode \<Rightarrow> nat" where
  "current_offset bc = length (instructions bc)"

text \<open>The low and the high byte of a 16-bit operand (little-endian).\<close>

definition lo_byte :: "16 word \<Rightarrow> 8 word" where
  "lo_byte w = ucast (and w 0xFF)"

definition hi_byte :: "16 word \<Rightarrow> 8 word" where
  "hi_byte w = ucast (and (drop_bit 8 w) 0xFF)"

text \<open>The four overloads of \<open>Bytecode::emit\<close>.\<close>

definition emit0 :: "OpCode \<Rightarrow> 'f Bytecode \<Rightarrow> 'f Bytecode" where
  "emit0 opc bc = bc\<lparr>instructions := instructions bc @ [opcode_byte opc]\<rparr>"

definition emit_u8 :: "OpCode \<Rightarrow> 8 word \<Rightarrow> 'f Bytecode \<Rightarrow> 'f Bytecode" where
  "emit_u8 opc operand bc = bc\<lparr>instructions := instructions bc @ [opcode_byte opc, operand]\<rparr>"

definition emit_u16 :: "OpCode \<Rightarrow> 16 word \<Rightarrow> 'f Bytecode \<Rightarrow> 'f Bytecode" where
  "emit_u16 opc operand bc =
     bc\<lparr>instructions := instructions bc @ [opcode_byte opc, lo_byte operand, hi_byte operand]\<rparr>"

definition emit_u16_u8 :: "OpCode \<Rightarrow> 16 word \<Rightarrow> 8 word \<Rightarrow> 'f Bytecode \<Rightarrow> 'f Bytecode" where
  "emit_u16_u8 opc operand1 operand2 bc =
     bc\<lparr>instructions :=
          instructions bc @ [opcode_byte opc, lo_byte operand1, hi_byte operand1, operand2]\<rparr>"

text \<open>\<open>Bytecode::add_constant\<close>: the constant is appended first, then the size is checked.\<close>

definition add_constant :: "'f Value \<Rightarrow> 'f Bytecode \<Rightarrow> error + (16 word \<times> 'f Bytecode)" where
  "add_constant v bc =
     (let cs = constants bc @ [v] in
      if length cs > 65535 then Inl (RuntimeError ''Too many constants'')
      else Inr (word_of_nat (length cs - 1), bc\<lparr>constants := cs\<rparr>))"

definition add_function :: "string \<Rightarrow> nat \<Rightarrow> nat \<Rightarrow> nat \<Rightarrow> 'f Bytecode \<Rightarrow> nat \<times> 'f Bytecode" where
  "add_function name off pc lc bc =
     (let fs = function_table bc @
                 [\<lparr>fn_name = name, fn_offset = off, fn_param_count = pc, fn_local_count = lc\<rparr>]
      in (length fs - 1, bc\<lparr>function_table := fs\<rparr>))"

text \<open>
  \<open>Bytecode::find_function\<close> returns an \<open>int\<close>: the index of the first function of that
  name, cast to \<open>int\<close>, or \<open>-1\<close>.
\<close>

fun find_function_from :: "nat \<Rightarrow> FunctionInfo list \<Rightarrow> string \<Rightarrow> int" where
  "find_function_from i [] name = - 1"
| "find_function_from i (f # fs) name =
     (if fn_name f = name then sint (word_of_nat i :: 32 word)
      else find_function_from (Suc i) fs name)"

definition find_function :: "'f Bytecode \<Rightarrow> string \<Rightarrow> int" where
  "find_function bc name = find_function_from 0 (function_table bc) name"

text \<open>
  \<open>Bytecode::patch_jump\<close> writes the two bytes of the \<open>int16_t\<close> after the opcode. Its
  \<open>offset\<close> is a \<open>size_t\<close>: \<open>offset + 1\<close> and \<open>offset + 2\<close> wrap around at \<open>2 ^ 64\<close>, so the
  bounds test passes for the two largest offsets; writing outside the vector is undefined.
\<close>

definition bc_patch_jump :: "nat \<Rightarrow> 16 word \<Rightarrow> 'f Bytecode \<Rightarrow> error + 'f Bytecode" where
  "bc_patch_jump off jump_offset bc =
     (if (off + 2) mod 2 ^ 64 \<ge> length (instructions bc)
      then Inl (RuntimeError ''Invalid jump patch offset'')
      else if (off + 1) mod 2 ^ 64 \<ge> length (instructions bc)
      then Inl UndefinedBehaviour
      else Inr (bc\<lparr>instructions :=
                  (instructions bc)[(off + 1) mod 2 ^ 64 := lo_byte jump_offset,
                                    (off + 2) mod 2 ^ 64 := hi_byte jump_offset]\<rparr>))"

section \<open>Arithmetic, comparison and logic of the VM (backend/vm.cpp)\<close>

text \<open>
  \<open>int64_t\<close> values are 64-bit words read as two's complement. Addition, subtraction,
  multiplication and negation wrap around, as the compiled code computes them. Division
  and remainder truncate towards zero; the one quotient that does not fit,
  \<open>INT64_MIN / -1\<close>, is undefined in C++.
\<close>

definition int64_min :: "64 word" where
  "int64_min = 0x8000000000000000"

definition int64_div :: "64 word \<Rightarrow> 64 word \<Rightarrow> error + 64 word" where
  "int64_div a b =
     (if a = int64_min \<and> b = - 1 then Inl UndefinedBehaviour
      else Inr (word_of_int (sint a sdiv sint b)))"

definition int64_mod :: "64 word \<Rightarrow> 64 word \<Rightarrow> error + 64 word" where
  "int64_mod a b =
     (if a = int64_min \<and> b = - 1 then Inl UndefinedBehaviour
      else Inr (word_of_int (sint a smod sint b)))"

definition binary_add :: "'f float_ops \<Rightarrow> 'f Value \<Rightarrow> 'f Value \<Rightarrow> error + 'f Value" where
  "binary_add fo a b =
     (case (a, b) of
        (IntV x, IntV y) \<Rightarrow>
          Inr (IntV (x + y))
      | (FloatV x, FloatV y) \<Rightarrow>
          Inr (FloatV (f_add fo x y))
      | (IntV x, FloatV y) \<Rightarrow>
          Inr (FloatV (f_add fo (f_of_int fo x) y))
      | (FloatV x, IntV y) \<Rightarrow>
          Inr (FloatV (f_add fo x (f_of_int fo y)))
      | _ \<Rightarrow>
          Inl (RuntimeError (''Cannot add '' @ type_name a @ '' and '' @ type_name b)))"

definition binary_sub :: "'f float_ops \<Rightarrow> 'f Value \<Rightarrow> 'f Value \<Rightarrow> error + 'f Value" where
  "binary_sub fo a b =
     (case (a, b) of
        (IntV x, IntV y) \<Rightarrow>
          Inr (IntV (x - y))
      | (FloatV x, FloatV y) \<Rightarrow>
          Inr (FloatV (f_sub fo x y))
      | (IntV x, FloatV y) \<Rightarrow>
          Inr (FloatV (f_sub fo (f_of_int fo x) y))
      | (FloatV x, IntV y) \<Rightarrow>
          Inr (FloatV (f_sub fo x (f_of_int fo y)))
      | _ \<Rightarrow>
          Inl (RuntimeError (''Cannot subtract '' @ type_name a @ '' and '' @ type_name b)))"

definition binary_mul :: "'f float_ops \<Rightarrow> 'f Value \<Rightarrow> 'f Value \<Rightarrow> error + 'f Value" where
  "binary_mul fo a b =
     (case (a, b) of
        (IntV x, IntV y) \<Rightarrow>
          Inr (IntV (x * y))
      | (FloatV x, FloatV y) \<Rightarrow>
          Inr (FloatV (f_mul fo x y))
      | (IntV x, FloatV y) \<Rightarrow>
          Inr (FloatV (f_mul fo (f_of_int fo x) y))
      | (FloatV x, IntV y) \<Rightarrow>
          Inr (FloatV (f_mul fo x (f_of_int fo y)))
      | _ \<Rightarrow>
          Inl (RuntimeError (''Cannot multiply '' @ type_name a @ '' and '' @ type_name b)))"

definition binary_div :: "'f float_ops \<Rightarrow> 'f Value \<Rightarrow> 'f Value \<Rightarrow> error + 'f Value" where
  "binary_div fo a b =
     (case (a, b) of
        (IntV x, IntV y) \<Rightarrow>
          if y = 0 then Inl (RuntimeError ''Division by zero'')
          else bind_err (int64_div x y) (\<lambda>q. Inr (IntV q))
      | (FloatV x, FloatV y) \<Rightarrow>
          if f_eq fo y (f_zero fo) then Inl (RuntimeError ''Division by zero'')
          else Inr (FloatV (f_div fo x y))
      | (IntV x, FloatV y) \<Rightarrow>
          if f_eq fo y (f_zero fo) then Inl (RuntimeError ''Division by zero'')
          else Inr (FloatV (f_div fo (f_of_int fo x) y))
      | (FloatV x, IntV y) \<Rightarrow>
          if y = 0 then Inl (RuntimeError ''Division by zero'')
          else Inr (FloatV (f_div fo x (f_of_int fo y)))
      | _ \<Rightarrow>
          Inl (RuntimeError (''Cannot divide '' @ type_name a @ '' and '' @ type_name b)))"

definition binary_mod :: "'f Value \<Rightarrow> 'f Value \<Rightarrow> error + 'f Value" where
  "binary_mod a b =
     (case (a, b) of
        (IntV x, IntV y) \<Rightarrow>
          if y = 0 then Inl (RuntimeError ''Modulo by zero'')
          else bind_err (int64_mod x y) (\<lambda>r. Inr (IntV r))
      | _ \<Rightarrow>
          Inl (RuntimeError
            (''Modulo requires two integers, got '' @ type_name a @ '' and '' @ type_name b)))"

text \<open>
  \<open>std::pow\<close> on two \<open>int64_t\<close> converts both to double; the result is cast back.
\<close>

definition binary_pow :: "'f float_ops \<Rightarrow> 'f Value \<Rightarrow> 'f Value \<Rightarrow> error + 'f Value" where
  "binary_pow fo a b =
     (case (a, b) of
        (IntV x, IntV y) \<Rightarrow>
          Inr (IntV (f_to_int fo (f_pow fo (f_of_int fo x) (f_of_int fo y))))
      | (FloatV x, FloatV y) \<Rightarrow>
          Inr (FloatV (f_pow fo x y))
      | (IntV x, FloatV y) \<Rightarrow>
          Inr (FloatV (f_pow fo (f_of_int fo x) y))
      | (FloatV x, IntV y) \<Rightarrow>
          Inr (FloatV (f_pow fo x (f_of_int fo y)))
      | _ \<Rightarrow>
          Inl (RuntimeError (''Cannot raise '' @ type_name a @ '' to power of '' @ type_name b)))"

definition binary_eq :: "'f float_ops \<Rightarrow> 'f Value \<Rightarrow> 'f Value \<Rightarrow> error + 'f Value" where
  "binary_eq fo a b = Inr (BoolV (value_eq fo a b))"

definition binary_ne :: "'f float_ops \<Rightarrow> 'f Value \<Rightarrow> 'f Value \<Rightarrow> error + 'f Value" where
  "binary_ne fo a b = Inr (BoolV (\<not> value_eq fo a b))"

definition binary_lt :: "'f float_ops \<Rightarrow> 'f Value \<Rightarrow> 'f Value \<Rightarrow> error + 'f Value" where
  "binary_lt fo a b = bind_err (value_lt fo a b) (\<lambda>r. Inr (BoolV r))"

definition binary_gt :: "'f float_ops \<Rightarrow> 'f Value \<Rightarrow> 'f Value \<Rightarrow> error + 'f Value" where
  "binary_gt fo a b = bind_err (value_lt fo b a) (\<lambda>r. Inr (BoolV r))"

definition binary_le :: "'f float_ops \<Rightarrow> 'f Value \<Rightarrow> 'f Value \<Rightarrow> error + 'f Value" where
  "binary_le fo a b = bind_err (value_lt fo b a) (\<lambda>r. Inr (BoolV (\<not> r)))"

definition binary_ge :: "'f float_ops \<Rightarrow> 'f Value \<Rightarrow> 'f Value \<Rightarrow> error + 'f Value" where
  "binary_ge fo a b = bind_err (value_lt fo a b) (\<lambda>r. Inr (BoolV (\<not> r)))"

definition binary_and :: "'f float_ops \<Rightarrow> 'f Value \<Rightarrow> 'f Value \<Rightarrow> error + 'f Value" where
  "binary_and fo a b = Inr (BoolV (is_truthy fo a \<and> is_truthy fo b))"

definition binary_or :: "'f float_ops \<Rightarrow> 'f Value \<Rightarrow> 'f Value \<Rightarrow> error + 'f Value" where
  "binary_or fo a b = Inr (BoolV (is_truthy fo a \<or> is_truthy fo b))"

definition unary_not :: "'f float_ops \<Rightarrow> 'f Value \<Rightarrow> error + 'f Value" where
  "unary_not fo a = Inr (BoolV (\<not> is_truthy fo a))"

definition unary_negate :: "'f float_ops \<Rightarrow> 'f Value \<Rightarrow> error + 'f Value" where
  "unary_negate fo a =
     (case a of
        IntV x \<Rightarrow> Inr (IntV (- x))
      | FloatV x \<Rightarrow> Inr (FloatV (f_neg fo x))
      | _ \<Rightarrow> Inl (RuntimeError (''Cannot negate '' @ type_name a)))"

definition unary_positive :: "'f Value \<Rightarrow> error + 'f Value" where
  "unary_positive a =
     (if is_int a \<or> is_float a then Inr a
      else Inl (RuntimeError (''Cannot apply unary + to '' @ type_name a)))"

section \<open>Built-in methods (VM::call_builtin_method)\<close>

definition str_contains_at :: "string \<Rightarrow> string \<Rightarrow> bool" where
  "str_contains_at s sub = (take (length sub) s = sub)"

text \<open>\<open>str.find(sub) != npos\<close>.\<close>

fun str_contains :: "string \<Rightarrow> string \<Rightarrow> bool" where
  "str_contains [] sub = (sub = [])"
| "str_contains (c # s) sub = (str_contains_at (c # s) sub \<or> str_contains s sub)"

definition starts_with :: "string \<Rightarrow> string \<Rightarrow> bool" where
  "starts_with str pre = (length str \<ge> length pre \<and> take (length pre) str = pre)"

definition ends_with :: "string \<Rightarrow> string \<Rightarrow> bool" where
  "ends_with str suf = (length str \<ge> length suf \<and> drop (length str - length suf) str = suf)"

text \<open>\<open>std::toupper\<close> and \<open>std::tolower\<close> on one byte, in the C locale.\<close>

definition to_upper_char :: "char \<Rightarrow> char" where
  "to_upper_char c =
     (let n = (of_char c :: nat) in if 97 \<le> n \<and> n \<le> 122 then char_of (n - 32) else c)"

definition to_lower_char :: "char \<Rightarrow> char" where
  "to_lower_char c =
     (let n = (of_char c :: nat) in if 65 \<le> n \<and> n \<le> 90 then char_of (n + 32) else c)"

definition trim_chars :: string where
  "trim_chars = [CHR '' '', CHR 0x09, CHR 0x0A, CHR 0x0D]"

fun find_first_not_of :: "string \<Rightarrow> string \<Rightarrow> nat option" where
  "find_first_not_of [] cs = None"
| "find_first_not_of (c # s) cs =
     (if c \<notin> set cs then Some 0 else map_option Suc (find_first_not_of s cs))"

definition find_last_not_of :: "string \<Rightarrow> string \<Rightarrow> nat option" where
  "find_last_not_of s cs = map_option (\<lambda>i. length s - 1 - i) (find_first_not_of (rev s) cs)"

definition trim :: "string \<Rightarrow> string" where
  "trim s =
     (case find_first_not_of s trim_chars of
        None \<Rightarrow> []
      | Some start \<Rightarrow>
          (case find_last_not_of s trim_chars of
             None \<Rightarrow> []
           | Some e \<Rightarrow> take (e - start + 1) (drop start s)))"

definition list_method :: "string \<Rightarrow> 'f Value list \<Rightarrow> 'f Value list \<Rightarrow> error + 'f Value" where
  "list_method method xs args =
     (if method = ''length'' then
        (if args \<noteq> [] then Inl (RuntimeError ''List.length() takes no arguments'')
         else Inr (IntV (word_of_nat (length xs))))
      else if method = ''append'' then
        (if length args \<noteq> 1 then Inl (RuntimeError ''List.append() takes exactly 1 argument'')
         else Inr (ListV (xs @ [hd args])))
      else if method = ''head'' then
        (if args \<noteq> [] then Inl (RuntimeError ''List.head() takes no arguments'')
         else if xs = [] then Inl (RuntimeError ''List.head() on empty list'')
         else Inr (hd xs))
      else if method = ''tail'' then
        (if args \<noteq> [] then Inl (RuntimeError ''List.tail() takes no arguments'')
         else if xs = [] then Inl (RuntimeError ''List.tail() on empty list'')
         else Inr (ListV (tl xs)))
      else if method = ''is_empty'' then
        (if args \<noteq> [] then Inl (RuntimeError ''List.is_empty() takes no arguments'')
         else Inr (BoolV (xs = [])))
      else if method = ''reverse'' then
        (if args \<noteq> [] then Inl (RuntimeError ''List.reverse() takes no arguments'')
         else Inr (ListV (rev xs)))
      else if method = ''concat'' then
        (case args of
           [ListV other] \<Rightarrow> Inr (ListV (xs @ other))
         | _ \<Rightarrow> Inl (RuntimeError ''List.concat() takes 1 list argument''))
      else Inl (RuntimeError (''Unknown method '' @ [CHR 0x27] @ method @ [CHR 0x27] @ '' on List'')))"

definition tuple_method :: "string \<Rightarrow> 'f Value list \<Rightarrow> 'f Value list \<Rightarrow> error + 'f Value" where
  "tuple_method method xs args =
     (if method = ''length'' then
        (if args \<noteq> [] then Inl (RuntimeError ''Tuple.length() takes no arguments'')
         else Inr (IntV (word_of_nat (length xs))))
      else Inl (RuntimeError (''Unknown method '' @ [CHR 0x27] @ method @ [CHR 0x27] @ '' on Tuple'')))"

definition string_method :: "string \<Rightarrow> string \<Rightarrow> 'f Value list \<Rightarrow> error + 'f Value" where
  "string_method method str args =
     (if method = ''length'' then
        (if args \<noteq> [] then Inl (RuntimeError ''String.length() takes no arguments'')
         else Inr (IntV (word_of_nat (length str))))
      else if method = ''is_empty'' then
        (if args \<noteq> [] then Inl (RuntimeError ''String.is_empty() takes no arguments'')
         else Inr (BoolV (str = [])))
      else if method = ''contains'' then
        (case args of
           [StringV sub] \<Rightarrow> Inr (BoolV (str_contains str sub))
         | _ \<Rightarrow> Inl (RuntimeError ''String.contains() takes 1 string argument''))
      else if method = ''starts_with'' then
        (case args of
           [StringV pre] \<Rightarrow> Inr (BoolV (starts_with str pre))
         | _ \<Rightarrow> Inl (RuntimeError ''String.starts_with() takes 1 string argument''))
      else if method = ''ends_with'' then
        (case args of
           [StringV suf] \<Rightarrow> Inr (BoolV (ends_with str suf))
         | _ \<Rightarrow> Inl (RuntimeError ''String.ends_with() takes 1 string argument''))
      else if method = ''to_upper'' then
        (if args \<noteq> [] then Inl (RuntimeError ''String.to_upper() takes no arguments'')
         else Inr (StringV (map to_upper_char str)))
      else if method = ''to_lower'' then
        (if args \<noteq> [] then Inl (RuntimeError ''String.to_lower() takes no arguments'')
         else Inr (StringV (map to_lower_char str)))
      else if method = ''trim'' then
        (if args \<noteq> [] then Inl (RuntimeError ''String.trim() takes no arguments'')
         else Inr (StringV (trim str)))
      else Inl (RuntimeError (''Unknown method '' @ [CHR 0x27] @ method @ [CHR 0x27] @ '' on String'')))"

definition int_method :: "string \<Rightarrow> 64 word \<Rightarrow> 'f Value list \<Rightarrow> error + 'f Value" where
  "int_method method val args =
     (if method = ''to_string'' then
        (if args \<noteq> [] then Inl (RuntimeError ''Int.to_string() takes no arguments'')
         else Inr (StringV (format_int (sint val))))
      else if method = ''abs'' then
        (if args \<noteq> [] then Inl (RuntimeError ''Int.abs() takes no arguments'')
         else Inr (IntV (if sint val < 0 then - val else val)))
      else Inl (RuntimeError (''Unknown method '' @ [CHR 0x27] @ method @ [CHR 0x27] @ '' on Int'')))"

definition float_method :: "'f float_ops \<Rightarrow> string \<Rightarrow> 'f \<Rightarrow> 'f Value list \<Rightarrow> error + 'f Value" where
  "float_method fo method val args =
     (if method = ''to_string'' then
        (if args \<noteq> [] then Inl (RuntimeError ''Float.to_string() takes no arguments'')
         else Inr (StringV (f_format fo val)))
      else if method = ''abs'' then
        (if args \<noteq> [] then Inl (RuntimeError ''Float.abs() takes no arguments'')
         else Inr (FloatV (f_abs fo val)))
      else if method = ''floor'' then
        (if args \<noteq> [] then Inl (RuntimeError ''Float.floor() takes no arguments'')
         else Inr (IntV (f_to_int fo (f_floor fo val))))
      else if method = ''ceil'' then
        (if args \<noteq> [] then Inl (RuntimeError ''Float.ceil() takes no arguments'')
         else Inr (IntV (f_to_int fo (f_ceil fo val))))
      else if method = ''round'' then
        (if args \<noteq> [] then Inl (RuntimeError ''Float.round() takes no arguments'')
         else Inr (IntV (f_to_int fo (f_round fo val))))
      else Inl (RuntimeError (''Unknown method '' @ [CHR 0x27] @ method @ [CHR 0x27] @ '' on Float'')))"

definition call_builtin_method ::
  "'f float_ops \<Rightarrow> string \<Rightarrow> 'f Value \<Rightarrow> 'f Value list \<Rightarrow> error + 'f Value" where
  "call_builtin_method fo method object args =
     (case object of
        ListV xs \<Rightarrow> list_method method xs args
      | TupleV xs \<Rightarrow> tuple_method method xs args
      | StringV str \<Rightarrow> string_method method str args
      | IntV val \<Rightarrow> int_method method val args
      | FloatV val \<Rightarrow> float_method fo method val args
      | _ \<Rightarrow> Inl (RuntimeError
                 (''Cannot call method '' @ [CHR 0x27] @ method @ [CHR 0x27] @ '' on ''
                    @ type_name object)))"

section \<open>The virtual machine (backend/vm.cpp)\<close>

record 'f CallFrame =
  function_index :: nat
  instruction_pointer :: nat
  stack_base :: nat
  locals :: "'f Value list"

text \<open>The constructor of \<open>CallFrame\<close>: every local starts as \<open>Int 0\<close>.\<close>

definition make_frame :: "nat \<Rightarrow> nat \<Rightarrow> nat \<Rightarrow> nat \<Rightarrow> 'f CallFrame" where
  "make_frame func_idx ip base local_count =
     \<lparr>function_index = func_idx, instruction_pointer = ip, stack_base = base,
      locals = replicate local_count (IntV 0)\<rparr>"

text \<open>
  The file system the four file built-ins reach through \<open>std::ifstream\<close>,
  \<open>std::ofstream\<close> and \<open>std::filesystem\<close> is outside the program: \<open>'w\<close> is its state.
  \<open>h_read_file\<close> gives the file's contents, or \<open>None\<close> when it cannot be opened;
  \<open>h_write_file\<close> and \<open>h_append_file\<close> give what \<open>file.good()\<close> says after the write
  (\<open>False\<close> also when the file cannot be opened) and the new state.
\<close>

record 'w host =
  h_read_file :: "'w \<Rightarrow> string \<Rightarrow> string option"
  h_write_file :: "'w \<Rightarrow> string \<Rightarrow> string \<Rightarrow> bool \<times> 'w"
  h_append_file :: "'w \<Rightarrow> string \<Rightarrow> string \<Rightarrow> bool \<times> 'w"
  h_file_exists :: "'w \<Rightarrow> string \<Rightarrow> bool"

text \<open>
  The state of a \<open>VM\<close>. Both stacks are lists whose head is the vector's \<open>back()\<close>:
  \<open>hd (stack vm)\<close> is the top of the operand stack and \<open>hd (call_stack vm)\<close> is
  \<open>current_frame()\<close>. The bytecode, which the VM only reads, is passed beside the state.
\<close>

record ('f, 'w) VM =
  stack :: "'f Value list"
  call_stack :: "'f CallFrame list"
  output_stream :: string
  world :: 'w

definition push :: "'f Value \<Rightarrow> ('f, 'w) VM \<Rightarrow> ('f, 'w) VM" where
  "push val vm = vm\<lparr>stack := val # stack vm\<rparr>"

definition pop :: "('f, 'w) VM \<Rightarrow> error + ('f Value \<times> ('f, 'w) VM)" where
  "pop vm =
     (case stack vm of
        [] \<Rightarrow> Inl (RuntimeError ''Stack underflow'')
      | val # rest \<Rightarrow> Inr (val, vm\<lparr>stack := rest\<rparr>))"

definition peek :: "('f, 'w) VM \<Rightarrow> error + 'f Value" where
  "peek vm =
     (case stack vm of
        [] \<Rightarrow> Inl (RuntimeError ''Stack underflow'')
      | val # rest \<Rightarrow> Inr val)"

text \<open>\<open>ip()\<close> as a read and as an assignment; \<open>call_stack_.back()\<close> of an empty vector is undefined.\<close>

definition get_ip :: "('f, 'w) VM \<Rightarrow> error + nat" where
  "get_ip vm =
     (case call_stack vm of
        [] \<Rightarrow> Inl UndefinedBehaviour
      | fr # frs \<Rightarrow> Inr (instruction_pointer fr))"

definition set_ip :: "nat \<Rightarrow> ('f, 'w) VM \<Rightarrow> error + ('f, 'w) VM" where
  "set_ip n vm =
     (case call_stack vm of
        [] \<Rightarrow> Inl UndefinedBehaviour
      | fr # frs \<Rightarrow> Inr (vm\<lparr>call_stack := fr\<lparr>instruction_pointer := n\<rparr> # frs\<rparr>))"

definition read_byte :: "'f Bytecode \<Rightarrow> ('f, 'w) VM \<Rightarrow> error + (8 word \<times> ('f, 'w) VM)" where
  "read_byte bc vm =
     bind_err (get_ip vm) (\<lambda>i.
       if i < length (instructions bc)
       then bind_err (set_ip (i + 1) vm) (\<lambda>vm'. Inr (instructions bc ! i, vm'))
       else Inl UndefinedBehaviour)"

definition read_uint16 :: "'f Bytecode \<Rightarrow> ('f, 'w) VM \<Rightarrow> error + (16 word \<times> ('f, 'w) VM)" where
  "read_uint16 bc vm =
     bind_err (read_byte bc vm) (\<lambda>(low, vm1).
     bind_err (read_byte bc vm1) (\<lambda>(high, vm2).
       Inr (or (ucast low) (push_bit 8 (ucast high)), vm2)))"

text \<open>
  The loop \<open>for (i = 0; i < count; ++i) args.push_back(pop())\<close>: the values in the order
  they were popped. The source reverses the vector afterwards.
\<close>

fun pop_values :: "nat \<Rightarrow> ('f, 'w) VM \<Rightarrow> error + ('f Value list \<times> ('f, 'w) VM)" where
  "pop_values 0 vm = Inr ([], vm)"
| "pop_values (Suc n) vm =
     bind_err (pop vm) (\<lambda>(v, vm1).
     bind_err (pop_values n vm1) (\<lambda>(vs, vm2). Inr (v # vs, vm2)))"

text \<open>
  The target of a jump: \<open>static_cast<size_t>(static_cast<int64_t>(ip()) + offset)\<close>, with
  \<open>offset\<close> the operand read as \<open>int16_t\<close>.
\<close>

definition jump_target :: "nat \<Rightarrow> 16 word \<Rightarrow> nat" where
  "jump_target ip_after offset = unat ((word_of_nat ip_after :: 64 word) + scast offset)"

text \<open>One turn of the loop of \<open>VM::run\<close> gives the new state, and whether \<open>run\<close> returns.\<close>

definition continue :: "('f, 'w) VM \<Rightarrow> error + (bool \<times> ('f, 'w) VM)" where
  "continue vm = Inr (False, vm)"

definition binary_op ::
  "('f Value \<Rightarrow> 'f Value \<Rightarrow> error + 'f Value) \<Rightarrow> ('f, 'w) VM \<Rightarrow> error + (bool \<times> ('f, 'w) VM)" where
  "binary_op f vm =
     bind_err (pop vm) (\<lambda>(b, vm1).
     bind_err (pop vm1) (\<lambda>(a, vm2).
     bind_err (f a b) (\<lambda>r. continue (push r vm2))))"

definition unary_op ::
  "('f Value \<Rightarrow> error + 'f Value) \<Rightarrow> ('f, 'w) VM \<Rightarrow> error + (bool \<times> ('f, 'w) VM)" where
  "unary_op f vm =
     bind_err (pop vm) (\<lambda>(a, vm1).
     bind_err (f a) (\<lambda>r. continue (push r vm1)))"

definition exec_load_local :: "'f Bytecode \<Rightarrow> ('f, 'w) VM \<Rightarrow> error + (bool \<times> ('f, 'w) VM)" where
  "exec_load_local bc vm =
     bind_err (read_uint16 bc vm) (\<lambda>(idx, vm1).
       case call_stack vm1 of
         [] \<Rightarrow> Inl UndefinedBehaviour
       | fr # frs \<Rightarrow>
           if unat idx < length (locals fr) then continue (push (locals fr ! unat idx) vm1)
           else Inl UndefinedBehaviour)"

definition exec_store_local :: "'f Bytecode \<Rightarrow> ('f, 'w) VM \<Rightarrow> error + (bool \<times> ('f, 'w) VM)" where
  "exec_store_local bc vm =
     bind_err (read_uint16 bc vm) (\<lambda>(idx, vm1).
     bind_err (peek vm1) (\<lambda>val.
       case call_stack vm1 of
         [] \<Rightarrow> Inl UndefinedBehaviour
       | fr # frs \<Rightarrow>
           if unat idx < length (locals fr)
           then continue (vm1\<lparr>call_stack := fr\<lparr>locals := (locals fr)[unat idx := val]\<rparr> # frs\<rparr>)
           else Inl UndefinedBehaviour))"

definition exec_call :: "'f Bytecode \<Rightarrow> ('f, 'w) VM \<Rightarrow> error + (bool \<times> ('f, 'w) VM)" where
  "exec_call bc vm =
     bind_err (read_uint16 bc vm) (\<lambda>(func_idx, vm1).
     bind_err (read_byte bc vm1) (\<lambda>(arg_count, vm2).
       if unat func_idx \<ge> length (function_table bc)
       then Inl (RuntimeError (''Invalid function index: '' @ format_nat (unat func_idx)))
       else
         let func_info = function_table bc ! unat func_idx in
         if unat arg_count \<noteq> fn_param_count func_info
         then Inl (RuntimeError
                (''Function '' @ [CHR 0x27] @ fn_name func_info @ [CHR 0x27] @ '' expects ''
                   @ format_nat (fn_param_count func_info) @ '' arguments, got ''
                   @ format_nat (unat arg_count)))
         else
           bind_err (pop_values (unat arg_count) vm2) (\<lambda>(popped, vm3).
           bind_err (get_ip vm3) (\<lambda>return_address.
             let args = rev popped;
                 new_frame = make_frame (unat func_idx) (fn_offset func_info)
                               (length (stack vm3)) (fn_local_count func_info)
             in if length args > length (locals new_frame) then Inl UndefinedBehaviour
                else
                  bind_err (set_ip return_address vm3) (\<lambda>vm4.
                    continue (vm4\<lparr>call_stack :=
                      new_frame\<lparr>locals := args @ drop (length args) (locals new_frame)\<rparr>
                        # call_stack vm4\<rparr>))))))"

definition exec_return :: "('f, 'w) VM \<Rightarrow> error + (bool \<times> ('f, 'w) VM)" where
  "exec_return vm =
     (case call_stack vm of
        [] \<Rightarrow> Inl UndefinedBehaviour
      | fr # frs \<Rightarrow> Inr (frs = [], vm\<lparr>call_stack := frs\<rparr>))"

definition exec_jump :: "'f Bytecode \<Rightarrow> ('f, 'w) VM \<Rightarrow> error + (bool \<times> ('f, 'w) VM)" where
  "exec_jump bc vm =
     bind_err (read_uint16 bc vm) (\<lambda>(offset, vm1).
     bind_err (get_ip vm1) (\<lambda>i.
     bind_err (set_ip (jump_target i offset) vm1) continue))"

definition exec_jump_if ::
  "'f float_ops \<Rightarrow> bool \<Rightarrow> 'f Bytecode \<Rightarrow> ('f, 'w) VM \<Rightarrow> error + (bool \<times> ('f, 'w) VM)" where
  "exec_jump_if fo want bc vm =
     bind_err (read_uint16 bc vm) (\<lambda>(offset, vm1).
     bind_err (peek vm1) (\<lambda>condition.
       if is_truthy fo condition = want
       then bind_err (get_ip vm1) (\<lambda>i. bind_err (set_ip (jump_target i offset) vm1) continue)
       else continue vm1))"

definition exec_build ::
  "bool \<Rightarrow> 'f Bytecode \<Rightarrow> ('f, 'w) VM \<Rightarrow> error + (bool \<times> ('f, 'w) VM)" where
  "exec_build is_tuple_flag bc vm =
     bind_err (read_uint16 bc vm) (\<lambda>(count, vm1).
     bind_err (pop_values (unat count) vm1) (\<lambda>(popped, vm2).
       let elements = rev popped in
       continue (push (if is_tuple_flag then TupleV elements else ListV elements) vm2)))"

definition index_value :: "'f Value \<Rightarrow> 'f Value \<Rightarrow> error + 'f Value" where
  "index_value collection index =
     (case index of
        IntV idx \<Rightarrow>
          (case collection of
             ListV xs \<Rightarrow>
               if sint idx < 0 \<or> unat idx \<ge> length xs
               then Inl (RuntimeError
                      (''List index out of bounds: '' @ format_int (sint idx) @ '' (size: ''
                         @ format_nat (length xs) @ '')''))
               else Inr (xs ! unat idx)
           | TupleV xs \<Rightarrow>
               if sint idx < 0 \<or> unat idx \<ge> length xs
               then Inl (RuntimeError
                      (''Tuple index out of bounds: '' @ format_int (sint idx) @ '' (size: ''
                         @ format_nat (length xs) @ '')''))
               else Inr (xs ! unat idx)
           | _ \<Rightarrow> Inl (RuntimeError (''Cannot index into '' @ type_name collection)))
      | _ \<Rightarrow> Inl (RuntimeError (''Index must be Int, got '' @ type_name index)))"

definition exec_index :: "('f, 'w) VM \<Rightarrow> error + (bool \<times> ('f, 'w) VM)" where
  "exec_index vm =
     bind_err (pop vm) (\<lambda>(index, vm1).
     bind_err (pop vm1) (\<lambda>(collection, vm2).
     bind_err (index_value collection index) (\<lambda>r. continue (push r vm2))))"

definition exec_call_method ::
  "'f float_ops \<Rightarrow> 'f Bytecode \<Rightarrow> ('f, 'w) VM \<Rightarrow> error + (bool \<times> ('f, 'w) VM)" where
  "exec_call_method fo bc vm =
     bind_err (read_uint16 bc vm) (\<lambda>(name_idx, vm1).
     bind_err (read_byte bc vm1) (\<lambda>(arg_count, vm2).
       if unat name_idx \<ge> length (constants bc)
       then Inl (RuntimeError
              (''Invalid constant index for method name: '' @ format_nat (unat name_idx)))
       else
         case constants bc ! unat name_idx of
           StringV method_name \<Rightarrow>
             bind_err (pop_values (unat arg_count) vm2) (\<lambda>(popped, vm3).
             bind_err (pop vm3) (\<lambda>(receiver, vm4).
             bind_err (call_builtin_method fo method_name receiver (rev popped)) (\<lambda>r.
               continue (push r vm4))))
         | _ \<Rightarrow> Inl (RuntimeError ''Method name must be a string'')))"

text \<open>What \<open>print\<close> and \<open>println\<close> write for a value: a string goes out without quotes.\<close>

definition print_text :: "'f float_ops \<Rightarrow> 'f Value \<Rightarrow> string" where
  "print_text fo v = (case v of StringV str \<Rightarrow> str | _ \<Rightarrow> to_string fo v)"

definition exec_builtin ::
  "'f float_ops \<Rightarrow> 'w host \<Rightarrow> nat \<Rightarrow> 'f Value list \<Rightarrow> ('f, 'w) VM
     \<Rightarrow> error + (bool \<times> ('f, 'w) VM)" where
  "exec_builtin fo h builtin_id args vm =
     (if builtin_id = BUILTIN_PRINT then
        (case args of
           [a] \<Rightarrow> continue (push (IntV 0)
                    (vm\<lparr>output_stream := output_stream vm @ print_text fo a\<rparr>))
         | _ \<Rightarrow> Inl (RuntimeError ''print() expects 1 argument''))
      else if builtin_id = BUILTIN_PRINTLN then
        (case args of
           [a] \<Rightarrow> continue (push (IntV 0)
                    (vm\<lparr>output_stream := output_stream vm @ print_text fo a @ [CHR 0x0A]\<rparr>))
         | _ \<Rightarrow> Inl (RuntimeError ''println() expects 1 argument''))
      else if builtin_id = BUILTIN_TO_STRING then
        (case args of
           [a] \<Rightarrow> continue (push (StringV (to_string fo a)) vm)
         | _ \<Rightarrow> Inl (RuntimeError ''to_string() expects 1 argument''))
      else if builtin_id = BUILTIN_READ_FILE then
        (case args of
           [StringV path] \<Rightarrow>
             (case h_read_file h (world vm) path of
                None \<Rightarrow> continue (push (StringV []) vm)
              | Some content \<Rightarrow> continue (push (StringV content) vm))
         | _ \<Rightarrow> Inl (RuntimeError ''read_file() expects 1 string argument''))
      else if builtin_id = BUILTIN_WRITE_FILE then
        (case args of
           [StringV path, StringV content] \<Rightarrow>
             (case h_write_file h (world vm) path content of
                (ok, w) \<Rightarrow> continue (push (BoolV ok) (vm\<lparr>world := w\<rparr>)))
         | _ \<Rightarrow> Inl (RuntimeError ''write_file() expects 2 string arguments''))
      else if builtin_id = BUILTIN_APPEND_FILE then
        (case args of
           [StringV path, StringV content] \<Rightarrow>
             (case h_append_file h (world vm) path content of
                (ok, w) \<Rightarrow> continue (push (BoolV ok) (vm\<lparr>world := w\<rparr>)))
         | _ \<Rightarrow> Inl (RuntimeError ''append_file() expects 2 string arguments''))
      else if builtin_id = BUILTIN_FILE_EXISTS then
        (case args of
           [StringV path] \<Rightarrow> continue (push (BoolV (h_file_exists h (world vm) path)) vm)
         | _ \<Rightarrow> Inl (RuntimeError ''file_exists() expects 1 string argument''))
      else Inl (RuntimeError (''Unknown builtin ID: '' @ format_nat builtin_id)))"

definition exec_call_builtin ::
  "'f float_ops \<Rightarrow> 'w host \<Rightarrow> 'f Bytecode \<Rightarrow> ('f, 'w) VM \<Rightarrow> error + (bool \<times> ('f, 'w) VM)" where
  "exec_call_builtin fo h bc vm =
     bind_err (read_uint16 bc vm) (\<lambda>(builtin_id, vm1).
     bind_err (read_byte bc vm1) (\<lambda>(arg_count, vm2).
     bind_err (pop_values (unat arg_count) vm2) (\<lambda>(popped, vm3).
       exec_builtin fo h (unat builtin_id) (rev popped) vm3)))"

text \<open>The \<open>switch\<close> of \<open>VM::run\<close>.\<close>

definition exec_opcode ::
  "'f float_ops \<Rightarrow> 'w host \<Rightarrow> 'f Bytecode \<Rightarrow> OpCode \<Rightarrow> ('f, 'w) VM
     \<Rightarrow> error + (bool \<times> ('f, 'w) VM)" where
  "exec_opcode fo h bc opcode vm =
     (case opcode of
        OP_CONSTANT \<Rightarrow>
          bind_err (read_uint16 bc vm) (\<lambda>(idx, vm1).
            if unat idx < length (constants bc) then continue (push (constants bc ! unat idx) vm1)
            else Inl UndefinedBehaviour)
      | OP_TRUE \<Rightarrow> continue (push (BoolV True) vm)
      | OP_FALSE \<Rightarrow> continue (push (BoolV False) vm)
      | OP_ADD \<Rightarrow> binary_op (binary_add fo) vm
      | OP_SUB \<Rightarrow> binary_op (binary_sub fo) vm
      | OP_MUL \<Rightarrow> binary_op (binary_mul fo) vm
      | OP_DIV \<Rightarrow> binary_op (binary_div fo) vm
      | OP_MOD \<Rightarrow> binary_op binary_mod vm
      | OP_POW \<Rightarrow> binary_op (binary_pow fo) vm
      | OP_EQ \<Rightarrow> binary_op (binary_eq fo) vm
      | OP_NE \<Rightarrow> binary_op (binary_ne fo) vm
      | OP_LT \<Rightarrow> binary_op (binary_lt fo) vm
      | OP_GT \<Rightarrow> binary_op (binary_gt fo) vm
      | OP_LE \<Rightarrow> binary_op (binary_le fo) vm
      | OP_GE \<Rightarrow> binary_op (binary_ge fo) vm
      | OP_AND \<Rightarrow> binary_op (binary_and fo) vm
      | OP_OR \<Rightarrow> binary_op (binary_or fo) vm
      | OP_NOT \<Rightarrow> unary_op (unary_not fo) vm
      | OP_NEGATE \<Rightarrow> unary_op (unary_negate fo) vm
      | OP_POSITIVE \<Rightarrow> unary_op unary_positive vm
      | OP_POP \<Rightarrow> bind_err (pop vm) (\<lambda>(v, vm1). continue vm1)
      | OP_DUP \<Rightarrow> bind_err (peek vm) (\<lambda>v. continue (push v vm))
      | OP_LOAD_LOCAL \<Rightarrow> exec_load_local bc vm
      | OP_STORE_LOCAL \<Rightarrow> exec_store_local bc vm
      | OP_LOAD_GLOBAL \<Rightarrow>
          bind_err (read_uint16 bc vm) (\<lambda>(func_idx, vm1).
            continue (push (IntV (ucast func_idx)) vm1))
      | OP_CALL \<Rightarrow> exec_call bc vm
      | OP_RETURN \<Rightarrow> exec_return vm
      | OP_JUMP \<Rightarrow> exec_jump bc vm
      | OP_JUMP_IF_FALSE \<Rightarrow> exec_jump_if fo False bc vm
      | OP_JUMP_IF_TRUE \<Rightarrow> exec_jump_if fo True bc vm
      | OP_BUILD_LIST \<Rightarrow> exec_build False bc vm
      | OP_BUILD_TUPLE \<Rightarrow> exec_build True bc vm
      | OP_INDEX \<Rightarrow> exec_index vm
      | OP_CALL_METHOD \<Rightarrow> exec_call_method fo bc vm
      | OP_CALL_BUILTIN \<Rightarrow> exec_call_builtin fo h bc vm
      | OP_HALT \<Rightarrow> Inr (True, vm))"

text \<open>The body of the \<open>while (true)\<close> of \<open>VM::run\<close>: fetch, decode, execute.\<close>

definition step ::
  "'f float_ops \<Rightarrow> 'w host \<Rightarrow> 'f Bytecode \<Rightarrow> ('f, 'w) VM \<Rightarrow> error + (bool \<times> ('f, 'w) VM)" where
  "step fo h bc vm =
     bind_err (read_byte bc vm) (\<lambda>(opcode_byte_read, vm1).
       case opcode_of_byte opcode_byte_read of
         None \<Rightarrow> Inl (RuntimeError (''Unknown opcode: '' @ format_nat (unat opcode_byte_read)))
       | Some opcode \<Rightarrow> exec_opcode fo h bc opcode vm1)"

text \<open>
  \<open>VM::run\<close>. The loop ends only on \<open>HALT\<close>, on a \<open>RETURN\<close> that empties the call stack,
  or on an exception, so it is run on fuel: \<open>None\<close> says that the fuel ran out first.
\<close>

fun run ::
  "nat \<Rightarrow> 'f float_ops \<Rightarrow> 'w host \<Rightarrow> 'f Bytecode \<Rightarrow> ('f, 'w) VM \<Rightarrow> (error + ('f, 'w) VM) option" where
  "run 0 fo h bc vm = None"
| "run (Suc fuel) fo h bc vm =
     (case step fo h bc vm of
        Inl e \<Rightarrow> Some (Inl e)
      | Inr (finished, vm') \<Rightarrow> if finished then Some (Inr vm') else run fuel fo h bc vm')"

text \<open>\<open>VM::call_function\<close>, the entry point.\<close>

definition call_function ::
  "nat \<Rightarrow> 'f float_ops \<Rightarrow> 'w host \<Rightarrow> 'f Bytecode \<Rightarrow> string \<Rightarrow> 'f Value list \<Rightarrow> ('f, 'w) VM
     \<Rightarrow> (error + ('f Value \<times> ('f, 'w) VM)) option" where
  "call_function fuel fo h bc function_name args vm =
     (let func_idx = find_function bc function_name in
      if func_idx < 0
      then Some (Inl (RuntimeError
             (''Function '' @ [CHR 0x27] @ function_name @ [CHR 0x27] @ '' not found'')))
      else
        let func_info = function_table bc ! nat func_idx in
        if length args \<noteq> fn_param_count func_info
        then Some (Inl (RuntimeError
               (''Function '' @ [CHR 0x27] @ function_name @ [CHR 0x27] @ '' expects ''
                  @ format_nat (fn_param_count func_info) @ '' arguments, got ''
                  @ format_nat (length args))))
        else
          let frame = make_frame (nat func_idx) (fn_offset func_info) 0 (fn_local_count func_info)
          in if length args > length (locals frame) then Some (Inl UndefinedBehaviour)
             else
               (case run fuel fo h bc
                       (vm\<lparr>stack := [],
                           call_stack := [frame\<lparr>locals := args @ drop (length args) (locals frame)\<rparr>]\<rparr>)
                of
                  None \<Rightarrow> None
                | Some (Inl e) \<Rightarrow> Some (Inl e)
                | Some (Inr vm') \<Rightarrow>
                    if stack vm' = [] then Some (Inl (RuntimeError ''Function returned without a value''))
                    else Some (pop vm')))"

section \<open>Abstract syntax (frontend/ast.hpp)\<close>

record SourceLocation =
  loc_filename :: string
  loc_line :: nat
  loc_column :: nat
  loc_offset :: nat
  loc_length :: nat

datatype BinaryOp =
    BO_Add | BO_Sub | BO_Mul | BO_Div | BO_Mod | BO_Pow
  | BO_Eq | BO_Ne | BO_Lt | BO_Gt | BO_Le | BO_Ge
  | BO_And | BO_Or

datatype UnaryOp = UO_Not | UO_Neg | UO_Pos

text \<open>The type annotations of the source text (\<open>ast::Type\<close>).\<close>

datatype AstType =
    AstNamedType string SourceLocation
  | AstListType AstType SourceLocation
  | AstTupleType "AstType list" SourceLocation

datatype Pattern =
    IdentifierPattern string SourceLocation
  | TuplePattern "Pattern list" SourceLocation

text \<open>Every node carries its fields in the order of its C++ constructor, the location last.\<close>

datatype 'f Expr =
    IntLiteralExpr "64 word" SourceLocation
  | FloatLiteralExpr 'f SourceLocation
  | StringLiteralExpr string SourceLocation
  | BoolLiteralExpr bool SourceLocation
  | IdentifierExpr string SourceLocation
  | TupleExpr "'f Expr list" SourceLocation
  | ListExpr "'f Expr list" SourceLocation
  | BinaryExpr BinaryOp "'f Expr" "'f Expr" SourceLocation
  | UnaryExpr UnaryOp "'f Expr" SourceLocation
  | CallExpr "'f Expr" "'f Expr list" SourceLocation
  | MethodCallExpr "'f Expr" string "'f Expr list" SourceLocation
  | IndexExpr "'f Expr" "'f Expr" SourceLocation
  | LambdaExpr "string list" "'f Expr" SourceLocation
  | IfExpr "'f Expr" "'f Expr" "'f Expr option" SourceLocation
  | BlockExpr "'f Stmt list" SourceLocation
and 'f Stmt =
    LetStmt Pattern "AstType option" "'f Expr" SourceLocation
  | ReturnStmt "'f Expr" SourceLocation
  | ExprStmt "'f Expr" SourceLocation

datatype Parameter = Parameter string AstType SourceLocation

datatype 'f FunctionDef =
  FunctionDef string "Parameter list" AstType "'f Expr" SourceLocation

datatype 'f Program = Program "'f FunctionDef list" SourceLocation

section \<open>The compiler (backend/compiler.cpp)\<close>

record Scope =
  scope_locals :: "string \<rightharpoonup> nat"
  local_count :: nat

record FunctionContext =
  fc_name :: string
  fc_param_count :: nat
  fc_offset :: nat

text \<open>
  The fields of \<open>Compiler\<close>. \<open>scopes\<close> has the innermost scope (\<open>scopes_.back()\<close>) at
  its head.
\<close>

record 'f Compiler =
  bytecode :: "'f Bytecode"
  scopes :: "Scope list"
  current_function :: "FunctionContext option"
  function_indices :: "string \<rightharpoonup> nat"

definition new_compiler :: "'f Compiler" where
  "new_compiler =
     \<lparr>bytecode = empty_bytecode, scopes = [], current_function = None,
      function_indices = Map.empty\<rparr>"

lemma bind_err_cong [fundef_cong]:
  "m = m' \<Longrightarrow> (\<And>x. m' = Inr x \<Longrightarrow> f x = f' x) \<Longrightarrow> bind_err m f = bind_err m' f'"
  by (auto simp: bind_err_def split: sum.splits)

definition enter_scope :: "'f Compiler \<Rightarrow> 'f Compiler" where
  "enter_scope c = c\<lparr>scopes := \<lparr>scope_locals = Map.empty, local_count = 0\<rparr> # scopes c\<rparr>"

definition exit_scope :: "'f Compiler \<Rightarrow> 'f Compiler" where
  "exit_scope c = (if scopes c \<noteq> [] then c\<lparr>scopes := tl (scopes c)\<rparr> else c)"

definition declare_local :: "string \<Rightarrow> 'f Compiler \<Rightarrow> error + (nat \<times> 'f Compiler)" where
  "declare_local name c =
     (case scopes c of
        [] \<Rightarrow> Inl (RuntimeError ''Cannot declare local outside of scope'')
      | scope # rest \<Rightarrow>
          let index = local_count scope in
          Inr (index,
               c\<lparr>scopes := scope\<lparr>local_count := index + 1,
                                  scope_locals := (scope_locals scope)(name \<mapsto> index)\<rparr> # rest\<rparr>))"

text \<open>\<open>static_cast<int>\<close> of a \<open>size_t\<close>.\<close>

definition size_to_int :: "nat \<Rightarrow> int" where
  "size_to_int n = sint (word_of_nat n :: 32 word)"

fun resolve_local_in :: "Scope list \<Rightarrow> string \<Rightarrow> int" where
  "resolve_local_in [] name = - 1"
| "resolve_local_in (scope # rest) name =
     (case scope_locals scope name of
        Some index \<Rightarrow> size_to_int index
      | None \<Rightarrow> resolve_local_in rest name)"

definition resolve_local :: "string \<Rightarrow> 'f Compiler \<Rightarrow> int" where
  "resolve_local name c = resolve_local_in (scopes c) name"

definition resolve_function :: "string \<Rightarrow> 'f Compiler \<Rightarrow> int" where
  "resolve_function name c =
     (case function_indices c name of
        Some index \<Rightarrow> size_to_int index
      | None \<Rightarrow> - 1)"

text \<open>The emission helpers of the compiler forward to the bytecode.\<close>

definition emit :: "OpCode \<Rightarrow> 'f Compiler \<Rightarrow> 'f Compiler" where
  "emit opc c = c\<lparr>bytecode := emit0 opc (bytecode c)\<rparr>"

definition emit16 :: "OpCode \<Rightarrow> 16 word \<Rightarrow> 'f Compiler \<Rightarrow> 'f Compiler" where
  "emit16 opc operand c = c\<lparr>bytecode := emit_u16 opc operand (bytecode c)\<rparr>"

definition emit16_8 :: "OpCode \<Rightarrow> 16 word \<Rightarrow> 8 word \<Rightarrow> 'f Compiler \<Rightarrow> 'f Compiler" where
  "emit16_8 opc operand1 operand2 c = c\<lparr>bytecode := emit_u16_u8 opc operand1 operand2 (bytecode c)\<rparr>"

definition c_add_constant :: "'f Value \<Rightarrow> 'f Compiler \<Rightarrow> error + (16 word \<times> 'f Compiler)" where
  "c_add_constant v c =
     bind_err (add_constant v (bytecode c)) (\<lambda>(idx, bc). Inr (idx, c\<lparr>bytecode := bc\<rparr>))"

text \<open>
  \<open>emit_jump\<close> emits the jump with the placeholder \<open>0xFFFF\<close> and returns the offset of its
  opcode; \<open>patch_jump\<close> computes, in \<open>size_t\<close>, the distance from the end of the jump to the
  current end of the code, casts it to \<open>int16_t\<close> and writes it back.
\<close>

definition emit_jump :: "OpCode \<Rightarrow> 'f Compiler \<Rightarrow> nat \<times> 'f Compiler" where
  "emit_jump opc c =
     (let c' = emit16 opc 0xFFFF c in (current_offset (bytecode c') - 3, c'))"

definition patch_jump :: "nat \<Rightarrow> 'f Compiler \<Rightarrow> error + 'f Compiler" where
  "patch_jump off c =
     (let jump = (word_of_int (int (current_offset (bytecode c)) - int (off + 3)) :: 16 word) in
      bind_err (bc_patch_jump off jump (bytecode c)) (\<lambda>bc. Inr (c\<lparr>bytecode := bc\<rparr>)))"

text \<open>\<open>compile_pattern\<close>; \<open>compile_pattern_elems i\<close> is its loop from index \<open>i\<close> on.\<close>

fun compile_pattern :: "Pattern \<Rightarrow> bool \<Rightarrow> 'f Compiler \<Rightarrow> error + 'f Compiler"
  and compile_pattern_elems :: "nat \<Rightarrow> Pattern list \<Rightarrow> bool \<Rightarrow> 'f Compiler \<Rightarrow> error + 'f Compiler"
where
  "compile_pattern (IdentifierPattern name loc) is_declaration c =
     (if is_declaration then
        bind_err (declare_local name c) (\<lambda>(local_idx, c1).
          Inr (emit16 OP_STORE_LOCAL (word_of_nat local_idx) c1))
      else
        (let local_idx = resolve_local name c in
         if local_idx \<ge> 0 then Inr (emit16 OP_STORE_LOCAL (word_of_int local_idx) c)
         else Inl (RuntimeError (''Undefined variable: '' @ name))))"
| "compile_pattern (TuplePattern elements loc) is_declaration c =
     bind_err (compile_pattern_elems 0 elements is_declaration c) (\<lambda>c1.
       Inr (emit OP_POP c1))"
| "compile_pattern_elems i [] is_declaration c = Inr c"
| "compile_pattern_elems i (p # ps) is_declaration c =
     (let c1 = emit OP_DUP c in
      bind_err (c_add_constant (IntV (word_of_nat i)) c1) (\<lambda>(idx_const, c2).
        let c3 = emit16 OP_CONSTANT idx_const c2;
            c4 = emit OP_INDEX c3
        in bind_err (compile_pattern p is_declaration c4) (\<lambda>c5.
             compile_pattern_elems (Suc i) ps is_declaration c5)))"

text \<open>The built-in functions \<open>visit_call\<close> knows by name, with their ids.\<close>

definition builtin_id_of :: "string \<Rightarrow> nat option" where
  "builtin_id_of name =
     (if name = ''print'' then Some BUILTIN_PRINT
      else if name = ''println'' then Some BUILTIN_PRINTLN
      else if name = ''to_string'' then Some BUILTIN_TO_STRING
      else if name = ''read_file'' then Some BUILTIN_READ_FILE
      else if name = ''write_file'' then Some BUILTIN_WRITE_FILE
      else if name = ''append_file'' then Some BUILTIN_APPEND_FILE
      else if name = ''file_exists'' then Some BUILTIN_FILE_EXISTS
      else None)"

definition binary_opcode :: "BinaryOp \<Rightarrow> OpCode" where
  "binary_opcode op =
     (case op of
        BO_Add \<Rightarrow> OP_ADD | BO_Sub \<Rightarrow> OP_SUB | BO_Mul \<Rightarrow> OP_MUL | BO_Div \<Rightarrow> OP_DIV
      | BO_Mod \<Rightarrow> OP_MOD | BO_Pow \<Rightarrow> OP_POW | BO_Eq \<Rightarrow> OP_EQ | BO_Ne \<Rightarrow> OP_NE
      | BO_Lt \<Rightarrow> OP_LT | BO_Gt \<Rightarrow> OP_GT | BO_Le \<Rightarrow> OP_LE | BO_Ge \<Rightarrow> OP_GE
      | BO_And \<Rightarrow> OP_AND | BO_Or \<Rightarrow> OP_OR)"

definition unary_opcode :: "UnaryOp \<Rightarrow> OpCode" where
  "unary_opcode op = (case op of UO_Not \<Rightarrow> OP_NOT | UO_Neg \<Rightarrow> OP_NEGATE | UO_Pos \<Rightarrow> OP_POSITIVE)"

text \<open>The three \<open>instructions.pop_back()\<close> of \<open>visit_call\<close>.\<close>

definition pop_back3 :: "'f Compiler \<Rightarrow> 'f Compiler" where
  "pop_back3 c =
     c\<lparr>bytecode := (bytecode c)\<lparr>instructions :=
         butlast (butlast (butlast (instructions (bytecode c))))\<rparr>\<rparr>"

text \<open>\<open>visit_identifier\<close>.\<close>

definition visit_identifier :: "string \<Rightarrow> 'f Compiler \<Rightarrow> error + 'f Compiler" where
  "visit_identifier name c =
     (let local_idx = resolve_local name c in
      if local_idx \<ge> 0 then Inr (emit16 OP_LOAD_LOCAL (word_of_int local_idx) c)
      else
        let func_idx = resolve_function name c in
        if func_idx \<ge> 0 then Inr (emit16 OP_LOAD_GLOBAL (word_of_int func_idx) c)
        else Inl (RuntimeError (''Undefined identifier: '' @ name)))"

text \<open>
  The expression and statement visitors: \<open>compile_expr e\<close> is \<open>e->accept(*this)\<close> on an
  expression, \<open>compile_stmt\<close> the same on a statement, \<open>compile_exprs\<close> the loop that
  visits a vector of expressions in order, and \<open>compile_block_stmts\<close> the two steps of
  \<open>visit_block\<close> on a block that has statements: all but the last are visited, and the
  last one is compiled without its \<open>POP\<close> when it is an expression statement.
\<close>

fun compile_expr :: "'f Expr \<Rightarrow> 'f Compiler \<Rightarrow> error + 'f Compiler"
  and compile_exprs :: "'f Expr list \<Rightarrow> 'f Compiler \<Rightarrow> error + 'f Compiler"
  and compile_stmt :: "'f Stmt \<Rightarrow> 'f Compiler \<Rightarrow> error + 'f Compiler"
  and compile_block_stmts :: "'f Stmt list \<Rightarrow> 'f Compiler \<Rightarrow> error + 'f Compiler"
where
  "compile_expr (IntLiteralExpr v loc) c =
     bind_err (c_add_constant (IntV v) c) (\<lambda>(const_idx, c1). Inr (emit16 OP_CONSTANT const_idx c1))"
| "compile_expr (FloatLiteralExpr v loc) c =
     bind_err (c_add_constant (FloatV v) c) (\<lambda>(const_idx, c1). Inr (emit16 OP_CONSTANT const_idx c1))"
| "compile_expr (StringLiteralExpr v loc) c =
     bind_err (c_add_constant (StringV v) c) (\<lambda>(const_idx, c1). Inr (emit16 OP_CONSTANT const_idx c1))"
| "compile_expr (BoolLiteralExpr v loc) c =
     (if v then Inr (emit OP_TRUE c) else Inr (emit OP_FALSE c))"
| "compile_expr (IdentifierExpr name loc) c = visit_identifier name c"
| "compile_expr (BinaryExpr op left right loc) c =
     bind_err (compile_expr left c) (\<lambda>c1.
     bind_err (compile_expr right c1) (\<lambda>c2.
       Inr (emit (binary_opcode op) c2)))"
| "compile_expr (UnaryExpr op operand loc) c =
     bind_err (compile_expr operand c) (\<lambda>c1. Inr (emit (unary_opcode op) c1))"
| "compile_expr (TupleExpr elements loc) c =
     bind_err (compile_exprs elements c) (\<lambda>c1.
       Inr (emit16 OP_BUILD_TUPLE (word_of_nat (length elements)) c1))"
| "compile_expr (ListExpr elements loc) c =
     bind_err (compile_exprs elements c) (\<lambda>c1.
       Inr (emit16 OP_BUILD_LIST (word_of_nat (length elements)) c1))"
| "compile_expr (IndexExpr object index loc) c =
     bind_err (compile_expr object c) (\<lambda>c1.
     bind_err (compile_expr index c1) (\<lambda>c2.
       Inr (emit OP_INDEX c2)))"
| "compile_expr (CallExpr callee arguments loc) c =
     (case (case callee of IdentifierExpr name l \<Rightarrow> builtin_id_of name | _ \<Rightarrow> None) of
        Some builtin \<Rightarrow>
          bind_err (compile_exprs arguments c) (\<lambda>c1.
            Inr (emit16_8 OP_CALL_BUILTIN (word_of_nat builtin) (word_of_nat (length arguments)) c1))
      | None \<Rightarrow>
          bind_err (compile_exprs arguments c) (\<lambda>c1.
          bind_err (compile_expr callee c1) (\<lambda>c2.
            case callee of
              IdentifierExpr name l \<Rightarrow>
                (let func_idx = resolve_function name c2 in
                 if func_idx \<ge> 0
                 then Inr (emit16_8 OP_CALL (word_of_int func_idx)
                             (word_of_nat (length arguments)) (pop_back3 c2))
                 else Inl (RuntimeError ''Only direct function calls supported in Day 2''))
            | _ \<Rightarrow> Inl (RuntimeError ''Only direct function calls supported in Day 2''))))"
| "compile_expr (MethodCallExpr object method_name arguments loc) c =
     bind_err (compile_expr object c) (\<lambda>c1.
     bind_err (compile_exprs arguments c1) (\<lambda>c2.
     bind_err (c_add_constant (StringV method_name) c2) (\<lambda>(name_idx, c3).
       Inr (emit16_8 OP_CALL_METHOD name_idx (word_of_nat (length arguments)) c3))))"
| "compile_expr (IfExpr condition then_branch else_branch loc) c =
     bind_err (compile_expr condition c) (\<lambda>c1.
       case emit_jump OP_JUMP_IF_FALSE c1 of (else_jump, c2) \<Rightarrow>
       let c3 = emit OP_POP c2 in
       bind_err (compile_expr then_branch c3) (\<lambda>c4.
         case emit_jump OP_JUMP c4 of (end_jump, c5) \<Rightarrow>
         bind_err (patch_jump else_jump c5) (\<lambda>c6.
           let c7 = emit OP_POP c6 in
           bind_err (case else_branch of
                       Some e \<Rightarrow> compile_expr e c7
                     | None \<Rightarrow> Inr (emit OP_FALSE c7)) (\<lambda>c8.
             patch_jump end_jump c8))))"
| "compile_expr (BlockExpr statements loc) c =
     (if statements = [] then Inr (emit OP_FALSE c)
      else compile_block_stmts statements c)"
| "compile_expr (LambdaExpr params body loc) c =
     Inl (RuntimeError ''Lambda expressions not yet implemented'')"
| "compile_exprs [] c = Inr c"
| "compile_exprs (e # es) c = bind_err (compile_expr e c) (\<lambda>c1. compile_exprs es c1)"
| "compile_stmt (LetStmt pattern type_annotation initializer loc) c =
     bind_err (compile_expr initializer c) (\<lambda>c1. compile_pattern pattern True c1)"
| "compile_stmt (ReturnStmt v loc) c =
     bind_err (compile_expr v c) (\<lambda>c1. Inr (emit OP_RETURN c1))"
| "compile_stmt (ExprStmt expression loc) c =
     bind_err (compile_expr expression c) (\<lambda>c1. Inr (emit OP_POP c1))"
| "compile_block_stmts [] c = Inr c"
| "compile_block_stmts [last_stmt] c =
     (case last_stmt of
        ExprStmt expression loc \<Rightarrow> compile_expr expression c
      | _ \<Rightarrow> compile_stmt last_stmt c)"
| "compile_block_stmts (s # t # rest) c =
     bind_err (compile_stmt s c) (\<lambda>c1. compile_block_stmts (t # rest) c1)"

text \<open>Pass 1, \<open>collect_functions\<close>: one entry of the function table per function.\<close>

fun collect_functions :: "'f FunctionDef list \<Rightarrow> 'f Compiler \<Rightarrow> 'f Compiler" where
  "collect_functions [] c = c"
| "collect_functions (FunctionDef name parameters return_type body loc # rest) c =
     (let off = current_offset (bytecode c);
          param_count = length parameters
      in case add_function name off param_count param_count (bytecode c) of
           (func_idx, bc) \<Rightarrow>
             collect_functions rest
               (c\<lparr>bytecode := bc, function_indices := (function_indices c)(name \<mapsto> func_idx)\<rparr>))"

fun declare_parameters :: "Parameter list \<Rightarrow> 'f Compiler \<Rightarrow> error + 'f Compiler" where
  "declare_parameters [] c = Inr c"
| "declare_parameters (Parameter name ty loc # rest) c =
     bind_err (declare_local name c) (\<lambda>(idx, c1). declare_parameters rest c1)"

text \<open>
  Pass 2, \<open>compile_function\<close>. \<open>function_indices_[name]\<close> is \<open>operator[]\<close> of an
  \<open>unordered_map\<close>, which inserts \<open>0\<close> for a name it does not hold; writing to an entry
  the function table does not have is undefined.
\<close>

definition compile_function :: "'f FunctionDef \<Rightarrow> 'f Compiler \<Rightarrow> error + 'f Compiler" where
  "compile_function fd c =
     (case fd of FunctionDef name parameters return_type body loc \<Rightarrow>
        let func_idx = (case function_indices c name of Some i \<Rightarrow> i | None \<Rightarrow> 0);
            c0 = c\<lparr>function_indices := (function_indices c)(name \<mapsto> func_idx)\<rparr>
        in if func_idx \<ge> length (function_table (bytecode c0)) then Inl UndefinedBehaviour
           else
             let start = current_offset (bytecode c0);
                 c1 = c0\<lparr>bytecode := (bytecode c0)\<lparr>function_table :=
                         (function_table (bytecode c0))
                           [func_idx := (function_table (bytecode c0) ! func_idx)\<lparr>fn_offset := start\<rparr>]\<rparr>,
                         current_function :=
                           Some \<lparr>fc_name = name, fc_param_count = length parameters,
                                 fc_offset = start\<rparr>\<rparr>;
                 c2 = enter_scope c1
             in bind_err (declare_parameters parameters c2) (\<lambda>c3.
                bind_err (compile_expr body c3) (\<lambda>c4.
                  let c5 = (if instructions (bytecode c4) = []
                               \<or> last (instructions (bytecode c4)) \<noteq> opcode_byte OP_RETURN
                            then emit OP_RETURN c4 else c4)
                  in case scopes c5 of
                       [] \<Rightarrow> Inl UndefinedBehaviour
                     | scope # rest \<Rightarrow>
                         Inr ((exit_scope
                                (c5\<lparr>bytecode := (bytecode c5)\<lparr>function_table :=
                                   (function_table (bytecode c5))
                                     [func_idx := (function_table (bytecode c5) ! func_idx)
                                        \<lparr>fn_local_count := local_count scope\<rparr>]\<rparr>\<rparr>))
                              \<lparr>current_function := None\<rparr>))))"

fun compile_functions :: "'f FunctionDef list \<Rightarrow> 'f Compiler \<Rightarrow> error + 'f Compiler" where
  "compile_functions [] c = Inr c"
| "compile_functions (fd # rest) c = bind_err (compile_function fd c) (compile_functions rest)"

text \<open>\<open>Compiler::compile\<close> on a fresh compiler.\<close>

definition compile :: "'f Program \<Rightarrow> error + 'f Bytecode" where
  "compile program =
     (case program of Program fds loc \<Rightarrow>
        bind_err (compile_functions fds (collect_functions fds new_compiler)) (\<lambda>c.
          Inr (bytecode (emit OP_HALT c))))"

section \<open>Binary operators in the type checker (semantic/type_checker.cpp)\<close>












section \<open>Running programs\<close>

text \<open>
  \<open>run_turns n\<close> is the loop of \<open>VM::run\<close> stopped after at most \<open>n\<close> turns: it gives the
  state the VM is in then, and whether \<open>run\<close> has returned.
\<close>

fun run_turns ::
  "nat \<Rightarrow> 'f float_ops \<Rightarrow> 'w host \<Rightarrow> 'f Bytecode \<Rightarrow> ('f, 'w) VM \<Rightarrow> error + (bool \<times> ('f, 'w) VM)" where
  "run_turns 0 fo h bc vm = Inr (False, vm)"
| "run_turns (Suc n) fo h bc vm =
     (case step fo h bc vm of
        Inl e \<Rightarrow> Inl e
      | Inr (finished, vm') \<Rightarrow> if finished then Inr (True, vm') else run_turns n fo h bc vm')"

text \<open>The 16-bit operand that \<open>read_uint16\<close> decodes from the two bytes at \<open>i\<close> and \<open>i + 1\<close>.\<close>

definition operand_at :: "'f Bytecode \<Rightarrow> nat \<Rightarrow> 16 word" where
  "operand_at bc i =
     or (ucast (instructions bc ! i)) (push_bit 8 (ucast (instructions bc ! (i + 1))))"

text \<open>
  Concrete parameters for running examples: doubles that hold integers only, a host
  without files, a VM before its first call, and a location for hand-built syntax trees.
\<close>

definition integral_float_ops :: "int float_ops" where
  "integral_float_ops =
     \<lparr>f_add = (+), f_sub = (-), f_mul = (*), f_div = (sdiv), f_pow = (\<lambda>a b. a ^ nat b),
      f_neg = uminus, f_abs = abs, f_floor = id, f_ceil = id, f_round = id,
      f_eq = (=), f_lt = (<), f_zero = 0, f_of_int = sint, f_to_int = word_of_int,
      f_format = format_int, f_from_chars = (\<lambda>s. None)\<rparr>"

definition no_files :: "unit host" where
  "no_files =
     \<lparr>h_read_file = (\<lambda>w path. None), h_write_file = (\<lambda>w path content. (False, w)),
      h_append_file = (\<lambda>w path content. (False, w)), h_file_exists = (\<lambda>w path. False)\<rparr>"

definition fresh_vm :: "(int, unit) VM" where
  "fresh_vm = \<lparr>stack = [], call_stack = [], output_stream = [], world = ()\<rparr>"

definition no_location :: SourceLocation where
  "no_location =
     \<lparr>loc_filename = [], loc_line = 0, loc_column = 0, loc_offset = 0, loc_length = 0\<rparr>"

section \<open>Tokens (frontend/token.hpp)\<close>

datatype TokenType =
    T_Function | T_Returns | T_Let | T_If | T_Else | T_Return | T_Lambda
  | T_TypeInt | T_TypeFloat | T_TypeString | T_TypeBool | T_TypeList
  | T_IntLiteral | T_FloatLiteral | T_StringLiteral | T_True | T_False
  | T_Plus | T_Minus | T_Star | T_Slash | T_Percent | T_Power
  | T_Equal | T_NotEqual | T_Less | T_Greater | T_LessEqual | T_GreaterEqual
  | T_And | T_Or | T_Not
  | T_Assign | T_Colon | T_Dot | T_Comma
  | T_LeftParen | T_RightParen | T_LeftBrace | T_RightBrace | T_LeftBracket | T_RightBracket
  | T_Identifier | T_Newline | T_Eof | T_Error

text \<open>The payload of a token: \<open>std::variant<int64_t, double, std::string>\<close>.\<close>

datatype 'f Literal = LitInt "64 word" | LitFloat 'f | LitString string

record 'f Token =
  tok_type :: TokenType
  lexeme :: string
  location :: SourceLocation
  tok_value :: "'f Literal option"

section \<open>The lexer (frontend/lexer.cpp)\<close>

record Lexer =
  lx_source :: string
  lx_filename :: string
  lx_current :: nat
  lx_line :: nat
  lx_line_start :: nat
  lx_start :: nat

text \<open>The constructor \<open>Lexer(source, filename)\<close>.\<close>

definition make_lexer :: "string \<Rightarrow> string \<Rightarrow> Lexer" where
  "make_lexer src fname =
     \<lparr>lx_source = src, lx_filename = fname, lx_current = 0, lx_line = 1, lx_line_start = 0,
      lx_start = 0\<rparr>"

definition is_at_end :: "Lexer \<Rightarrow> bool" where
  "is_at_end lx = (lx_current lx \<ge> length (lx_source lx))"

definition advance :: "Lexer \<Rightarrow> char \<times> Lexer" where
  "advance lx =
     (if is_at_end lx then (CHR 0x00, lx)
      else (lx_source lx ! lx_current lx, lx\<lparr>lx_current := lx_current lx + 1\<rparr>))"

definition lx_peek :: "Lexer \<Rightarrow> char" where
  "lx_peek lx = (if is_at_end lx then CHR 0x00 else lx_source lx ! lx_current lx)"

definition peek_next :: "Lexer \<Rightarrow> char" where
  "peek_next lx =
     (if lx_current lx + 1 \<ge> length (lx_source lx) then CHR 0x00
      else lx_source lx ! (lx_current lx + 1))"

definition lx_match :: "char \<Rightarrow> Lexer \<Rightarrow> bool \<times> Lexer" where
  "lx_match expected lx =
     (if is_at_end lx then (False, lx)
      else if lx_source lx ! lx_current lx \<noteq> expected then (False, lx)
      else (True, lx\<lparr>lx_current := lx_current lx + 1\<rparr>))"

text \<open>Subtraction of two \<open>size_t\<close>, which wraps around.\<close>

definition size_sub :: "nat \<Rightarrow> nat \<Rightarrow> nat" where
  "size_sub a b = nat ((int a - int b) mod 2 ^ 64)"

definition size_add :: "nat \<Rightarrow> nat \<Rightarrow> nat" where
  "size_add a b = (a + b) mod 2 ^ 64"

text \<open>\<open>std::string_view::substr(pos, n)\<close> for \<open>pos\<close> within the string.\<close>

definition substr :: "string \<Rightarrow> nat \<Rightarrow> nat \<Rightarrow> string" where
  "substr s pos n = take n (drop pos s)"

definition token_location :: "Lexer \<Rightarrow> SourceLocation" where
  "token_location lx =
     \<lparr>loc_filename = lx_filename lx, loc_line = lx_line lx,
      loc_column = size_add (size_sub (lx_start lx) (lx_line_start lx)) 1,
      loc_offset = lx_start lx,
      loc_length = size_sub (lx_current lx) (lx_start lx)\<rparr>"

text \<open>The four overloads of \<open>make_token\<close> differ in the payload only.\<close>

definition make_token_with :: "TokenType \<Rightarrow> 'f Literal option \<Rightarrow> Lexer \<Rightarrow> 'f Token" where
  "make_token_with ty val lx =
     \<lparr>tok_type = ty,
      lexeme = substr (lx_source lx) (lx_start lx) (size_sub (lx_current lx) (lx_start lx)),
      location = token_location lx, tok_value = val\<rparr>"

definition make_token :: "TokenType \<Rightarrow> Lexer \<Rightarrow> 'f Token" where
  "make_token ty lx = make_token_with ty None lx"

definition error_token :: "string \<Rightarrow> Lexer \<Rightarrow> 'f Token" where
  "error_token message lx =
     \<lparr>tok_type = T_Error, lexeme = [], location = token_location lx,
      tok_value = Some (LitString message)\<rparr>"

function skip_whitespace :: "Lexer \<Rightarrow> Lexer" where
  "skip_whitespace lx =
     (if \<not> is_at_end lx then
        (let c = lx_peek lx in
         if c = CHR '' '' \<or> c = CHR 0x09 \<or> c = CHR 0x0D then skip_whitespace (snd (advance lx))
         else if c = CHR 0x0A then
           (let lx1 = snd (advance lx) in
            skip_whitespace (lx1\<lparr>lx_line := lx_line lx1 + 1, lx_line_start := lx_current lx1\<rparr>))
         else lx)
      else lx)"
  by pat_completeness auto
termination
  by (relation "measure (\<lambda>lx. length (lx_source lx) - lx_current lx)")
    (auto simp: advance_def is_at_end_def)

declare skip_whitespace.simps [simp del]

function skip_comment :: "Lexer \<Rightarrow> Lexer" where
  "skip_comment lx =
     (if \<not> is_at_end lx \<and> lx_peek lx \<noteq> CHR 0x0A then skip_comment (snd (advance lx)) else lx)"
  by pat_completeness auto
termination
  by (relation "measure (\<lambda>lx. length (lx_source lx) - lx_current lx)")
    (auto simp: advance_def is_at_end_def)

declare skip_comment.simps [simp del]

text \<open>The loop of \<open>skip_multiline_comment\<close>, with its \<open>depth\<close> counter.\<close>

function skip_multiline_loop :: "int \<Rightarrow> Lexer \<Rightarrow> Lexer" where
  "skip_multiline_loop depth lx =
     (if \<not> is_at_end lx \<and> depth > 0 then
        (if lx_peek lx = CHR '']'' \<and> peek_next lx = CHR ''#''
         then skip_multiline_loop (depth - 1) (snd (advance (snd (advance lx))))
         else if lx_peek lx = CHR 0x0A then
           (let lx1 = snd (advance lx) in
            skip_multiline_loop depth
              (lx1\<lparr>lx_line := lx_line lx1 + 1, lx_line_start := lx_current lx1\<rparr>))
         else skip_multiline_loop depth (snd (advance lx)))
      else lx)"
  by pat_completeness auto
termination
  by (relation "measure (\<lambda>(depth, lx). length (lx_source lx) - lx_current lx)")
    (auto simp: advance_def is_at_end_def)

declare skip_multiline_loop.simps [simp del]

definition skip_multiline_comment :: "Lexer \<Rightarrow> Lexer" where
  "skip_multiline_comment lx = skip_multiline_loop 1 lx"

definition is_digit :: "char \<Rightarrow> bool" where
  "is_digit c = ((of_char c :: nat) \<ge> 48 \<and> (of_char c :: nat) \<le> 57)"

definition is_alpha :: "char \<Rightarrow> bool" where
  "is_alpha c =
     (((of_char c :: nat) \<ge> 97 \<and> (of_char c :: nat) \<le> 122)
      \<or> ((of_char c :: nat) \<ge> 65 \<and> (of_char c :: nat) \<le> 90))"

definition is_alnum :: "char \<Rightarrow> bool" where
  "is_alnum c = (is_alpha c \<or> is_digit c)"

definition keyword_table :: "(string \<times> TokenType) list" where
  "keyword_table =
     [(''function'', T_Function), (''returns'', T_Returns), (''let'', T_Let), (''if'', T_If),
      (''else'', T_Else), (''return'', T_Return), (''lambda'', T_Lambda), (''Int'', T_TypeInt),
      (''Float'', T_TypeFloat), (''String'', T_TypeString), (''Bool'', T_TypeBool),
      (''List'', T_TypeList), (''true'', T_True), (''false'', T_False), (''and'', T_And),
      (''or'', T_Or), (''not'', T_Not)]"

definition identifier_type :: "string \<Rightarrow> TokenType" where
  "identifier_type name = (case map_of keyword_table name of Some ty \<Rightarrow> ty | None \<Rightarrow> T_Identifier)"

text \<open>The loop \<open>while (is_alnum(peek()) || peek() == '_') advance()\<close>.\<close>

function scan_identifier_loop :: "Lexer \<Rightarrow> Lexer" where
  "scan_identifier_loop lx =
     (if is_alnum (lx_peek lx) \<or> lx_peek lx = CHR ''_'' then scan_identifier_loop (snd (advance lx))
      else lx)"
  by pat_completeness auto
termination
  by (relation "measure (\<lambda>lx. length (lx_source lx) - lx_current lx)")
    (auto simp: advance_def is_at_end_def lx_peek_def is_alnum_def is_alpha_def is_digit_def
       split: if_splits)

declare scan_identifier_loop.simps [simp del]

definition scan_identifier :: "Lexer \<Rightarrow> 'f Token \<times> Lexer" where
  "scan_identifier lx =
     (let lx1 = scan_identifier_loop lx;
          name = substr (lx_source lx1) (lx_start lx1) (size_sub (lx_current lx1) (lx_start lx1))
      in (make_token (identifier_type name) lx1, lx1))"

text \<open>The loop \<open>while (is_digit(peek()) || peek() == '_') advance()\<close> of \<open>scan_number\<close>.\<close>

function scan_digits :: "Lexer \<Rightarrow> Lexer" where
  "scan_digits lx =
     (if is_digit (lx_peek lx) \<or> lx_peek lx = CHR ''_'' then scan_digits (snd (advance lx))
      else lx)"
  by pat_completeness auto
termination
  by (relation "measure (\<lambda>lx. length (lx_source lx) - lx_current lx)")
    (auto simp: advance_def is_at_end_def lx_peek_def is_digit_def split: if_splits)

declare scan_digits.simps [simp del]

text \<open>
  \<open>std::from_chars\<close> into an \<open>int64_t\<close>, on a string of decimal digits: the value, or
  nothing when it does not fit.
\<close>

definition decimal_value :: "string \<Rightarrow> nat" where
  "decimal_value s = foldl (\<lambda>acc c. acc * 10 + ((of_char c :: nat) - 48)) 0 s"

definition int_from_chars :: "string \<Rightarrow> 64 word option" where
  "int_from_chars s =
     (if decimal_value s > 9223372036854775807 then None else Some (word_of_nat (decimal_value s)))"

definition scan_number :: "'f float_ops \<Rightarrow> Lexer \<Rightarrow> 'f Token \<times> Lexer" where
  "scan_number fo lx =
     (let lx1 = scan_digits lx;
          (is_float1, lx2) =
            (if lx_peek lx1 = CHR ''.'' \<and> is_digit (peek_next lx1)
             then (True, scan_digits (snd (advance lx1)))
             else (False, lx1))
      in if lx_peek lx2 = CHR ''e'' \<or> lx_peek lx2 = CHR ''E'' then
           (let lx3 = snd (advance lx2);
                lx4 = (if lx_peek lx3 = CHR ''+'' \<or> lx_peek lx3 = CHR ''-''
                       then snd (advance lx3) else lx3)
            in if \<not> is_digit (lx_peek lx4)
               then (error_token ''Invalid exponent in number literal'' lx4, lx4)
               else
                 (let lx5 = scan_digits lx4;
                      cleaned = filter (\<lambda>c. c \<noteq> CHR ''_'')
                                  (substr (lx_source lx5) (lx_start lx5)
                                     (size_sub (lx_current lx5) (lx_start lx5)))
                  in case f_from_chars fo cleaned of
                       None \<Rightarrow> (error_token ''Invalid float literal'' lx5, lx5)
                     | Some v \<Rightarrow> (make_token_with T_FloatLiteral (Some (LitFloat v)) lx5, lx5)))
         else
           (let cleaned = filter (\<lambda>c. c \<noteq> CHR ''_'')
                            (substr (lx_source lx2) (lx_start lx2)
                               (size_sub (lx_current lx2) (lx_start lx2)))
            in if is_float1 then
                 (case f_from_chars fo cleaned of
                    None \<Rightarrow> (error_token ''Invalid float literal'' lx2, lx2)
                  | Some v \<Rightarrow> (make_token_with T_FloatLiteral (Some (LitFloat v)) lx2, lx2))
               else
                 (case int_from_chars cleaned of
                    None \<Rightarrow> (error_token ''Invalid integer literal'' lx2, lx2)
                  | Some v \<Rightarrow> (make_token_with T_IntLiteral (Some (LitInt v)) lx2, lx2))))"

text \<open>
  The loop of \<open>scan_string\<close>, with the string built so far. It ends at the closing quote
  or at the end of the source; an escape cut off by the end of the source returns the
  error token from inside the loop.
\<close>

function scan_string_loop :: "string \<Rightarrow> Lexer \<Rightarrow> ('f Token option) \<times> string \<times> Lexer" where
  "scan_string_loop val lx =
     (if \<not> is_at_end lx \<and> lx_peek lx \<noteq> CHR 0x22 then
        (if lx_peek lx = CHR 0x0A then
           (let lx1 = lx\<lparr>lx_line := lx_line lx + 1, lx_line_start := lx_current lx + 1\<rparr>
            in scan_string_loop (val @ [fst (advance lx1)]) (snd (advance lx1)))
         else if lx_peek lx = CHR 0x5C then
           (let lx1 = snd (advance lx) in
            if is_at_end lx1 then (Some (error_token ''Unterminated string literal'' lx1), val, lx1)
            else
              (let c = fst (advance lx1) in
               scan_string_loop
                 (if c = CHR ''n'' then val @ [CHR 0x0A]
                  else if c = CHR ''t'' then val @ [CHR 0x09]
                  else if c = CHR ''r'' then val @ [CHR 0x0D]
                  else if c = CHR 0x5C then val @ [CHR 0x5C]
                  else if c = CHR 0x22 then val @ [CHR 0x22]
                  else val @ [CHR 0x5C, c])
                 (snd (advance lx1))))
         else scan_string_loop (val @ [fst (advance lx)]) (snd (advance lx)))
      else (None, val, lx))"
  by pat_completeness auto
termination
  by (relation "measure (\<lambda>(val, lx). length (lx_source lx) - lx_current lx)")
    (simp_all add: advance_def is_at_end_def, linarith)

declare scan_string_loop.simps [simp del]

definition scan_string :: "Lexer \<Rightarrow> 'f Token \<times> Lexer" where
  "scan_string lx =
     (case scan_string_loop [] lx of
        (Some err, val, lx1) \<Rightarrow> (err, lx1)
      | (None, val, lx1) \<Rightarrow>
          if is_at_end lx1 then (error_token ''Unterminated string literal'' lx1, lx1)
          else (let lx2 = snd (advance lx1)
                in (make_token_with T_StringLiteral (Some (LitString val)) lx2, lx2)))"

text \<open>
  Every scanning helper keeps the source and never moves \<open>current\<close> backwards; the
  recursion of \<open>scan_token\<close> after a comment rests on it.
\<close>

definition lx_ge :: "string \<Rightarrow> nat \<Rightarrow> Lexer \<Rightarrow> bool" where
  "lx_ge src n lx = (lx_source lx = src \<and> n \<le> lx_current lx)"

lemma lx_ge_update [simp]:
  "lx_ge src n (lx\<lparr>lx_start := s\<rparr>) = lx_ge src n lx"
  "lx_ge src n (lx\<lparr>lx_line := l\<rparr>) = lx_ge src n lx"
  "lx_ge src n (lx\<lparr>lx_line_start := l\<rparr>) = lx_ge src n lx"
  by (simp_all add: lx_ge_def)

lemma lx_ge_advance: "lx_ge src n lx \<Longrightarrow> lx_ge src n (snd (advance lx))"
  by (simp add: lx_ge_def advance_def)

lemma lx_ge_advance_strict:
  "lx_ge src n lx \<Longrightarrow> \<not> is_at_end lx \<Longrightarrow> lx_ge src (Suc n) (snd (advance lx))"
  by (simp add: lx_ge_def advance_def)

lemma lx_ge_match: "lx_ge src n lx \<Longrightarrow> lx_ge src n (snd (lx_match c lx))"
  by (simp add: lx_ge_def lx_match_def)

lemma lx_ge_skip_whitespace: "lx_ge src n lx \<Longrightarrow> lx_ge src n (skip_whitespace lx)"
proof (induction lx rule: skip_whitespace.induct)
  case (1 lx)
  then show ?case
    by (subst skip_whitespace.simps) (auto simp: Let_def lx_ge_advance)
qed

lemma lx_ge_skip_comment: "lx_ge src n lx \<Longrightarrow> lx_ge src n (skip_comment lx)"
proof (induction lx rule: skip_comment.induct)
  case (1 lx)
  then show ?case
    by (subst skip_comment.simps) (auto simp: lx_ge_advance)
qed

lemma lx_ge_skip_multiline_loop:
  "lx_ge src n lx \<Longrightarrow> lx_ge src n (skip_multiline_loop depth lx)"
proof (induction depth lx rule: skip_multiline_loop.induct)
  case (1 depth lx)
  then show ?case
    by (subst skip_multiline_loop.simps) (auto simp: Let_def lx_ge_advance)
qed

lemma lx_ge_skip_multiline_comment:
  "lx_ge src n lx \<Longrightarrow> lx_ge src n (skip_multiline_comment lx)"
  by (simp add: skip_multiline_comment_def lx_ge_skip_multiline_loop)

lemma lx_ge_scan_identifier_loop:
  "lx_ge src n lx \<Longrightarrow> lx_ge src n (scan_identifier_loop lx)"
proof (induction lx rule: scan_identifier_loop.induct)
  case (1 lx)
  then show ?case
    by (subst scan_identifier_loop.simps) (auto simp: lx_ge_advance)
qed

lemma lx_ge_scan_digits: "lx_ge src n lx \<Longrightarrow> lx_ge src n (scan_digits lx)"
proof (induction lx rule: scan_digits.induct)
  case (1 lx)
  then show ?case
    by (subst scan_digits.simps) (auto simp: lx_ge_advance)
qed

lemma lx_ge_scan_string_loop:
  "lx_ge src n lx \<Longrightarrow> lx_ge src n (snd (snd (scan_string_loop val lx)))"
proof (induction val lx rule: scan_string_loop.induct)
  case (1 val lx)
  then show ?case
    by (subst scan_string_loop.simps) (auto simp: Let_def lx_ge_advance)
qed

lemma lx_ge_scan_string: "lx_ge src n lx \<Longrightarrow> lx_ge src n (snd (scan_string lx))"
  by (simp add: scan_string_def case_prod_beta Let_def lx_ge_advance lx_ge_scan_string_loop
        split: option.split)

lemma lx_ge_scan_identifier: "lx_ge src n lx \<Longrightarrow> lx_ge src n (snd (scan_identifier lx))"
  by (simp add: scan_identifier_def Let_def lx_ge_scan_identifier_loop)

lemma lx_ge_scan_number: "lx_ge src n lx \<Longrightarrow> lx_ge src n (snd (scan_number fo lx))"
  by (simp add: scan_number_def Let_def case_prod_beta lx_ge_scan_digits lx_ge_advance
        split: option.split)

lemma scan_token_measure:
  assumes "\<not> is_at_end (skip_whitespace lx0)"
    and "(c, y) = advance ((skip_whitespace lx0)\<lparr>lx_start := s\<rparr>)"
    and "\<And>src n. lx_ge src n y \<Longrightarrow> lx_ge src n lx'"
  shows "length (lx_source lx') - lx_current lx' < length (lx_source lx0) - lx_current lx0"
proof -
  have "lx_ge (lx_source lx0) (lx_current lx0) (skip_whitespace lx0)"
    by (rule lx_ge_skip_whitespace) (simp add: lx_ge_def)
  moreover have "y = snd (advance ((skip_whitespace lx0)\<lparr>lx_start := s\<rparr>))"
    using assms(2) by (metis snd_conv)
  ultimately have "lx_ge (lx_source lx0) (Suc (lx_current lx0)) y"
    using assms(1) by (simp add: lx_ge_def advance_def is_at_end_def)
  then have "lx_ge (lx_source lx0) (Suc (lx_current lx0)) lx'"
    by (rule assms(3))
  moreover have "lx_current y \<le> length (lx_source lx0)"
    using \<open>y = _\<close> assms(1) \<open>lx_ge (lx_source lx0) (lx_current lx0) (skip_whitespace lx0)\<close>
    by (simp add: lx_ge_def advance_def is_at_end_def)
  ultimately show ?thesis
    using assms(1) \<open>lx_ge (lx_source lx0) (lx_current lx0) (skip_whitespace lx0)\<close>
    by (auto simp: lx_ge_def is_at_end_def)
qed

function scan_token :: "'f float_ops \<Rightarrow> Lexer \<Rightarrow> 'f Token \<times> Lexer" where
  "scan_token fo lx0 =
     (let lx1 = skip_whitespace lx0 in
      if is_at_end lx1 then (make_token T_Eof lx1, lx1)
      else
        (case advance (lx1\<lparr>lx_start := lx_current lx1\<rparr>) of (c, lx) \<Rightarrow>
           if c = CHR ''('' then (make_token T_LeftParen lx, lx)
           else if c = CHR '')'' then (make_token T_RightParen lx, lx)
           else if c = CHR ''{'' then (make_token T_LeftBrace lx, lx)
           else if c = CHR ''}'' then (make_token T_RightBrace lx, lx)
           else if c = CHR ''['' then (make_token T_LeftBracket lx, lx)
           else if c = CHR '']'' then (make_token T_RightBracket lx, lx)
           else if c = CHR '','' then (make_token T_Comma lx, lx)
           else if c = CHR ''.'' then (make_token T_Dot lx, lx)
           else if c = CHR '':'' then (make_token T_Colon lx, lx)
           else if c = CHR ''+'' then (make_token T_Plus lx, lx)
           else if c = CHR ''-'' then (make_token T_Minus lx, lx)
           else if c = CHR ''%'' then (make_token T_Percent lx, lx)
           else if c = CHR ''/'' then (make_token T_Slash lx, lx)
           else if c = CHR ''*'' then
             (case lx_match (CHR ''*'') lx of (m, lx') \<Rightarrow>
                if m then (make_token T_Power lx', lx') else (make_token T_Star lx', lx'))
           else if c = CHR ''='' then
             (case lx_match (CHR ''='') lx of (m, lx') \<Rightarrow>
                if m then (make_token T_Equal lx', lx') else (make_token T_Assign lx', lx'))
           else if c = CHR ''!'' then
             (case lx_match (CHR ''='') lx of (m, lx') \<Rightarrow>
                if m then (make_token T_NotEqual lx', lx')
                else (error_token (''Unexpected character '' @ [CHR 0x27, CHR ''!'', CHR 0x27]) lx', lx'))
           else if c = CHR ''<'' then
             (case lx_match (CHR ''='') lx of (m, lx') \<Rightarrow>
                if m then (make_token T_LessEqual lx', lx') else (make_token T_Less lx', lx'))
           else if c = CHR ''>'' then
             (case lx_match (CHR ''='') lx of (m, lx') \<Rightarrow>
                if m then (make_token T_GreaterEqual lx', lx') else (make_token T_Greater lx', lx'))
           else if c = CHR 0x22 then scan_string lx
           else if c = CHR ''#'' then
             (if fst (lx_match (CHR ''['') lx)
              then scan_token fo (skip_multiline_comment (snd (lx_match (CHR ''['') lx)))
              else scan_token fo (skip_comment (snd (lx_match (CHR ''['') lx))))
           else if is_digit c then scan_number fo lx
           else if is_alpha c \<or> c = CHR ''_'' then scan_identifier lx
           else (error_token (''Unexpected character: '' @ [CHR 0x27, c, CHR 0x27]) lx, lx)))"
  by pat_completeness auto

termination
  by (relation "measure (\<lambda>(fo, lx). length (lx_source lx) - lx_current lx)")
    (auto intro!: scan_token_measure lx_ge_skip_comment lx_ge_skip_multiline_comment lx_ge_match)

declare scan_token.simps [simp del]

lemma lx_ge_scan_token: "lx_ge src n lx0 \<Longrightarrow> lx_ge src n (snd (scan_token fo lx0))"
proof (induction fo lx0 rule: scan_token.induct)
  case (1 fo lx0)
  define lx1 where "lx1 = skip_whitespace lx0"
  define c where "c = fst (advance (lx1\<lparr>lx_start := lx_current lx1\<rparr>))"
  define lx where "lx = snd (advance (lx1\<lparr>lx_start := lx_current lx1\<rparr>))"
  have adv: "advance (lx1\<lparr>lx_start := lx_current lx1\<rparr>) = (c, lx)"
    by (simp add: c_def lx_def)
  have ge1: "lx_ge src n lx1"
    unfolding lx1_def using 1(3) by (rule lx_ge_skip_whitespace)
  then have ge: "lx_ge src n lx"
    unfolding lx_def by (intro lx_ge_advance) simp
  have ml: "lx_ge src n (snd (scan_token fo (skip_multiline_comment (snd (lx_match (CHR ''['') lx)))))"
    if "\<not> is_at_end lx1" "c = CHR ''#''" "fst (lx_match (CHR ''['') lx)"
    using 1(1) [OF lx1_def that(1) adv [symmetric]] that ge
    by (simp add: lx_ge_skip_multiline_comment lx_ge_match)
  have sl: "lx_ge src n (snd (scan_token fo (skip_comment (snd (lx_match (CHR ''['') lx)))))"
    if "\<not> is_at_end lx1" "c = CHR ''#''" "\<not> fst (lx_match (CHR ''['') lx)"
    using 1(2) [OF lx1_def that(1) adv [symmetric]] that ge
    by (simp add: lx_ge_skip_comment lx_ge_match)
  show ?case
    using ge1 ge ml sl
    by (subst scan_token.simps)
      (simp add: Let_def lx1_def [symmetric] adv case_prod_beta lx_ge_match lx_ge_scan_string
         lx_ge_scan_number lx_ge_scan_identifier)
qed

lemma scan_token_progress:
  assumes "tok_type (fst (scan_token fo lx0)) \<noteq> T_Eof"
  shows "lx_ge (lx_source lx0) (Suc (lx_current lx0)) (snd (scan_token fo lx0))"
proof -
  define lx1 where "lx1 = skip_whitespace lx0"
  define c where "c = fst (advance (lx1\<lparr>lx_start := lx_current lx1\<rparr>))"
  define lx where "lx = snd (advance (lx1\<lparr>lx_start := lx_current lx1\<rparr>))"
  define src where "src = lx_source lx0"
  define n where "n = Suc (lx_current lx0)"
  have adv: "advance (lx1\<lparr>lx_start := lx_current lx1\<rparr>) = (c, lx)"
    by (simp add: c_def lx_def)
  have not_end: "\<not> is_at_end lx1"
  proof
    assume "is_at_end lx1"
    then have "scan_token fo lx0 = (make_token T_Eof lx1, lx1)"
      by (subst scan_token.simps) (simp add: Let_def lx1_def)
    then show False
      using assms by (simp add: make_token_def make_token_with_def)
  qed
  have "lx_ge src (lx_current lx0) lx1"
    unfolding lx1_def src_def by (rule lx_ge_skip_whitespace) (simp add: lx_ge_def)
  then have ge: "lx_ge src n lx"
    unfolding lx_def n_def using not_end by (intro lx_ge_advance_strict) (simp_all add: is_at_end_def)
  have "lx_ge src n (snd (scan_token fo lx0))"
    using ge not_end
    by (subst scan_token.simps)
      (simp add: Let_def lx1_def [symmetric] adv case_prod_beta lx_ge_match lx_ge_scan_string
         lx_ge_scan_number lx_ge_scan_identifier lx_ge_scan_token lx_ge_skip_comment
         lx_ge_skip_multiline_comment)
  then show ?thesis
    by (simp add: src_def n_def)
qed

definition next_token :: "'f float_ops \<Rightarrow> Lexer \<Rightarrow> 'f Token \<times> Lexer" where
  "next_token fo lx = (if is_at_end lx then (make_token T_Eof lx, lx) else scan_token fo lx)"

text \<open>The loop of \<open>tokenize\<close>, with the tokens collected so far.\<close>

function tokenize_loop :: "'f float_ops \<Rightarrow> 'f Token list \<Rightarrow> Lexer \<Rightarrow> 'f Token list \<times> Lexer" where
  "tokenize_loop fo tokens lx =
     (if \<not> is_at_end lx then
        (let r = next_token fo lx;
             tokens' = tokens @ [fst r]
         in if tok_type (fst r) = T_Eof \<or> tok_type (fst r) = T_Error then (tokens', snd r)
            else tokenize_loop fo tokens' (snd r))
      else (tokens, lx))"
  by pat_completeness auto
termination
proof (relation "measure (\<lambda>(fo, tokens, lx). length (lx_source lx) - lx_current lx)", goal_cases)
  case 1
  show ?case
    by simp
next
  case (2 fo tokens lx r tokens')
  then have "tok_type (fst (scan_token fo lx)) \<noteq> T_Eof" and "\<not> is_at_end lx"
    by (simp_all add: next_token_def)
  then show ?case
    using scan_token_progress [of fo lx] 2
    by (auto simp: next_token_def lx_ge_def is_at_end_def)
qed

declare tokenize_loop.simps [simp del]

definition tokenize :: "'f float_ops \<Rightarrow> Lexer \<Rightarrow> 'f Token list \<times> Lexer" where
  "tokenize fo lx =
     (let r = tokenize_loop fo [] lx
      in if fst r = [] \<or> tok_type (last (fst r)) \<noteq> T_Eof
         then (fst r @ [make_token T_Eof (snd r)], snd r)
         else r)"

section \<open>Example programs\<close>

text \<open>
  Example programs, as the parser builds them, and their compiled code.
  \<open>tuple_let_program\<close> is
  \<open>function main() returns Int { let (x, y) = (10, 20) return x + y }\<close>;
  \<open>callee_let_program\<close> is
  \<open>function f() returns Int { let x = 5 return x }
  function main() returns Int { return f() }\<close>;
  \<open>long_then_if\<close> is \<open>if false { [true, ..., true] } else { [true] }\<close> with 32761
  elements in the first list;
  \<open>min_div_program\<close> is
  \<open>function main() returns Int { return (0 - 9223372036854775807 - 1) / (0 - 1) }\<close>;
  \<open>float_mod_program\<close> is \<open>function main() returns Float { return 7.0 % 2 }\<close>;
  \<open>let_in_block_program\<close> is
  \<open>function main() returns Int { let x = { let () = () } return 0 }\<close>.
\<close>

definition tuple_let_program :: "int Program" where
  "tuple_let_program =
     Program
       [FunctionDef ''main'' [] (AstNamedType ''Int'' no_location)
          (BlockExpr
             [LetStmt (TuplePattern [IdentifierPattern ''x'' no_location,
                                     IdentifierPattern ''y'' no_location] no_location)
                None
                (TupleExpr [IntLiteralExpr 10 no_location, IntLiteralExpr 20 no_location]
                   no_location)
                no_location,
              ReturnStmt (BinaryExpr BO_Add (IdentifierExpr ''x'' no_location)
                            (IdentifierExpr ''y'' no_location) no_location)
                no_location]
             no_location)
          no_location]
       no_location"

definition tuple_let_bytecode :: "int Bytecode" where
  "tuple_let_bytecode =
     \<lparr>instructions =
        [0, 0, 0, 0, 1, 0, 24, 2, 0, 34, 0, 2, 0, 25, 4, 0, 0, 34, 0, 3, 0, 25, 4, 1, 0, 33,
         3, 0, 0, 3, 1, 0, 6, 32, 35],
      constants = [IntV 10, IntV 20, IntV 0, IntV 1],
      function_table =
        [\<lparr>fn_name = ''main'', fn_offset = 0, fn_param_count = 0, fn_local_count = 2\<rparr>]\<rparr>"

definition callee_let_program :: "int Program" where
  "callee_let_program =
     Program
       [FunctionDef ''f'' [] (AstNamedType ''Int'' no_location)
          (BlockExpr
             [LetStmt (IdentifierPattern ''x'' no_location) None
                (IntLiteralExpr 5 no_location) no_location,
              ReturnStmt (IdentifierExpr ''x'' no_location) no_location]
             no_location)
          no_location,
        FunctionDef ''main'' [] (AstNamedType ''Int'' no_location)
          (BlockExpr
             [ReturnStmt (CallExpr (IdentifierExpr ''f'' no_location) [] no_location)
                no_location]
             no_location)
          no_location]
       no_location"

definition callee_let_bytecode :: "int Bytecode" where
  "callee_let_bytecode =
     \<lparr>instructions = [0, 0, 0, 4, 0, 0, 3, 0, 0, 32, 31, 0, 0, 0, 32, 35],
      constants = [IntV 5],
      function_table =
        [\<lparr>fn_name = ''f'', fn_offset = 0, fn_param_count = 0, fn_local_count = 1\<rparr>,
         \<lparr>fn_name = ''main'', fn_offset = 10, fn_param_count = 0, fn_local_count = 0\<rparr>]\<rparr>"

definition long_then_if :: "int Expr" where
  "long_then_if =
     IfExpr (BoolLiteralExpr False no_location)
       (ListExpr (replicate 32761 (BoolLiteralExpr True no_location)) no_location)
       (Some (ListExpr [BoolLiteralExpr True no_location] no_location)) no_location"

definition long_then_code :: "8 word list" where
  "long_then_code =
     [2, 29, 0, 128, 33] @ replicate 32761 1 @ [23, 249, 127, 28, 5, 0, 33, 1, 23, 1, 0]"

definition min_div_program :: "int Program" where
  "min_div_program =
     Program
       [FunctionDef ''main'' [] (AstNamedType ''Int'' no_location)
          (BlockExpr
             [ReturnStmt
                (BinaryExpr BO_Div
                   (BinaryExpr BO_Sub
                      (BinaryExpr BO_Sub (IntLiteralExpr 0 no_location)
                         (IntLiteralExpr 9223372036854775807 no_location) no_location)
                      (IntLiteralExpr 1 no_location) no_location)
                   (BinaryExpr BO_Sub (IntLiteralExpr 0 no_location)
                      (IntLiteralExpr 1 no_location) no_location)
                   no_location)
                no_location]
             no_location)
          no_location]
       no_location"

definition min_div_bytecode :: "int Bytecode" where
  "min_div_bytecode =
     \<lparr>instructions = [0, 0, 0, 0, 1, 0, 7, 0, 2, 0, 7, 0, 3, 0, 0, 4, 0, 7, 9, 32, 35],
      constants = [IntV 0, IntV 9223372036854775807, IntV 1, IntV 0, IntV 1],
      function_table =
        [\<lparr>fn_name = ''main'', fn_offset = 0, fn_param_count = 0, fn_local_count = 0\<rparr>]\<rparr>"



definition let_in_block_program :: "int Program" where
  "let_in_block_program =
     Program
       [FunctionDef ''main'' [] (AstNamedType ''Int'' no_location)
          (BlockExpr
             [LetStmt (IdentifierPattern ''x'' no_location) None
                (BlockExpr
                   [LetStmt (TuplePattern [] no_location) None (TupleExpr [] no_location)
                      no_location]
                   no_location)
                no_location,
              ReturnStmt (IntLiteralExpr 0 no_location) no_location]
             no_location)
          no_location]
       no_location"

definition let_in_block_bytecode :: "int Bytecode" where
  "let_in_block_bytecode =
     \<lparr>instructions = [24, 0, 0, 33, 4, 0, 0, 0, 0, 0, 32, 35],
      constants = [IntV 0],
      function_table =
        [\<lparr>fn_name = ''main'', fn_offset = 0, fn_param_count = 0, fn_local_count = 1\<rparr>]\<rparr>"

section \<open>Properties of the semantic types\<close>

text \<open>
  C4. The Unknown type is never equal to any type: \<open>equals\<close> between Unknown and any
  semantic type \<open>t\<close> (Unknown included) is false, whichever of the two is the receiver.
\<close>

theorem unknown_never_equal:
  "equals UnknownType t = False \<and> equals t UnknownType = False"
  by (cases t) simp_all

section \<open>Evaluation lemmas\<close>

named_theorems vm_eval
named_theorems compiler_eval

lemma run_turns_numeral:
  "run_turns (numeral k) fo h bc vm =
     (case step fo h bc vm of
        Inl e \<Rightarrow> Inl e
      | Inr (finished, vm') \<Rightarrow>
          if finished then Inr (True, vm') else run_turns (pred_numeral k) fo h bc vm')"
  by (simp add: numeral_eq_Suc)

lemma run_numeral:
  "run (numeral k) fo h bc vm =
     (case step fo h bc vm of
        Inl e \<Rightarrow> Some (Inl e)
      | Inr (finished, vm') \<Rightarrow> if finished then Some (Inr vm') else run (pred_numeral k) fo h bc vm')"
  by (simp add: numeral_eq_Suc)

lemma pop_values_numeral:
  "pop_values (numeral k) vm =
     bind_err (pop vm) (\<lambda>(v, vm1).
     bind_err (pop_values (pred_numeral k) vm1) (\<lambda>(vs, vm2). Inr (v # vs, vm2)))"
  by (simp add: numeral_eq_Suc)

lemma replicate_numeral_unfold:
  "replicate (numeral k) x = x # replicate (pred_numeral k) x"
  by (simp add: numeral_eq_Suc)

lemma list_update_Cons_numeral:
  "(x # xs)[numeral k := y] = x # xs[pred_numeral k := y]"
  by (simp add: numeral_eq_Suc)

lemmas [vm_eval] = call_function_def find_function_def make_frame_def step_def read_byte_def
  read_uint16_def get_ip_def set_ip_def bind_err_def opcode_of_byte_def all_opcodes_def
  exec_opcode_def continue_def push_def pop_def peek_def binary_op_def unary_op_def
  exec_load_local_def exec_store_local_def exec_call_def exec_return_def exec_jump_def
  exec_jump_if_def exec_build_def exec_index_def index_value_def jump_target_def Let_def
  run_turns_numeral run_numeral pop_values_numeral fresh_vm_def

lemmas [compiler_eval] = compile_def new_compiler_def empty_bytecode_def add_function_def
  current_offset_def compile_function_def enter_scope_def exit_scope_def bind_err_def
  c_add_constant_def add_constant_def emit_def emit16_def emit16_8_def emit0_def emit_u16_def
  emit_u16_u8_def declare_local_def visit_identifier_def resolve_local_def resolve_function_def
  size_to_int_def lo_byte_def hi_byte_def binary_opcode_def unary_opcode_def Let_def
  emit_jump_def patch_jump_def bc_patch_jump_def pop_back3_def builtin_id_of_def
  list_update_Cons_numeral list_update_append no_location_def

section \<open>Single instructions\<close>

lemma opcode_of_byte_opcode_byte: "opcode_of_byte (opcode_byte opc) = Some opc"
  by (cases opc) (simp_all add: opcode_of_byte_def all_opcodes_def)

lemma step_fetch:
  assumes "call_stack vm = fr # frs" and "instruction_pointer fr < length (instructions bc)"
    and "instructions bc ! instruction_pointer fr = opcode_byte opc"
  shows "step fo h bc vm =
           exec_opcode fo h bc opc
             (vm\<lparr>call_stack := fr\<lparr>instruction_pointer := instruction_pointer fr + 1\<rparr> # frs\<rparr>)"
  using assms
  by (simp add: step_def read_byte_def get_ip_def set_ip_def bind_err_def
      opcode_of_byte_opcode_byte)

lemma read_uint16_at:
  assumes "call_stack vm = fr # frs" and "instruction_pointer fr + 1 < length (instructions bc)"
  shows "read_uint16 bc vm =
           Inr (operand_at bc (instruction_pointer fr),
                vm\<lparr>call_stack := fr\<lparr>instruction_pointer := instruction_pointer fr + 2\<rparr> # frs\<rparr>)"
  using assms
  by (simp add: read_uint16_def read_byte_def get_ip_def set_ip_def bind_err_def operand_at_def)

lemma step_jump_if:
  assumes "call_stack vm = fr # frs" and "stack vm = v # rest"
    and "instruction_pointer fr + 2 < length (instructions bc)"
    and "instructions bc ! instruction_pointer fr = opcode_byte opc"
    and "opc = OP_JUMP_IF_FALSE \<and> \<not> want \<or> opc = OP_JUMP_IF_TRUE \<and> want"
  shows "step fo h bc vm =
          Inr (False,
               vm\<lparr>call_stack :=
                    fr\<lparr>instruction_pointer :=
                         (if is_truthy fo v = want
                          then jump_target (instruction_pointer fr + 3)
                                 (operand_at bc (instruction_pointer fr + 1))
                          else instruction_pointer fr + 3)\<rparr> # frs\<rparr>)"
proof -
  let ?vm1 = "vm\<lparr>call_stack := fr\<lparr>instruction_pointer := instruction_pointer fr + 1\<rparr> # frs\<rparr>"
  have fetch: "step fo h bc vm = exec_opcode fo h bc opc ?vm1"
    using assms by (intro step_fetch) simp_all
  have exec: "exec_opcode fo h bc opc ?vm1 = exec_jump_if fo want bc ?vm1"
    using assms(5) by (auto simp: exec_opcode_def)
  have rd: "read_uint16 bc ?vm1 =
      Inr (operand_at bc (instruction_pointer fr + 1),
           vm\<lparr>call_stack := fr\<lparr>instruction_pointer := instruction_pointer fr + 3\<rparr> # frs\<rparr>)"
    using assms(3) read_uint16_at [of ?vm1 "fr\<lparr>instruction_pointer := instruction_pointer fr + 1\<rparr>" frs bc]
    by simp
  show ?thesis
    unfolding fetch exec exec_jump_if_def rd
    using assms(2)
    by (simp add: bind_err_def peek_def get_ip_def set_ip_def continue_def)
qed

lemma u16_bytes_roundtrip:
  "or (ucast (lo_byte k)) (push_bit 8 (ucast (hi_byte k))) = (k :: 16 word)"
proof -
  have m: "(255 :: 16 word) = mask 8"
    by (simp add: mask_eq_exp_minus_1)
  show ?thesis
    unfolding lo_byte_def hi_byte_def m
    by (rule bit_word_eqI) (auto simp: bit_simps)
qed

lemma unat_word_of_int_64: "unat (word_of_int z :: 64 word) = nat (z mod 2 ^ 64)"
  by (simp add: unat_eq_nat_uint uint_word_of_int)

lemma jump_target_exact:
  assumes "0 \<le> int n + sint k" and "n < 2 ^ 63"
  shows "jump_target n k = nat (int n + sint k)"
proof -
  have k: "sint k < 2 ^ 15"
    using sint_lt [of k] by simp
  have n: "int n < 2 ^ 63"
    using assms(2) by simp
  have small: "(int n + sint k) mod 2 ^ 64 = int n + sint k"
  proof (rule mod_pos_pos_trivial)
    show "0 \<le> int n + sint k" by (fact assms(1))
    show "int n + sint k < 2 ^ 64" using k n by simp
  qed
  have "(word_of_nat n :: 64 word) + scast k = word_of_int (int n + sint k)"
    by (simp only: scast_eq of_int_add of_int_of_nat_eq)
  then have "jump_target n k = unat (word_of_int (int n + sint k) :: 64 word)"
    by (simp only: jump_target_def)
  also have "\<dots> = nat ((int n + sint k) mod 2 ^ 64)"
    by (rule unat_word_of_int_64)
  finally show ?thesis
    by (simp only: small)
qed

lemma sint_word_of_nat_16:
  assumes "d \<le> 32767"
  shows "sint (word_of_nat d :: 16 word) = int d"
proof -
  have "(word_of_nat d :: 16 word) = word_of_int (int d)"
    by simp
  then have "sint (word_of_nat d :: 16 word) = signed_take_bit 15 (int d)"
    by (simp only: signed_of_int) simp
  also have "\<dots> = int d"
    using assms by (intro signed_take_bit_int_eq_self) simp_all
  finally show ?thesis .
qed

lemma step_jump:
  assumes "call_stack vm = fr # frs"
    and "instruction_pointer fr + 2 < length (instructions bc)"
    and "instructions bc ! instruction_pointer fr = opcode_byte OP_JUMP"
  shows "step fo h bc vm =
          Inr (False,
               vm\<lparr>call_stack :=
                    fr\<lparr>instruction_pointer :=
                         jump_target (instruction_pointer fr + 3)
                           (operand_at bc (instruction_pointer fr + 1))\<rparr> # frs\<rparr>)"
proof -
  let ?vm1 = "vm\<lparr>call_stack := fr\<lparr>instruction_pointer := instruction_pointer fr + 1\<rparr> # frs\<rparr>"
  have fetch: "step fo h bc vm = exec_opcode fo h bc OP_JUMP ?vm1"
    using assms by (intro step_fetch) simp_all
  have rd: "read_uint16 bc ?vm1 =
      Inr (operand_at bc (instruction_pointer fr + 1),
           vm\<lparr>call_stack := fr\<lparr>instruction_pointer := instruction_pointer fr + 3\<rparr> # frs\<rparr>)"
    using assms(2) read_uint16_at [of ?vm1 "fr\<lparr>instruction_pointer := instruction_pointer fr + 1\<rparr>" frs bc]
    by simp
  have exec: "exec_opcode fo h bc OP_JUMP ?vm1 = exec_jump bc ?vm1"
    by (simp add: exec_opcode_def)
  show ?thesis
    unfolding fetch exec exec_jump_def rd
    by (simp add: bind_err_def get_ip_def set_ip_def continue_def)
qed

lemma step_store_local:
  assumes "call_stack vm = fr # frs" and "stack vm = v # rest"
    and "instruction_pointer fr + 2 < length (instructions bc)"
    and "instructions bc ! instruction_pointer fr = opcode_byte OP_STORE_LOCAL"
    and "unat (operand_at bc (instruction_pointer fr + 1)) < length (locals fr)"
  shows "step fo h bc vm =
          Inr (False,
               vm\<lparr>call_stack :=
                    fr\<lparr>instruction_pointer := instruction_pointer fr + 3,
                       locals := (locals fr)
                         [unat (operand_at bc (instruction_pointer fr + 1)) := v]\<rparr> # frs\<rparr>)"
proof -
  let ?vm1 = "vm\<lparr>call_stack := fr\<lparr>instruction_pointer := instruction_pointer fr + 1\<rparr> # frs\<rparr>"
  have fetch: "step fo h bc vm = exec_opcode fo h bc OP_STORE_LOCAL ?vm1"
    using assms by (intro step_fetch) simp_all
  have rd: "read_uint16 bc ?vm1 =
      Inr (operand_at bc (instruction_pointer fr + 1),
           vm\<lparr>call_stack := fr\<lparr>instruction_pointer := instruction_pointer fr + 3\<rparr> # frs\<rparr>)"
    using assms(3) read_uint16_at [of ?vm1 "fr\<lparr>instruction_pointer := instruction_pointer fr + 1\<rparr>" frs bc]
    by simp
  have exec: "exec_opcode fo h bc OP_STORE_LOCAL ?vm1 = exec_store_local bc ?vm1"
    by (simp add: exec_opcode_def)
  show ?thesis
    unfolding fetch exec exec_store_local_def rd
    using assms(2,5)
    by (simp add: bind_err_def peek_def continue_def)
qed

lemma compile_let_identifier:
  assumes "compile_stmt (LetStmt (IdentifierPattern name ploc) ty init loc) c = Inr c'"
  shows "\<exists>c1 scope outer.
           compile_expr init c = Inr c1 \<and> scopes c1 = scope # outer
           \<and> scopes c' = scope\<lparr>local_count := local_count scope + 1,
                                 scope_locals := (scope_locals scope)(name \<mapsto> local_count scope)\<rparr> # outer
           \<and> instructions (bytecode c') =
               instructions (bytecode c1) @
                 [opcode_byte OP_STORE_LOCAL, lo_byte (word_of_nat (local_count scope)),
                  hi_byte (word_of_nat (local_count scope))]"
  using assms
  by (auto simp: bind_err_def declare_local_def emit16_def emit_u16_def Let_def
      split: sum.splits list.splits)

lemma compile_let_tuple:
  assumes "compile_stmt (LetStmt (TuplePattern ps ploc) ty init loc) c = Inr c'"
  shows "instructions (bytecode c') \<noteq> [] \<and> last (instructions (bytecode c')) = opcode_byte OP_POP"
  using assms
  by (auto simp: bind_err_def emit_def emit0_def split: sum.splits)

lemma step_jump_taken:
  assumes cs: "call_stack vm = fr # frs"
    and len: "instruction_pointer fr + 2 < length (instructions bc)"
    and opc: "instructions bc ! instruction_pointer fr = opcode_byte opc"
    and guard: "opc = OP_JUMP
          \<or> opc = OP_JUMP_IF_FALSE \<and> stack vm = v # rest \<and> \<not> is_truthy fo v
          \<or> opc = OP_JUMP_IF_TRUE \<and> stack vm = v # rest \<and> is_truthy fo v"
  shows "step fo h bc vm =
          Inr (False,
               vm\<lparr>call_stack :=
                    fr\<lparr>instruction_pointer :=
                         jump_target (instruction_pointer fr + 3)
                           (operand_at bc (instruction_pointer fr + 1))\<rparr> # frs\<rparr>)"
  using guard
proof (elim disjE conjE)
  assume "opc = OP_JUMP"
  then show ?thesis
    using step_jump [OF cs len] opc by simp
next
  assume "opc = OP_JUMP_IF_FALSE" "stack vm = v # rest" "\<not> is_truthy fo v"
  then show ?thesis
    using step_jump_if [OF cs _ len opc, of v rest False fo h] by simp
next
  assume "opc = OP_JUMP_IF_TRUE" "stack vm = v # rest" "is_truthy fo v"
  then show ?thesis
    using step_jump_if [OF cs _ len opc, of v rest True fo h] by simp
qed

lemma step_not:
  assumes "call_stack vm = fr # frs" and "stack vm = v # rest"
    and "instruction_pointer fr < length (instructions bc)"
    and "instructions bc ! instruction_pointer fr = opcode_byte OP_NOT"
  shows "step fo h bc vm =
          Inr (False,
               vm\<lparr>call_stack := fr\<lparr>instruction_pointer := instruction_pointer fr + 1\<rparr> # frs,
                   stack := BoolV (\<not> is_truthy fo v) # rest\<rparr>)"
proof -
  have "step fo h bc vm = exec_opcode fo h bc OP_NOT
          (vm\<lparr>call_stack := fr\<lparr>instruction_pointer := instruction_pointer fr + 1\<rparr> # frs\<rparr>)"
    using assms by (intro step_fetch) simp_all
  then show ?thesis
    using assms(2)
    by (simp add: exec_opcode_def unary_op_def unary_not_def bind_err_def pop_def push_def
        continue_def)
qed

lemma exec_binary:
  assumes "stack vm = v2 # v1 # rest"
  shows "binary_op f vm = bind_err (f v1 v2) (\<lambda>res. Inr (False, vm\<lparr>stack := res # rest\<rparr>))"
  using assms by (simp add: binary_op_def pop_def bind_err_def continue_def push_def split: sum.splits)

lemma step_store_local_empty:
  assumes "call_stack vm = fr # frs" and "stack vm = []"
    and "instruction_pointer fr + 2 < length (instructions bc)"
    and "instructions bc ! instruction_pointer fr = opcode_byte OP_STORE_LOCAL"
  shows "step fo h bc vm = Inl (RuntimeError ''Stack underflow'')"
proof -
  let ?vm1 = "vm\<lparr>call_stack := fr\<lparr>instruction_pointer := instruction_pointer fr + 1\<rparr> # frs\<rparr>"
  have fetch: "step fo h bc vm = exec_opcode fo h bc OP_STORE_LOCAL ?vm1"
    using assms by (intro step_fetch) simp_all
  have rd: "read_uint16 bc ?vm1 =
      Inr (operand_at bc (instruction_pointer fr + 1),
           vm\<lparr>call_stack := fr\<lparr>instruction_pointer := instruction_pointer fr + 3\<rparr> # frs\<rparr>)"
    using assms(3) read_uint16_at [of ?vm1 "fr\<lparr>instruction_pointer := instruction_pointer fr + 1\<rparr>" frs bc]
    by simp
  have exec: "exec_opcode fo h bc OP_STORE_LOCAL ?vm1 = exec_store_local bc ?vm1"
    by (simp add: exec_opcode_def)
  show ?thesis
    unfolding fetch exec exec_store_local_def rd
    using assms(2)
    by (simp add: bind_err_def peek_def)
qed

lemma operand_at_appended:
  assumes "instructions bc = xs @ [opc, lo_byte k, hi_byte k]"
  shows "operand_at bc (length xs + 1) = k"
  using assms by (simp add: operand_at_def nth_append u16_bytes_roundtrip)

section \<open>Jump patching\<close>

lemma patch_jump_result:
  assumes "off + 3 \<le> current_offset (bytecode c)" and "current_offset (bytecode c) < 2 ^ 64"
  shows "patch_jump off c =
           Inr (c\<lparr>bytecode := (bytecode c)\<lparr>instructions :=
                  (instructions (bytecode c))
                    [off + 1 := lo_byte (word_of_int (int (current_offset (bytecode c)) - int (off + 3))),
                     off + 2 := hi_byte (word_of_int (int (current_offset (bytecode c)) - int (off + 3)))]\<rparr>\<rparr>)"
  using assms
  by (simp add: patch_jump_def bc_patch_jump_def bind_err_def current_offset_def Let_def)

lemma operand_at_patched:
  assumes "off + 2 < length xs"
  shows "operand_at (bc\<lparr>instructions := xs[off + 1 := lo_byte k, off + 2 := hi_byte k]\<rparr>) (off + 1) = k"
  using assms by (simp add: operand_at_def u16_bytes_roundtrip)

lemma patched_jump_lands:
  assumes le: "off + 3 \<le> current_offset (bytecode c)"
    and dist: "current_offset (bytecode c) - (off + 3) \<le> 32767"
    and big: "current_offset (bytecode c) < 2 ^ 63"
  shows "\<exists>c'. patch_jump off c = Inr c'
           \<and> length (instructions (bytecode c')) = current_offset (bytecode c)
           \<and> instructions (bytecode c') ! off = instructions (bytecode c) ! off
           \<and> sint (operand_at (bytecode c') (off + 1))
                = int (current_offset (bytecode c)) - int (off + 3)
           \<and> jump_target (off + 3) (operand_at (bytecode c') (off + 1))
                = current_offset (bytecode c)"
proof -
  define cur where "cur = current_offset (bytecode c)"
  define d where "d = cur - (off + 3)"
  define k :: "16 word" where "k = word_of_int (int cur - int (off + 3))"
  define c' where "c' = c\<lparr>bytecode := (bytecode c)\<lparr>instructions :=
                  (instructions (bytecode c))[off + 1 := lo_byte k, off + 2 := hi_byte k]\<rparr>\<rparr>"
  have le': "off + 3 \<le> cur" and dist': "d \<le> 32767" and big': "cur < 2 ^ 63"
    using le dist big by (simp_all add: cur_def d_def)
  have "(2::nat) ^ 63 \<le> 2 ^ 64"
    by simp
  then have big64: "current_offset (bytecode c) < 2 ^ 64"
    using big by (rule less_le_trans [rotated])
  have p: "patch_jump off c = Inr c'"
    unfolding c'_def k_def cur_def using le big64 by (rule patch_jump_result)
  have len: "off + 2 < length (instructions (bytecode c))"
    using le by (simp add: current_offset_def)
  have op: "operand_at (bytecode c') (off + 1) = k"
    unfolding c'_def
    using operand_at_patched [OF len, where bc = "bytecode c" and k = k] by simp
  have di: "int cur - int (off + 3) = int d"
    unfolding d_def using le' by (simp only: of_nat_diff)
  have kd: "k = word_of_nat d"
    unfolding k_def di by (simp only: of_int_of_nat_eq)
  have sk: "sint k = int d"
    unfolding kd using dist' by (rule sint_word_of_nat_16)
  have off3: "off + 3 < 2 ^ 63"
    using le' big' by (rule le_less_trans)
  have nonneg: "0 \<le> int (off + 3) + sint k"
    unfolding sk by (rule add_nonneg_nonneg) (rule of_nat_0_le_iff)+
  have "jump_target (off + 3) k = nat (int (off + 3) + sint k)"
    using nonneg off3 by (rule jump_target_exact)
  also have "int (off + 3) + sint k = int cur"
    unfolding sk using di by linarith
  finally have jt: "jump_target (off + 3) k = cur"
    by (simp only: nat_int)
  have l: "length (instructions (bytecode c')) = cur"
    by (simp add: c'_def cur_def current_offset_def)
  have same: "instructions (bytecode c') ! off = instructions (bytecode c) ! off"
    by (simp add: c'_def)
  have sk': "sint k = int cur - int (off + 3)"
    using sk di by (simp only:)
  show ?thesis
    unfolding cur_def [symmetric]
    using p l same sk' jt unfolding op [symmetric]
    by (intro exI [of _ c']) (simp only: simp_thms)
qed

lemma compile_exprs_replicate_true:
  "compile_exprs (replicate n (BoolLiteralExpr True l)) c =
     Inr (c\<lparr>bytecode := (bytecode c)\<lparr>instructions := instructions (bytecode c) @ replicate n 1\<rparr>\<rparr>)"
proof (induction n arbitrary: c)
  case 0
  then show ?case by simp
next
  case (Suc n)
  show ?case
    by (simp add: Suc bind_err_def emit_def emit0_def replicate_app_Cons_same)
qed

lemma long_then_compiles:
  "map_sum id (\<lambda>c. instructions (bytecode c)) (compile_expr long_then_if new_compiler) = Inr long_then_code"
  by (simp add: long_then_if_def long_then_code_def compile_exprs_replicate_true
      new_compiler_def empty_bytecode_def bind_err_def emit_def emit0_def emit16_def emit_u16_def
      emit_jump_def patch_jump_def bc_patch_jump_def current_offset_def lo_byte_def hi_byte_def
      list_update_Cons_numeral list_update_append Let_def)

section \<open>Arithmetic and truthiness\<close>

text \<open>
  Division and remainder in full. \<open>DIV\<close> on two Ints is the truncating integer division
  of C++ and \<open>MOD\<close> the truncating remainder; a zero divisor (Int 0, or a Float equal to
  0.0) raises ``Division by zero'' under a numeric dividend and ``Modulo by zero'' under an
  Int one; a non-numeric operand of \<open>DIV\<close> and a non-Int operand of \<open>MOD\<close> raise the type
  errors of \<open>binary_div\<close> and \<open>binary_mod\<close>. The one input left is \<open>INT64_MIN\<close> by \<open>-1\<close>,
  where the C++ operators have no defined result.
\<close>

lemma division_and_remainder:
  fixes fo :: "'f float_ops" and divisor dividend u v :: "'f Value" and vm :: "('f, 'w) VM"
  shows
  "binary_div fo (IntV a) (IntV b) =
      (if b = 0 then Inl (RuntimeError ''Division by zero'')
       else if a = int64_min \<and> b = - 1 then Inl UndefinedBehaviour
       else Inr (IntV (word_of_int (sint a sdiv sint b))))
   \<and> binary_div fo (FloatV x) (IntV 0) = Inl (RuntimeError ''Division by zero'')
   \<and> (f_eq fo d (f_zero fo) \<longrightarrow>
        binary_div fo (IntV a) (FloatV d) = Inl (RuntimeError ''Division by zero'')
      \<and> binary_div fo (FloatV x) (FloatV d) = Inl (RuntimeError ''Division by zero''))
   \<and> ((divisor = IntV 0 \<or> (\<exists>z. divisor = FloatV z \<and> f_eq fo z (f_zero fo)))
        \<and> stack vm = divisor # dividend # rest \<longrightarrow>
        exec_opcode fo h bc OP_DIV vm =
          Inl (RuntimeError
            (if is_int dividend \<or> is_float dividend then ''Division by zero''
             else ''Cannot divide '' @ type_name dividend @ '' and '' @ type_name divisor)))
   \<and> (stack vm = IntV b # IntV a # rest \<longrightarrow>
        exec_opcode fo h bc OP_DIV vm =
          (if b = 0 then Inl (RuntimeError ''Division by zero'')
           else if a = int64_min \<and> b = - 1 then Inl UndefinedBehaviour
           else Inr (False, vm\<lparr>stack := IntV (word_of_int (sint a sdiv sint b)) # rest\<rparr>)))
   \<and> binary_mod (IntV a) (IntV b) =
        (if b = 0 then Inl (RuntimeError ''Modulo by zero'')
         else if a = int64_min \<and> b = - 1 then Inl UndefinedBehaviour
         else Inr (IntV (word_of_int (sint a smod sint b)) :: 'f Value))
   \<and> (\<not> (is_int u \<and> is_int v) \<longrightarrow>
        binary_mod u v =
          Inl (RuntimeError
            (''Modulo requires two integers, got '' @ type_name u @ '' and '' @ type_name v)))
   \<and> (stack vm = IntV b # IntV a # rest \<longrightarrow>
        exec_opcode fo h bc OP_MOD vm =
          (if b = 0 then Inl (RuntimeError ''Modulo by zero'')
           else if a = int64_min \<and> b = - 1 then Inl UndefinedBehaviour
           else Inr (False, vm\<lparr>stack := IntV (word_of_int (sint a smod sint b)) # rest\<rparr>)))"
proof -
  have div_int: "binary_div fo (IntV a) (IntV b) =
      (if b = 0 then Inl (RuntimeError ''Division by zero'')
       else if a = int64_min \<and> b = - 1 then Inl UndefinedBehaviour
       else Inr (IntV (word_of_int (sint a sdiv sint b))))"
    by (simp add: binary_div_def int64_div_def bind_err_def)
  have div_zero: "binary_div fo (FloatV x) (IntV 0) = Inl (RuntimeError ''Division by zero'')"
    by (simp add: binary_div_def)
  have div_fzero: "f_eq fo d (f_zero fo) \<longrightarrow>
        binary_div fo (IntV a) (FloatV d) = Inl (RuntimeError ''Division by zero'')
      \<and> binary_div fo (FloatV x) (FloatV d) = Inl (RuntimeError ''Division by zero'')"
    by (simp add: binary_div_def)
  have div_vm: "(divisor = IntV 0 \<or> (\<exists>z. divisor = FloatV z \<and> f_eq fo z (f_zero fo)))
        \<and> stack vm = divisor # dividend # rest \<longrightarrow>
        exec_opcode fo h bc OP_DIV vm =
          Inl (RuntimeError
            (if is_int dividend \<or> is_float dividend then ''Division by zero''
             else ''Cannot divide '' @ type_name dividend @ '' and '' @ type_name divisor))"
    by (cases dividend) (auto simp: exec_opcode_def exec_binary bind_err_def binary_div_def)
  have div_vm_int: "stack vm = IntV b # IntV a # rest \<longrightarrow>
        exec_opcode fo h bc OP_DIV vm =
          (if b = 0 then Inl (RuntimeError ''Division by zero'')
           else if a = int64_min \<and> b = - 1 then Inl UndefinedBehaviour
           else Inr (False, vm\<lparr>stack := IntV (word_of_int (sint a sdiv sint b)) # rest\<rparr>))"
    by (auto simp: exec_opcode_def exec_binary bind_err_def binary_div_def int64_div_def)
  have mod_int: "binary_mod (IntV a) (IntV b) =
        (if b = 0 then Inl (RuntimeError ''Modulo by zero'')
         else if a = int64_min \<and> b = - 1 then Inl UndefinedBehaviour
         else Inr (IntV (word_of_int (sint a smod sint b)) :: 'f Value))"
    by (simp add: binary_mod_def int64_mod_def bind_err_def)
  have mod_type: "\<not> (is_int u \<and> is_int v) \<longrightarrow>
        binary_mod u v =
          Inl (RuntimeError
            (''Modulo requires two integers, got '' @ type_name u @ '' and '' @ type_name v))"
    by (cases u; cases v) (simp_all add: binary_mod_def)
  have mod_vm: "stack vm = IntV b # IntV a # rest \<longrightarrow>
        exec_opcode fo h bc OP_MOD vm =
          (if b = 0 then Inl (RuntimeError ''Modulo by zero'')
           else if a = int64_min \<and> b = - 1 then Inl UndefinedBehaviour
           else Inr (False, vm\<lparr>stack := IntV (word_of_int (sint a smod sint b)) # rest\<rparr>))"
    by (auto simp: exec_opcode_def exec_binary bind_err_def binary_mod_def int64_mod_def)
  show ?thesis
    by (intro conjI) (rule div_int div_zero div_fzero div_vm div_vm_int mod_int mod_type mod_vm)+
qed

text \<open>
  C6 fails on the code for one quotient. The zero divisor is guarded in \<open>binary_div\<close> and
  \<open>binary_mod\<close>, the quotient that does not fit is not: in
  \<open>function main() returns Int { return (0 - 9223372036854775807 - 1) / (0 - 1) }\<close>
  eight instructions bring \<open>INT64_MIN\<close> and \<open>-1\<close> onto the stack, and the \<open>DIV\<close> that
  follows computes \<open>INT64_MIN / -1\<close> in \<open>int64_t\<close>, which is undefined in C++ (the process
  is killed by the division trap on x86-64) instead of being an integer division or a
  runtime error. The same holds for \<open>INT64_MIN % -1\<close>.
\<close>

theorem int_min_division_undefined:
  "compile min_div_program = Inr min_div_bytecode
   \<and> run_turns 8 integral_float_ops no_files min_div_bytecode
         (fresh_vm\<lparr>call_stack := [make_frame 0 0 0 0]\<rparr>)
       = Inr (False,
              fresh_vm\<lparr>stack := [IntV (- 1), IntV int64_min],
                       call_stack := [\<lparr>function_index = 0, instruction_pointer = 18,
                                       stack_base = 0, locals = []\<rparr>]\<rparr>)
   \<and> instructions min_div_bytecode ! 18 = opcode_byte OP_DIV
   \<and> call_function 100 integral_float_ops no_files min_div_bytecode ''main'' [] fresh_vm
       = Some (Inl UndefinedBehaviour)
   \<and> binary_div integral_float_ops (IntV int64_min) (IntV (- 1)) = Inl UndefinedBehaviour
   \<and> binary_mod (IntV int64_min) (IntV (- 1)) = (Inl UndefinedBehaviour :: error + int Value)"
proof -
  have c: "compile min_div_program = Inr min_div_bytecode"
    by (simp add: min_div_program_def min_div_bytecode_def compiler_eval)
  have t: "run_turns 8 integral_float_ops no_files min_div_bytecode
         (fresh_vm\<lparr>call_stack := [make_frame 0 0 0 0]\<rparr>)
       = Inr (False,
              fresh_vm\<lparr>stack := [IntV (- 1), IntV int64_min],
                       call_stack := [\<lparr>function_index = 0, instruction_pointer = 18,
                                       stack_base = 0, locals = []\<rparr>]\<rparr>)"
    by (simp add: min_div_bytecode_def vm_eval int64_min_def binary_sub_def binary_div_def
        int64_div_def)
  have at: "instructions min_div_bytecode ! 18 = opcode_byte OP_DIV"
    by (simp add: min_div_bytecode_def)
  have r: "call_function 100 integral_float_ops no_files min_div_bytecode ''main'' [] fresh_vm
       = Some (Inl UndefinedBehaviour)"
    by (simp add: min_div_bytecode_def vm_eval int64_min_def binary_sub_def binary_div_def
        int64_div_def)
  have d: "binary_div integral_float_ops (IntV int64_min) (IntV (- 1)) = Inl UndefinedBehaviour"
    "binary_mod (IntV int64_min) (IntV (- 1)) = (Inl UndefinedBehaviour :: error + int Value)"
    by (simp_all add: binary_div_def binary_mod_def int64_div_def int64_mod_def int64_min_def
        bind_err_def)
  show ?thesis
    using c t at r d by (simp only: simp_thms)
qed





text \<open>
  C9. Truthiness: a Bool is itself, an Int is true iff nonzero, a Float iff not equal to 0.0,
  a String, a List and a Tuple iff non-empty, a Function always. \<open>JUMP_IF_FALSE\<close> moves the
  instruction pointer to its target iff the top of the stack is falsy, and to the next
  instruction otherwise, and leaves the stack as it was in both cases; \<open>NOT\<close> replaces the top
  of the stack by the Bool negation of its truthiness.
\<close>

theorem truthiness_agreement:
  fixes fo :: "'f float_ops" and vm :: "('f, 'w) VM"
  shows
  "is_truthy fo (BoolV b) = b
   \<and> is_truthy fo (IntV i) = (i \<noteq> 0)
   \<and> is_truthy fo (FloatV d) = (\<not> f_eq fo d (f_zero fo))
   \<and> is_truthy fo (StringV s) = (s \<noteq> [])
   \<and> is_truthy fo (ListV xs) = (xs \<noteq> [])
   \<and> is_truthy fo (TupleV xs) = (xs \<noteq> [])
   \<and> is_truthy fo (FunctionV n name) = True
   \<and> (call_stack vm = fr # frs \<and> stack vm = v # rest
        \<and> instruction_pointer fr + 2 < length (instructions bc)
        \<and> instructions bc ! instruction_pointer fr = opcode_byte OP_JUMP_IF_FALSE \<longrightarrow>
        step fo h bc vm =
          Inr (False,
               vm\<lparr>call_stack :=
                    fr\<lparr>instruction_pointer :=
                         (if \<not> is_truthy fo v
                          then jump_target (instruction_pointer fr + 3)
                                 (operand_at bc (instruction_pointer fr + 1))
                          else instruction_pointer fr + 3)\<rparr> # frs\<rparr>))
   \<and> (call_stack vm = fr # frs \<and> stack vm = v # rest
        \<and> instruction_pointer fr < length (instructions bc)
        \<and> instructions bc ! instruction_pointer fr = opcode_byte OP_NOT \<longrightarrow>
        step fo h bc vm =
          Inr (False,
               vm\<lparr>call_stack := fr\<lparr>instruction_pointer := instruction_pointer fr + 1\<rparr> # frs,
                   stack := BoolV (\<not> is_truthy fo v) # rest\<rparr>))"
proof (intro conjI impI)
  assume "call_stack vm = fr # frs \<and> stack vm = v # rest
        \<and> instruction_pointer fr + 2 < length (instructions bc)
        \<and> instructions bc ! instruction_pointer fr = opcode_byte OP_JUMP_IF_FALSE"
  then show "step fo h bc vm =
          Inr (False,
               vm\<lparr>call_stack :=
                    fr\<lparr>instruction_pointer :=
                         (if \<not> is_truthy fo v
                          then jump_target (instruction_pointer fr + 3)
                                 (operand_at bc (instruction_pointer fr + 1))
                          else instruction_pointer fr + 3)\<rparr> # frs\<rparr>)"
    using step_jump_if [of vm fr frs v rest bc OP_JUMP_IF_FALSE False fo h] by simp
next
  assume "call_stack vm = fr # frs \<and> stack vm = v # rest
        \<and> instruction_pointer fr < length (instructions bc)
        \<and> instructions bc ! instruction_pointer fr = opcode_byte OP_NOT"
  then show "step fo h bc vm =
          Inr (False,
               vm\<lparr>call_stack := fr\<lparr>instruction_pointer := instruction_pointer fr + 1\<rparr> # frs,
                   stack := BoolV (\<not> is_truthy fo v) # rest\<rparr>)"
    using step_not [of vm fr frs v rest bc fo h] by blast
qed simp_all

theorem truthiness_agreement_witness:
  "step integral_float_ops no_files
       \<lparr>instructions = [29, 2, 0, 33, 33, 20], constants = [], function_table = []\<rparr>
       (fresh_vm\<lparr>stack := [IntV 0], call_stack := [make_frame 0 0 0 0]\<rparr>)
     = Inr (False, fresh_vm\<lparr>stack := [IntV 0],
                      call_stack := [(make_frame 0 0 0 0)\<lparr>instruction_pointer := 5\<rparr>]\<rparr>)
   \<and> step integral_float_ops no_files
       \<lparr>instructions = [29, 2, 0, 33, 33, 20], constants = [], function_table = []\<rparr>
       (fresh_vm\<lparr>stack := [StringV ''a''], call_stack := [make_frame 0 0 0 0]\<rparr>)
     = Inr (False, fresh_vm\<lparr>stack := [StringV ''a''],
                      call_stack := [(make_frame 0 0 0 0)\<lparr>instruction_pointer := 3\<rparr>]\<rparr>)
   \<and> step integral_float_ops no_files
       \<lparr>instructions = [29, 2, 0, 33, 33, 20], constants = [], function_table = []\<rparr>
       (fresh_vm\<lparr>stack := [IntV 0],
                call_stack := [(make_frame 0 0 0 0)\<lparr>instruction_pointer := 5\<rparr>]\<rparr>)
     = Inr (False, fresh_vm\<lparr>stack := [BoolV True],
                      call_stack := [(make_frame 0 0 0 0)\<lparr>instruction_pointer := 6\<rparr>]\<rparr>)"
proof -
  let ?bc = "\<lparr>instructions = [29, 2, 0, 33, 33, 20], constants = [], function_table = []\<rparr>
               :: int Bytecode"
  note t1 = truthiness_agreement [where fo = integral_float_ops and h = no_files and bc = ?bc
      and vm = "fresh_vm\<lparr>stack := [IntV 0], call_stack := [make_frame 0 0 0 0]\<rparr>"
      and fr = "make_frame 0 0 0 0" and frs = "[]" and v = "IntV 0" and rest = "[]"]
  note t2 = truthiness_agreement [where fo = integral_float_ops and h = no_files and bc = ?bc
      and vm = "fresh_vm\<lparr>stack := [StringV ''a''], call_stack := [make_frame 0 0 0 0]\<rparr>"
      and fr = "make_frame 0 0 0 0" and frs = "[]" and v = "StringV ''a''" and rest = "[]"]
  note t3 = truthiness_agreement [where fo = integral_float_ops and h = no_files and bc = ?bc
      and vm = "fresh_vm\<lparr>stack := [IntV 0],
                  call_stack := [(make_frame 0 0 0 0)\<lparr>instruction_pointer := 5\<rparr>]\<rparr>"
      and fr = "(make_frame 0 0 0 0)\<lparr>instruction_pointer := 5\<rparr>" and frs = "[]"
      and v = "IntV 0" and rest = "[]"]
  show ?thesis
    using t1 t2 t3 by (simp add: vm_eval)
qed

section \<open>Jumps\<close>

text \<open>
  Jumps within the range of the 16-bit offset. A \<open>JUMP\<close>, or a \<open>JUMP_IF_FALSE\<close> /
  \<open>JUMP_IF_TRUE\<close> whose guard holds, sets the instruction pointer to the address after the
  operand plus the signed offset, as long as that sum is not negative. When the distance
  \<open>current_offset - (offset + 3)\<close> is at most 32767, \<open>patch_jump\<close> stores exactly that
  distance, and the patched jump lands on the instruction that was current when
  \<open>patch_jump\<close> was called.
\<close>

theorem jump_targeting:
  fixes fo :: "'f float_ops" and vm :: "('f, 'w) VM" and c :: "'f Compiler"
  shows
  "(call_stack vm = fr # frs
      \<and> instruction_pointer fr + 2 < length (instructions bc)
      \<and> length (instructions bc) < 2 ^ 63
      \<and> instructions bc ! instruction_pointer fr = opcode_byte opc
      \<and> (opc = OP_JUMP
          \<or> opc = OP_JUMP_IF_FALSE \<and> stack vm = v # rest \<and> \<not> is_truthy fo v
          \<or> opc = OP_JUMP_IF_TRUE \<and> stack vm = v # rest \<and> is_truthy fo v)
      \<and> 0 \<le> int (instruction_pointer fr + 3) + sint (operand_at bc (instruction_pointer fr + 1))
    \<longrightarrow>
      step fo h bc vm =
        Inr (False,
             vm\<lparr>call_stack :=
                  fr\<lparr>instruction_pointer :=
                       nat (int (instruction_pointer fr + 3)
                            + sint (operand_at bc (instruction_pointer fr + 1)))\<rparr> # frs\<rparr>))
   \<and> (off + 3 \<le> current_offset (bytecode c)
      \<and> current_offset (bytecode c) - (off + 3) \<le> 32767
      \<and> current_offset (bytecode c) < 2 ^ 63
    \<longrightarrow>
      (\<exists>c'. patch_jump off c = Inr c'
         \<and> length (instructions (bytecode c')) = current_offset (bytecode c)
         \<and> instructions (bytecode c') ! off = instructions (bytecode c) ! off
         \<and> sint (operand_at (bytecode c') (off + 1))
              = int (current_offset (bytecode c)) - int (off + 3)
         \<and> jump_target (off + 3) (operand_at (bytecode c') (off + 1))
              = current_offset (bytecode c)))
   \<and> (off + 3 \<le> current_offset (bytecode c)
      \<and> current_offset (bytecode c) - (off + 3) \<le> 32767
      \<and> current_offset (bytecode c) < 2 ^ 63
      \<and> patch_jump off c = Inr c2
      \<and> instructions (bytecode c) ! off = opcode_byte opc
      \<and> call_stack vm = fr # frs \<and> instruction_pointer fr = off
      \<and> (opc = OP_JUMP
          \<or> opc = OP_JUMP_IF_FALSE \<and> stack vm = v # rest \<and> \<not> is_truthy fo v
          \<or> opc = OP_JUMP_IF_TRUE \<and> stack vm = v # rest \<and> is_truthy fo v)
    \<longrightarrow>
      step fo h (bytecode c2) vm =
        Inr (False,
             vm\<lparr>call_stack := fr\<lparr>instruction_pointer := current_offset (bytecode c)\<rparr> # frs\<rparr>))"
proof (intro conjI impI)
  assume a: "call_stack vm = fr # frs
      \<and> instruction_pointer fr + 2 < length (instructions bc)
      \<and> length (instructions bc) < 2 ^ 63
      \<and> instructions bc ! instruction_pointer fr = opcode_byte opc
      \<and> (opc = OP_JUMP
          \<or> opc = OP_JUMP_IF_FALSE \<and> stack vm = v # rest \<and> \<not> is_truthy fo v
          \<or> opc = OP_JUMP_IF_TRUE \<and> stack vm = v # rest \<and> is_truthy fo v)
      \<and> 0 \<le> int (instruction_pointer fr + 3) + sint (operand_at bc (instruction_pointer fr + 1))"
  then have cs: "call_stack vm = fr # frs"
    and len: "instruction_pointer fr + 2 < length (instructions bc)"
    and big: "length (instructions bc) < 2 ^ 63"
    and opc: "instructions bc ! instruction_pointer fr = opcode_byte opc"
    and guard: "opc = OP_JUMP
          \<or> opc = OP_JUMP_IF_FALSE \<and> stack vm = v # rest \<and> \<not> is_truthy fo v
          \<or> opc = OP_JUMP_IF_TRUE \<and> stack vm = v # rest \<and> is_truthy fo v"
    and nonneg: "0 \<le> int (instruction_pointer fr + 3)
                      + sint (operand_at bc (instruction_pointer fr + 1))"
    by blast+
  have small: "instruction_pointer fr + 3 < 2 ^ 63"
    using len big by linarith
  have "jump_target (instruction_pointer fr + 3) (operand_at bc (instruction_pointer fr + 1))
          = nat (int (instruction_pointer fr + 3)
                 + sint (operand_at bc (instruction_pointer fr + 1)))"
    using nonneg small by (rule jump_target_exact)
  moreover have "step fo h bc vm =
          Inr (False,
               vm\<lparr>call_stack :=
                    fr\<lparr>instruction_pointer :=
                         jump_target (instruction_pointer fr + 3)
                           (operand_at bc (instruction_pointer fr + 1))\<rparr> # frs\<rparr>)"
    using cs len opc guard by (rule step_jump_taken)
  ultimately show "step fo h bc vm =
        Inr (False,
             vm\<lparr>call_stack :=
                  fr\<lparr>instruction_pointer :=
                       nat (int (instruction_pointer fr + 3)
                            + sint (operand_at bc (instruction_pointer fr + 1)))\<rparr> # frs\<rparr>)"
    by (simp only:)
next
  assume "off + 3 \<le> current_offset (bytecode c)
      \<and> current_offset (bytecode c) - (off + 3) \<le> 32767
      \<and> current_offset (bytecode c) < 2 ^ 63"
  then show "\<exists>c'. patch_jump off c = Inr c'
         \<and> length (instructions (bytecode c')) = current_offset (bytecode c)
         \<and> instructions (bytecode c') ! off = instructions (bytecode c) ! off
         \<and> sint (operand_at (bytecode c') (off + 1))
              = int (current_offset (bytecode c)) - int (off + 3)
         \<and> jump_target (off + 3) (operand_at (bytecode c') (off + 1))
              = current_offset (bytecode c)"
    by (intro patched_jump_lands) simp_all
next
  assume a: "off + 3 \<le> current_offset (bytecode c)
      \<and> current_offset (bytecode c) - (off + 3) \<le> 32767
      \<and> current_offset (bytecode c) < 2 ^ 63
      \<and> patch_jump off c = Inr c2
      \<and> instructions (bytecode c) ! off = opcode_byte opc
      \<and> call_stack vm = fr # frs \<and> instruction_pointer fr = off
      \<and> (opc = OP_JUMP
          \<or> opc = OP_JUMP_IF_FALSE \<and> stack vm = v # rest \<and> \<not> is_truthy fo v
          \<or> opc = OP_JUMP_IF_TRUE \<and> stack vm = v # rest \<and> is_truthy fo v)"
  then have le: "off + 3 \<le> current_offset (bytecode c)"
    and dist: "current_offset (bytecode c) - (off + 3) \<le> 32767"
    and big: "current_offset (bytecode c) < 2 ^ 63"
    and p: "patch_jump off c = Inr c2"
    and o: "instructions (bytecode c) ! off = opcode_byte opc"
    and cs: "call_stack vm = fr # frs" and ip: "instruction_pointer fr = off"
    and guard: "opc = OP_JUMP
          \<or> opc = OP_JUMP_IF_FALSE \<and> stack vm = v # rest \<and> \<not> is_truthy fo v
          \<or> opc = OP_JUMP_IF_TRUE \<and> stack vm = v # rest \<and> is_truthy fo v"
    by blast+
  from patched_jump_lands [OF le dist big] p
  have l: "length (instructions (bytecode c2)) = current_offset (bytecode c)"
    and same: "instructions (bytecode c2) ! off = instructions (bytecode c) ! off"
    and jt: "jump_target (off + 3) (operand_at (bytecode c2) (off + 1))
               = current_offset (bytecode c)"
    by auto
  have len: "instruction_pointer fr + 2 < length (instructions (bytecode c2))"
    using le l ip by linarith
  have opc: "instructions (bytecode c2) ! instruction_pointer fr = opcode_byte opc"
    using same o ip by simp
  show "step fo h (bytecode c2) vm =
        Inr (False,
             vm\<lparr>call_stack := fr\<lparr>instruction_pointer := current_offset (bytecode c)\<rparr> # frs\<rparr>)"
    using step_jump_taken [OF cs len opc guard, of h] jt ip by simp
qed

theorem jump_targeting_witness:
  "step integral_float_ops no_files
       \<lparr>instructions = [28, 2, 0, 33, 33, 35], constants = [], function_table = []\<rparr>
       (fresh_vm\<lparr>call_stack := [make_frame 0 0 0 0]\<rparr>)
     = Inr (False, fresh_vm\<lparr>call_stack := [(make_frame 0 0 0 0)\<lparr>instruction_pointer := 5\<rparr>]\<rparr>)
   \<and> map_sum id (\<lambda>c. instructions (bytecode c))
         (patch_jump 0 (emit OP_POP (emit OP_POP (snd (emit_jump OP_JUMP new_compiler)))))
     = Inr [28, 2, 0, 33, 33]"
  using jump_targeting [where fo = integral_float_ops and h = no_files
      and bc = "\<lparr>instructions = [28, 2, 0, 33, 33, 35], constants = [], function_table = []\<rparr>"
      and vm = "fresh_vm\<lparr>call_stack := [make_frame 0 0 0 0]\<rparr>"
      and fr = "make_frame 0 0 0 0" and frs = "[]" and opc = OP_JUMP and v = "BoolV False"
      and rest = "[]" and off = 0
      and c = "emit OP_POP (emit OP_POP (snd (emit_jump OP_JUMP new_compiler)))"
      and ?c2.0 = "new_compiler\<lparr>bytecode :=
          \<lparr>instructions = [28, 2, 0, 33, 33], constants = [], function_table = []\<rparr>\<rparr>"]
  by (simp add: vm_eval compiler_eval)

text \<open>
  C5 fails on the compiled code once a forward jump spans more than 32767 bytes:
  \<open>Compiler::patch_jump\<close> casts the distance to \<open>int16_t\<close> without a check. The compiled
  \<open>if false { [true, ..., true] } else { [true] }\<close> has a then-branch of 32765 bytes; the
  patched offset of its \<open>JUMP_IF_FALSE\<close> reads as \<open>-32768\<close>, and the jump leaves the code
  instead of landing on the \<open>POP\<close> at 32772 that was current when it was patched.
\<close>

theorem long_forward_jump_leaves_code:
  "map_sum id (\<lambda>c. instructions (bytecode c)) (compile_expr long_then_if new_compiler)
     = Inr long_then_code
   \<and> long_then_code ! 32772 = opcode_byte OP_POP
   \<and> run_turns 2 integral_float_ops no_files
         \<lparr>instructions = long_then_code, constants = [], function_table = []\<rparr>
         (fresh_vm\<lparr>call_stack := [make_frame 0 0 0 0]\<rparr>)
       = Inr (False,
              fresh_vm\<lparr>stack := [BoolV False],
                       call_stack := [\<lparr>function_index = 0,
                                       instruction_pointer = 18446744073709518852,
                                       stack_base = 0, locals = []\<rparr>]\<rparr>)"
proof -
  have run: "run_turns 2 integral_float_ops no_files
         \<lparr>instructions = long_then_code, constants = [], function_table = []\<rparr>
         (fresh_vm\<lparr>call_stack := [make_frame 0 0 0 0]\<rparr>)
       = Inr (False,
              fresh_vm\<lparr>stack := [BoolV False],
                       call_stack := [\<lparr>function_index = 0,
                                       instruction_pointer = 18446744073709518852,
                                       stack_base = 0, locals = []\<rparr>]\<rparr>)"
    by (simp add: long_then_code_def vm_eval integral_float_ops_def)
  have at: "long_then_code ! 32772 = opcode_byte OP_POP"
    by (simp add: long_then_code_def nth_append)
  show ?thesis
    using long_then_compiles run at by simp
qed

section \<open>Let statements and calls\<close>

lemma let_identifier_last_step:
  fixes fo :: "'f float_ops" and vm :: "('f, 'w) VM" and c :: "'f Compiler"
  assumes comp: "compile_stmt (LetStmt (IdentifierPattern name ploc) ty init loc) c = Inr c'"
    and init: "compile_expr init c = Inr c1" and sc: "scopes c1 = scope # outer"
    and cs: "call_stack vm = fr # frs"
    and ip: "instruction_pointer fr = length (instructions (bytecode c1))"
  shows "stack vm = v # rest
           \<and> unat (word_of_nat (local_count scope) :: 16 word) < length (locals fr) \<longrightarrow>
         step fo h (bytecode c') vm =
           Inr (False,
                vm\<lparr>call_stack :=
                     fr\<lparr>instruction_pointer := length (instructions (bytecode c')),
                        locals := (locals fr)
                          [unat (word_of_nat (local_count scope) :: 16 word) := v]\<rparr> # frs\<rparr>)"
    and "stack vm = [] \<longrightarrow> step fo h (bytecode c') vm = Inl (RuntimeError ''Stack underflow'')"
proof -
  define k :: "16 word" where "k = word_of_nat (local_count scope)"
  define xs where "xs = instructions (bytecode c1)"
  from compile_let_identifier [OF comp] init sc
  have code: "instructions (bytecode c') = xs @ [opcode_byte OP_STORE_LOCAL, lo_byte k, hi_byte k]"
    by (auto simp: k_def xs_def)
  have len: "instruction_pointer fr + 2 < length (instructions (bytecode c'))"
    by (simp add: code ip xs_def)
  have opc: "instructions (bytecode c') ! instruction_pointer fr = opcode_byte OP_STORE_LOCAL"
    by (simp add: code ip xs_def)
  have operand: "operand_at (bytecode c') (instruction_pointer fr + 1) = k"
    using operand_at_appended [OF code] by (simp add: ip xs_def)
  have fin: "instruction_pointer fr + 3 = length (instructions (bytecode c'))"
    by (simp add: code ip xs_def)
  show "stack vm = v # rest
           \<and> unat (word_of_nat (local_count scope) :: 16 word) < length (locals fr) \<longrightarrow>
         step fo h (bytecode c') vm =
           Inr (False,
                vm\<lparr>call_stack :=
                     fr\<lparr>instruction_pointer := length (instructions (bytecode c')),
                        locals := (locals fr)
                          [unat (word_of_nat (local_count scope) :: 16 word) := v]\<rparr> # frs\<rparr>)"
  proof
    assume a: "stack vm = v # rest
           \<and> unat (word_of_nat (local_count scope) :: 16 word) < length (locals fr)"
    then have st: "stack vm = v # rest"
      by blast
    have idx: "unat (operand_at (bytecode c') (instruction_pointer fr + 1)) < length (locals fr)"
      unfolding operand k_def using a by blast
    show "step fo h (bytecode c') vm =
           Inr (False,
                vm\<lparr>call_stack :=
                     fr\<lparr>instruction_pointer := length (instructions (bytecode c')),
                        locals := (locals fr)
                          [unat (word_of_nat (local_count scope) :: 16 word) := v]\<rparr> # frs\<rparr>)"
      using step_store_local [OF cs st len opc idx, of fo h]
      by (simp only: operand fin k_def)
  qed
  show "stack vm = [] \<longrightarrow> step fo h (bytecode c') vm = Inl (RuntimeError ''Stack underflow'')"
    using step_store_local_empty [OF cs _ len opc, of fo h] by blast
qed

text \<open>
  C10, with the condition on the initializer made explicit. \<open>STORE_LOCAL\<close> on a non-empty
  stack copies the top of the stack into the local of the given index and leaves the operand
  stack unchanged; on an empty stack it raises ``Stack underflow''. A let statement whose
  pattern is an identifier compiles to the code of its initializer followed by that one
  \<open>STORE_LOCAL\<close> and nothing else. So when the code of the initializer has left a value on
  top of the stack, the last instruction of the let stores it in the new local and the value
  is still on the stack where the code of the let ends; when the code of the initializer
  has left the stack empty, the let raises ``Stack underflow''. A let statement with a tuple
  pattern is different: its code ends with a \<open>POP\<close>.
\<close>

theorem let_keeps_initializer_value:
  fixes fo :: "'f float_ops" and vm :: "('f, 'w) VM" and c :: "'f Compiler"
  shows
  "(call_stack vm = fr # frs \<and> stack vm = v # rest
      \<and> instruction_pointer fr + 2 < length (instructions bc)
      \<and> instructions bc ! instruction_pointer fr = opcode_byte OP_STORE_LOCAL
      \<and> unat (operand_at bc (instruction_pointer fr + 1)) < length (locals fr)
    \<longrightarrow>
      step fo h bc vm =
        Inr (False,
             vm\<lparr>call_stack :=
                  fr\<lparr>instruction_pointer := instruction_pointer fr + 3,
                     locals := (locals fr)
                       [unat (operand_at bc (instruction_pointer fr + 1)) := v]\<rparr> # frs\<rparr>))
   \<and> (call_stack vm = fr # frs \<and> stack vm = []
      \<and> instruction_pointer fr + 2 < length (instructions bc)
      \<and> instructions bc ! instruction_pointer fr = opcode_byte OP_STORE_LOCAL
    \<longrightarrow>
      step fo h bc vm = Inl (RuntimeError ''Stack underflow''))
   \<and> (compile_stmt (LetStmt (IdentifierPattern name ploc) ty init loc) c = Inr c'
    \<longrightarrow>
      (\<exists>c1 scope outer.
         compile_expr init c = Inr c1 \<and> scopes c1 = scope # outer
         \<and> scopes c' = scope\<lparr>local_count := local_count scope + 1,
                               scope_locals := (scope_locals scope)(name \<mapsto> local_count scope)\<rparr> # outer
         \<and> instructions (bytecode c') =
               instructions (bytecode c1) @
                 [opcode_byte OP_STORE_LOCAL, lo_byte (word_of_nat (local_count scope)),
                  hi_byte (word_of_nat (local_count scope))]))
   \<and> (compile_stmt (LetStmt (IdentifierPattern name ploc) ty init loc) c = Inr c'
      \<and> compile_expr init c = Inr c1 \<and> scopes c1 = scope # outer
      \<and> call_stack vm = fr # frs
      \<and> instruction_pointer fr = length (instructions (bytecode c1))
      \<and> stack vm = v # rest
      \<and> unat (word_of_nat (local_count scope) :: 16 word) < length (locals fr)
    \<longrightarrow>
      step fo h (bytecode c') vm =
        Inr (False,
             vm\<lparr>call_stack :=
                  fr\<lparr>instruction_pointer := length (instructions (bytecode c')),
                     locals := (locals fr)
                       [unat (word_of_nat (local_count scope) :: 16 word) := v]\<rparr> # frs\<rparr>))
   \<and> (compile_stmt (LetStmt (IdentifierPattern name ploc) ty init loc) c = Inr c'
      \<and> compile_expr init c = Inr c1 \<and> scopes c1 = scope # outer
      \<and> call_stack vm = fr # frs
      \<and> instruction_pointer fr = length (instructions (bytecode c1))
      \<and> stack vm = []
    \<longrightarrow>
      step fo h (bytecode c') vm = Inl (RuntimeError ''Stack underflow''))
   \<and> (compile_stmt (LetStmt (TuplePattern ps ploc) ty init loc) c = Inr c'
    \<longrightarrow>
      instructions (bytecode c') \<noteq> [] \<and> last (instructions (bytecode c')) = opcode_byte OP_POP)"
proof (intro conjI impI)
  assume "call_stack vm = fr # frs \<and> stack vm = v # rest
      \<and> instruction_pointer fr + 2 < length (instructions bc)
      \<and> instructions bc ! instruction_pointer fr = opcode_byte OP_STORE_LOCAL
      \<and> unat (operand_at bc (instruction_pointer fr + 1)) < length (locals fr)"
  then show "step fo h bc vm =
        Inr (False,
             vm\<lparr>call_stack :=
                  fr\<lparr>instruction_pointer := instruction_pointer fr + 3,
                     locals := (locals fr)
                       [unat (operand_at bc (instruction_pointer fr + 1)) := v]\<rparr> # frs\<rparr>)"
    using step_store_local [of vm fr frs v rest bc fo h] by blast
next
  assume "call_stack vm = fr # frs \<and> stack vm = []
      \<and> instruction_pointer fr + 2 < length (instructions bc)
      \<and> instructions bc ! instruction_pointer fr = opcode_byte OP_STORE_LOCAL"
  then show "step fo h bc vm = Inl (RuntimeError ''Stack underflow'')"
    using step_store_local_empty [of vm fr frs bc fo h] by blast
next
  assume "compile_stmt (LetStmt (IdentifierPattern name ploc) ty init loc) c = Inr c'"
  then show "\<exists>c1 scope outer.
         compile_expr init c = Inr c1 \<and> scopes c1 = scope # outer
         \<and> scopes c' = scope\<lparr>local_count := local_count scope + 1,
                               scope_locals := (scope_locals scope)(name \<mapsto> local_count scope)\<rparr> # outer
         \<and> instructions (bytecode c') =
               instructions (bytecode c1) @
                 [opcode_byte OP_STORE_LOCAL, lo_byte (word_of_nat (local_count scope)),
                  hi_byte (word_of_nat (local_count scope))]"
    by (rule compile_let_identifier)
next
  assume a: "compile_stmt (LetStmt (IdentifierPattern name ploc) ty init loc) c = Inr c'
      \<and> compile_expr init c = Inr c1 \<and> scopes c1 = scope # outer
      \<and> call_stack vm = fr # frs
      \<and> instruction_pointer fr = length (instructions (bytecode c1))
      \<and> stack vm = v # rest
      \<and> unat (word_of_nat (local_count scope) :: 16 word) < length (locals fr)"
  then have p: "compile_stmt (LetStmt (IdentifierPattern name ploc) ty init loc) c = Inr c'"
    "compile_expr init c = Inr c1" "scopes c1 = scope # outer" "call_stack vm = fr # frs"
    "instruction_pointer fr = length (instructions (bytecode c1))"
    and q: "stack vm = v # rest
           \<and> unat (word_of_nat (local_count scope) :: 16 word) < length (locals fr)"
    by blast+
  show "step fo h (bytecode c') vm =
        Inr (False,
             vm\<lparr>call_stack :=
                  fr\<lparr>instruction_pointer := length (instructions (bytecode c')),
                     locals := (locals fr)
                       [unat (word_of_nat (local_count scope) :: 16 word) := v]\<rparr> # frs\<rparr>)"
    using let_identifier_last_step(1) [OF p, of v rest fo h] q by blast
next
  assume a: "compile_stmt (LetStmt (IdentifierPattern name ploc) ty init loc) c = Inr c'
      \<and> compile_expr init c = Inr c1 \<and> scopes c1 = scope # outer
      \<and> call_stack vm = fr # frs
      \<and> instruction_pointer fr = length (instructions (bytecode c1))
      \<and> stack vm = []"
  then have p: "compile_stmt (LetStmt (IdentifierPattern name ploc) ty init loc) c = Inr c'"
    "compile_expr init c = Inr c1" "scopes c1 = scope # outer" "call_stack vm = fr # frs"
    "instruction_pointer fr = length (instructions (bytecode c1))"
    and q: "stack vm = []"
    by blast+
  show "step fo h (bytecode c') vm = Inl (RuntimeError ''Stack underflow'')"
    using let_identifier_last_step(2) [OF p, of fo h] q by blast
next
  assume a: "compile_stmt (LetStmt (TuplePattern ps ploc) ty init loc) c = Inr c'"
  show "instructions (bytecode c') \<noteq> []"
    using compile_let_tuple [OF a] by blast
  show "last (instructions (bytecode c')) = opcode_byte OP_POP"
    using compile_let_tuple [OF a] by blast
qed

text \<open>The theorem at concrete inputs.\<close>

theorem let_keeps_initializer_value_witness:
  "map_sum id (\<lambda>c. (instructions (bytecode c), constants (bytecode c)))
       (compile_stmt (LetStmt (IdentifierPattern ''x'' no_location) None
                        (IntLiteralExpr 42 no_location) no_location)
          (enter_scope new_compiler))
     = Inr ([0, 0, 0, 4, 0, 0], [IntV 42])
   \<and> step integral_float_ops no_files
         (bytecode (projr (compile_stmt (LetStmt (IdentifierPattern ''x'' no_location) None
                        (IntLiteralExpr 42 no_location) no_location)
          (enter_scope new_compiler))))
         (fresh_vm\<lparr>stack := [IntV 42],
                  call_stack := [(make_frame 0 0 0 1)\<lparr>instruction_pointer := 3\<rparr>]\<rparr>)
       = Inr (False,
              fresh_vm\<lparr>stack := [IntV 42],
                       call_stack := [\<lparr>function_index = 0, instruction_pointer = 6,
                                       stack_base = 0, locals = [IntV 42]\<rparr>]\<rparr>)
   \<and> step integral_float_ops no_files
         (bytecode (projr (compile_stmt (LetStmt (IdentifierPattern ''x'' no_location) None
                        (IntLiteralExpr 42 no_location) no_location)
          (enter_scope new_compiler))))
         (fresh_vm\<lparr>stack := [],
                  call_stack := [(make_frame 0 0 0 1)\<lparr>instruction_pointer := 3\<rparr>]\<rparr>)
       = Inl (RuntimeError ''Stack underflow'')
   \<and> run_turns 2 integral_float_ops no_files
         \<lparr>instructions = [0, 0, 0, 4, 0, 0], constants = [IntV 42], function_table = []\<rparr>
         (fresh_vm\<lparr>call_stack := [make_frame 0 0 0 1]\<rparr>)
       = Inr (False,
              fresh_vm\<lparr>stack := [IntV 42],
                       call_stack := [\<lparr>function_index = 0, instruction_pointer = 6,
                                       stack_base = 0, locals = [IntV 42]\<rparr>]\<rparr>)
   \<and> map_sum id (\<lambda>c. instructions (bytecode c))
       (compile_stmt (LetStmt (TuplePattern [IdentifierPattern ''x'' no_location] no_location) None
                        (TupleExpr [IntLiteralExpr 42 no_location] no_location) no_location)
          (enter_scope new_compiler))
     = Inr [0, 0, 0, 24, 1, 0, 34, 0, 1, 0, 25, 4, 0, 0, 33]"
proof -
  let ?let_x = "LetStmt (IdentifierPattern ''x'' no_location) None
                  (IntLiteralExpr 42 no_location) no_location :: int Stmt"
  let ?let_tuple = "LetStmt (TuplePattern [IdentifierPattern ''x'' no_location] no_location) None
                  (TupleExpr [IntLiteralExpr 42 no_location] no_location) no_location :: int Stmt"
  let ?c0 = "enter_scope new_compiler :: int Compiler"
  let ?c1 = "projr (compile_expr (IntLiteralExpr 42 no_location) ?c0)"
  note t1 = let_keeps_initializer_value [where fo = integral_float_ops and h = no_files
      and bc = "\<lparr>instructions = [0, 0, 0, 4, 0, 0], constants = [IntV 42], function_table = []\<rparr>"
      and vm = "fresh_vm\<lparr>stack := [IntV 42],
                  call_stack := [(make_frame 0 0 0 1)\<lparr>instruction_pointer := 3\<rparr>]\<rparr>"
      and fr = "(make_frame 0 0 0 1)\<lparr>instruction_pointer := 3\<rparr>" and frs = "[]"
      and v = "IntV 42" and rest = "[]"
      and c = ?c0 and name = "''x''" and ploc = no_location
      and ty = None and init = "IntLiteralExpr 42 no_location" and loc = no_location
      and ps = "[IdentifierPattern ''x'' no_location]"
      and c' = "projr (compile_stmt ?let_x ?c0)" and ?c1.0 = ?c1
      and scope = "hd (scopes ?c1)" and outer = "tl (scopes ?c1)"]
  note t2 = let_keeps_initializer_value [where fo = integral_float_ops and h = no_files
      and bc = "\<lparr>instructions = [0, 0, 0, 4, 0, 0], constants = [IntV 42], function_table = []\<rparr>"
      and vm = "fresh_vm\<lparr>stack := [],
                  call_stack := [(make_frame 0 0 0 1)\<lparr>instruction_pointer := 3\<rparr>]\<rparr>"
      and fr = "(make_frame 0 0 0 1)\<lparr>instruction_pointer := 3\<rparr>" and frs = "[]"
      and v = "IntV 42" and rest = "[]"
      and c = ?c0 and name = "''x''" and ploc = no_location
      and ty = None and init = "IntLiteralExpr 42 no_location" and loc = no_location
      and ps = "[IdentifierPattern ''x'' no_location]"
      and c' = "projr (compile_stmt ?let_x ?c0)" and ?c1.0 = ?c1
      and scope = "hd (scopes ?c1)" and outer = "tl (scopes ?c1)"]
  note t3 = let_keeps_initializer_value [where fo = integral_float_ops and h = no_files
      and bc = "\<lparr>instructions = [0, 0, 0, 4, 0, 0], constants = [IntV 42], function_table = []\<rparr>"
      and vm = "fresh_vm\<lparr>stack := [IntV 42],
                  call_stack := [(make_frame 0 0 0 1)\<lparr>instruction_pointer := 3\<rparr>]\<rparr>"
      and fr = "(make_frame 0 0 0 1)\<lparr>instruction_pointer := 3\<rparr>" and frs = "[]"
      and v = "IntV 42" and rest = "[]"
      and c = ?c0 and name = "''x''" and ploc = no_location
      and ty = None and init = "TupleExpr [IntLiteralExpr 42 no_location] no_location"
      and loc = no_location and ps = "[IdentifierPattern ''x'' no_location]"
      and c' = "projr (compile_stmt ?let_tuple ?c0)" and ?c1.0 = ?c1
      and scope = "hd (scopes ?c1)" and outer = "tl (scopes ?c1)"]
  show ?thesis
    using t1 t2 t3 by (simp add: vm_eval compiler_eval replicate_numeral_unfold)
qed

text \<open>
  \<open>let () = ()\<close> compiles to \<open>BUILD_TUPLE 0; POP\<close>, and the stack is empty after it: the value
  of the initializer is not left behind. With that let as the last statement of a block,
  \<open>let x = { let () = () }\<close> finds the stack empty at its \<open>STORE_LOCAL\<close>.
\<close>

theorem let_unit_counterexample:
  "map_sum id (\<lambda>c. instructions (bytecode c))
       (compile_stmt (LetStmt (TuplePattern [] no_location) None
                        (TupleExpr [] no_location) no_location)
          (enter_scope (new_compiler :: int Compiler)))
     = Inr [24, 0, 0, 33]
   \<and> run_turns 2 integral_float_ops no_files
         \<lparr>instructions = [24, 0, 0, 33], constants = [], function_table = []\<rparr>
         (fresh_vm\<lparr>call_stack := [make_frame 0 0 0 0]\<rparr>)
       = Inr (False,
              fresh_vm\<lparr>stack := [],
                       call_stack := [\<lparr>function_index = 0, instruction_pointer = 4,
                                       stack_base = 0, locals = []\<rparr>]\<rparr>)
   \<and> compile let_in_block_program = Inr let_in_block_bytecode
   \<and> call_function 100 integral_float_ops no_files let_in_block_bytecode ''main'' [] fresh_vm
       = Some (Inl (RuntimeError ''Stack underflow''))"
proof -
  have c1: "map_sum id (\<lambda>c. instructions (bytecode c))
       (compile_stmt (LetStmt (TuplePattern [] no_location) None
                        (TupleExpr [] no_location) no_location)
          (enter_scope (new_compiler :: int Compiler)))
     = Inr [24, 0, 0, 33]"
    by (simp add: compiler_eval)
  have r1: "run_turns 2 integral_float_ops no_files
         \<lparr>instructions = [24, 0, 0, 33], constants = [], function_table = []\<rparr>
         (fresh_vm\<lparr>call_stack := [make_frame 0 0 0 0]\<rparr>)
       = Inr (False,
              fresh_vm\<lparr>stack := [],
                       call_stack := [\<lparr>function_index = 0, instruction_pointer = 4,
                                       stack_base = 0, locals = []\<rparr>]\<rparr>)"
    by (simp add: vm_eval replicate_numeral_unfold)
  have c2: "compile let_in_block_program = Inr let_in_block_bytecode"
    by (simp add: let_in_block_program_def let_in_block_bytecode_def compiler_eval)
  have r2: "call_function 100 integral_float_ops no_files let_in_block_bytecode ''main'' [] fresh_vm
       = Some (Inl (RuntimeError ''Stack underflow''))"
    by (simp add: let_in_block_bytecode_def vm_eval replicate_numeral_unfold)
  show ?thesis
    using c1 r1 c2 r2 by (simp only: simp_thms)
qed

text \<open>
  C1 fails on the compiled code. \<open>function main() returns Int { let (x, y) = (10, 20) return x + y }\<close>
  compiles to \<open>tuple_let_bytecode\<close>, and running \<open>main\<close> ends with the runtime error
  ``Cannot index into Int'': \<open>STORE_LOCAL\<close> leaves the first element above the tuple, so the
  \<open>DUP\<close> for the second element copies the Int 10 instead of the tuple. Seven instructions in,
  just before that \<open>DUP\<close>, the stack holds the Int 10 above the tuple.
\<close>

theorem tuple_let_fails:
  "compile tuple_let_program = Inr tuple_let_bytecode
   \<and> call_function 100 integral_float_ops no_files tuple_let_bytecode ''main'' [] fresh_vm
       = Some (Inl (RuntimeError ''Cannot index into Int''))
   \<and> run_turns 7 integral_float_ops no_files tuple_let_bytecode
         (fresh_vm\<lparr>call_stack := [make_frame 0 0 0 2]\<rparr>)
       = Inr (False,
              fresh_vm\<lparr>stack := [IntV 10, TupleV [IntV 10, IntV 20]],
                       call_stack := [\<lparr>function_index = 0, instruction_pointer = 17,
                                       stack_base = 0, locals = [IntV 10, IntV 0]\<rparr>]\<rparr>)"
proof -
  have c: "compile tuple_let_program = Inr tuple_let_bytecode"
    by (simp add: tuple_let_program_def tuple_let_bytecode_def compiler_eval)
  have r: "call_function 100 integral_float_ops no_files tuple_let_bytecode ''main'' [] fresh_vm
       = Some (Inl (RuntimeError ''Cannot index into Int''))"
    by (simp add: tuple_let_bytecode_def vm_eval replicate_numeral_unfold)
  have t: "run_turns 7 integral_float_ops no_files tuple_let_bytecode
         (fresh_vm\<lparr>call_stack := [make_frame 0 0 0 2]\<rparr>)
       = Inr (False,
              fresh_vm\<lparr>stack := [IntV 10, TupleV [IntV 10, IntV 20]],
                       call_stack := [\<lparr>function_index = 0, instruction_pointer = 17,
                                       stack_base = 0, locals = [IntV 10, IntV 0]\<rparr>]\<rparr>)"
    by (simp add: tuple_let_bytecode_def vm_eval replicate_numeral_unfold)
  show ?thesis
    using c r t by (simp only: simp_thms)
qed

text \<open>
  C2 fails on the compiled code. In
  \<open>function f() returns Int { let x = 5 return x } function main() returns Int { return f() }\<close>
  the call of \<open>f\<close> has no argument and the caller's stack is empty before it; when the caller
  resumes after the \<open>RETURN\<close> of \<open>f\<close> its stack holds two values, the one left by the let
  statement and the returned one, where the claim gives a height of one.
\<close>

theorem call_return_leaves_two_values:
  "compile callee_let_program = Inr callee_let_bytecode
   \<and> run_turns 1 integral_float_ops no_files callee_let_bytecode
         (fresh_vm\<lparr>call_stack := [make_frame 1 10 0 0]\<rparr>)
       = Inr (False,
              fresh_vm\<lparr>stack := [],
                       call_stack := [\<lparr>function_index = 0, instruction_pointer = 0,
                                       stack_base = 0, locals = [IntV 0]\<rparr>,
                                      \<lparr>function_index = 1, instruction_pointer = 14,
                                       stack_base = 0, locals = []\<rparr>]\<rparr>)
   \<and> run_turns 5 integral_float_ops no_files callee_let_bytecode
         (fresh_vm\<lparr>call_stack := [make_frame 1 10 0 0]\<rparr>)
       = Inr (False,
              fresh_vm\<lparr>stack := [IntV 5, IntV 5],
                       call_stack := [\<lparr>function_index = 1, instruction_pointer = 14,
                                       stack_base = 0, locals = []\<rparr>]\<rparr>)"
proof -
  have c: "compile callee_let_program = Inr callee_let_bytecode"
    by (simp add: callee_let_program_def callee_let_bytecode_def compiler_eval)
  have r1: "run_turns 1 integral_float_ops no_files callee_let_bytecode
         (fresh_vm\<lparr>call_stack := [make_frame 1 10 0 0]\<rparr>)
       = Inr (False,
              fresh_vm\<lparr>stack := [],
                       call_stack := [\<lparr>function_index = 0, instruction_pointer = 0,
                                       stack_base = 0, locals = [IntV 0]\<rparr>,
                                      \<lparr>function_index = 1, instruction_pointer = 14,
                                       stack_base = 0, locals = []\<rparr>]\<rparr>)"
    by (simp add: callee_let_bytecode_def vm_eval replicate_numeral_unfold)
  have r5: "run_turns 5 integral_float_ops no_files callee_let_bytecode
         (fresh_vm\<lparr>call_stack := [make_frame 1 10 0 0]\<rparr>)
       = Inr (False,
              fresh_vm\<lparr>stack := [IntV 5, IntV 5],
                       call_stack := [\<lparr>function_index = 1, instruction_pointer = 14,
                                       stack_base = 0, locals = []\<rparr>]\<rparr>)"
    by (simp add: callee_let_bytecode_def vm_eval replicate_numeral_unfold)
  show ?thesis
    using c r1 r5 by (simp only: simp_thms)
qed

section \<open>The token list of the lexer\<close>

lemma skip_whitespace_unfold:
  "\<not> is_at_end lx \<Longrightarrow>
   skip_whitespace lx =
     (if \<not> is_at_end lx then
        (let c = lx_peek lx in
         if c = CHR '' '' \<or> c = CHR 0x09 \<or> c = CHR 0x0D then skip_whitespace (snd (advance lx))
         else if c = CHR 0x0A then
           (let lx1 = snd (advance lx) in
            skip_whitespace (lx1\<lparr>lx_line := lx_line lx1 + 1, lx_line_start := lx_current lx1\<rparr>))
         else lx)
      else lx)"
  by (rule skip_whitespace.simps)

lemma skip_whitespace_at_end:
  "is_at_end lx \<Longrightarrow> skip_whitespace lx = lx"
  by (subst skip_whitespace.simps) simp

lemma skip_comment_unfold:
  "\<not> is_at_end lx \<Longrightarrow>
   skip_comment lx =
     (if \<not> is_at_end lx \<and> lx_peek lx \<noteq> CHR 0x0A then skip_comment (snd (advance lx)) else lx)"
  by (rule skip_comment.simps)

lemma skip_comment_at_end:
  "is_at_end lx \<Longrightarrow> skip_comment lx = lx"
  by (subst skip_comment.simps) simp

lemma skip_multiline_loop_unfold:
  "\<not> is_at_end lx \<Longrightarrow>
   skip_multiline_loop depth lx =
     (if \<not> is_at_end lx \<and> depth > 0 then
        (if lx_peek lx = CHR '']'' \<and> peek_next lx = CHR ''#''
         then skip_multiline_loop (depth - 1) (snd (advance (snd (advance lx))))
         else if lx_peek lx = CHR 0x0A then
           (let lx1 = snd (advance lx) in
            skip_multiline_loop depth
              (lx1\<lparr>lx_line := lx_line lx1 + 1, lx_line_start := lx_current lx1\<rparr>))
         else skip_multiline_loop depth (snd (advance lx)))
      else lx)"
  by (rule skip_multiline_loop.simps)

lemma skip_multiline_loop_at_end:
  "is_at_end lx \<Longrightarrow> skip_multiline_loop depth lx = lx"
  by (subst skip_multiline_loop.simps) simp

lemma scan_string_loop_unfold:
  "\<not> is_at_end lx \<Longrightarrow>
   scan_string_loop val lx =
     (if \<not> is_at_end lx \<and> lx_peek lx \<noteq> CHR 0x22 then
        (if lx_peek lx = CHR 0x0A then
           (let lx1 = lx\<lparr>lx_line := lx_line lx + 1, lx_line_start := lx_current lx + 1\<rparr>
            in scan_string_loop (val @ [fst (advance lx1)]) (snd (advance lx1)))
         else if lx_peek lx = CHR 0x5C then
           (let lx1 = snd (advance lx) in
            if is_at_end lx1 then (Some (error_token ''Unterminated string literal'' lx1), val, lx1)
            else
              (let c = fst (advance lx1) in
               scan_string_loop
                 (if c = CHR ''n'' then val @ [CHR 0x0A]
                  else if c = CHR ''t'' then val @ [CHR 0x09]
                  else if c = CHR ''r'' then val @ [CHR 0x0D]
                  else if c = CHR 0x5C then val @ [CHR 0x5C]
                  else if c = CHR 0x22 then val @ [CHR 0x22]
                  else val @ [CHR 0x5C, c])
                 (snd (advance lx1))))
         else scan_string_loop (val @ [fst (advance lx)]) (snd (advance lx)))
      else (None, val, lx))"
  by (rule scan_string_loop.simps)

lemma scan_string_loop_at_end:
  "is_at_end lx \<Longrightarrow> scan_string_loop val lx = (None, val, lx)"
  by (subst scan_string_loop.simps) simp

lemma scan_token_unfold:
  "\<not> is_at_end lx0 \<Longrightarrow>
   scan_token fo lx0 =
     (let lx1 = skip_whitespace lx0 in
      if is_at_end lx1 then (make_token T_Eof lx1, lx1)
      else
        (case advance (lx1\<lparr>lx_start := lx_current lx1\<rparr>) of (c, lx) \<Rightarrow>
           if c = CHR ''('' then (make_token T_LeftParen lx, lx)
           else if c = CHR '')'' then (make_token T_RightParen lx, lx)
           else if c = CHR ''{'' then (make_token T_LeftBrace lx, lx)
           else if c = CHR ''}'' then (make_token T_RightBrace lx, lx)
           else if c = CHR ''['' then (make_token T_LeftBracket lx, lx)
           else if c = CHR '']'' then (make_token T_RightBracket lx, lx)
           else if c = CHR '','' then (make_token T_Comma lx, lx)
           else if c = CHR ''.'' then (make_token T_Dot lx, lx)
           else if c = CHR '':'' then (make_token T_Colon lx, lx)
           else if c = CHR ''+'' then (make_token T_Plus lx, lx)
           else if c = CHR ''-'' then (make_token T_Minus lx, lx)
           else if c = CHR ''%'' then (make_token T_Percent lx, lx)
           else if c = CHR ''/'' then (make_token T_Slash lx, lx)
           else if c = CHR ''*'' then
             (case lx_match (CHR ''*'') lx of (m, lx') \<Rightarrow>
                if m then (make_token T_Power lx', lx') else (make_token T_Star lx', lx'))
           else if c = CHR ''='' then
             (case lx_match (CHR ''='') lx of (m, lx') \<Rightarrow>
                if m then (make_token T_Equal lx', lx') else (make_token T_Assign lx', lx'))
           else if c = CHR ''!'' then
             (case lx_match (CHR ''='') lx of (m, lx') \<Rightarrow>
                if m then (make_token T_NotEqual lx', lx')
                else (error_token (''Unexpected character '' @ [CHR 0x27, CHR ''!'', CHR 0x27]) lx', lx'))
           else if c = CHR ''<'' then
             (case lx_match (CHR ''='') lx of (m, lx') \<Rightarrow>
                if m then (make_token T_LessEqual lx', lx') else (make_token T_Less lx', lx'))
           else if c = CHR ''>'' then
             (case lx_match (CHR ''='') lx of (m, lx') \<Rightarrow>
                if m then (make_token T_GreaterEqual lx', lx') else (make_token T_Greater lx', lx'))
           else if c = CHR 0x22 then scan_string lx
           else if c = CHR ''#'' then
             (if fst (lx_match (CHR ''['') lx)
              then scan_token fo (skip_multiline_comment (snd (lx_match (CHR ''['') lx)))
              else scan_token fo (skip_comment (snd (lx_match (CHR ''['') lx))))
           else if is_digit c then scan_number fo lx
           else if is_alpha c \<or> c = CHR ''_'' then scan_identifier lx
           else (error_token (''Unexpected character: '' @ [CHR 0x27, c, CHR 0x27]) lx, lx)))"
  by (rule scan_token.simps)

lemma scan_token_at_end:
  "is_at_end lx0 \<Longrightarrow> scan_token fo lx0 = (make_token T_Eof lx0, lx0)"
  by (subst scan_token.simps, subst skip_whitespace.simps) (simp add: Let_def)

lemma tokenize_loop_unfold:
  "\<not> is_at_end lx \<Longrightarrow>
   tokenize_loop fo tokens lx =
     (if \<not> is_at_end lx then
        (let r = next_token fo lx;
             tokens' = tokens @ [fst r]
         in if tok_type (fst r) = T_Eof \<or> tok_type (fst r) = T_Error then (tokens', snd r)
            else tokenize_loop fo tokens' (snd r))
      else (tokens, lx))"
  by (rule tokenize_loop.simps)

lemma scan_identifier_loop_go:
  "is_alnum (lx_peek lx) \<or> lx_peek lx = CHR ''_''
   \<Longrightarrow> scan_identifier_loop lx = scan_identifier_loop (snd (advance lx))"
  by (subst scan_identifier_loop.simps) simp

lemma scan_identifier_loop_stop:
  "\<not> (is_alnum (lx_peek lx) \<or> lx_peek lx = CHR ''_'') \<Longrightarrow> scan_identifier_loop lx = lx"
  by (subst scan_identifier_loop.simps) simp

lemma scan_digits_go:
  "is_digit (lx_peek lx) \<or> lx_peek lx = CHR ''_''
   \<Longrightarrow> scan_digits lx = scan_digits (snd (advance lx))"
  by (subst scan_digits.simps) simp

lemma scan_digits_stop:
  "\<not> (is_digit (lx_peek lx) \<or> lx_peek lx = CHR ''_'') \<Longrightarrow> scan_digits lx = lx"
  by (subst scan_digits.simps) simp

lemma tokenize_loop_end: "is_at_end lx \<Longrightarrow> tokenize_loop fo tokens lx = (tokens, lx)"
  by (subst tokenize_loop.simps) simp

named_theorems lexer_eval

lemmas [lexer_eval] =
  tokenize_def tokenize_loop_end next_token_def skip_multiline_comment_def scan_identifier_def
  scan_number_def scan_string_def make_lexer_def is_at_end_def advance_def lx_peek_def
  peek_next_def lx_match_def make_token_def make_token_with_def error_token_def
  token_location_def size_sub_def size_add_def substr_def is_digit_def is_alpha_def
  is_alnum_def identifier_type_def keyword_table_def int_from_chars_def decimal_value_def Let_def
  scan_identifier_loop_go scan_identifier_loop_stop scan_digits_go scan_digits_stop
  skip_whitespace_unfold skip_whitespace_at_end skip_comment_unfold skip_comment_at_end skip_multiline_loop_unfold skip_multiline_loop_at_end scan_string_loop_unfold scan_string_loop_at_end scan_token_unfold scan_token_at_end tokenize_loop_unfold








end
